theory Spec2Isabelle
  imports Main
begin

text \<open>
  A command-line assistant for GitHub repositories: \<open>src/tools.js\<close> defines eight tools
  over the GitHub client and \<open>simple-git\<close>, and \<open>src/index.js\<close> wires a language
  model and a tool node into a graph (assistant, tools, assistant, ... until the assistant
  asks for no tool) that \<open>main\<close> runs once per line typed by the user. This theory
  embeds both files and proves what they send to their collaborators, what they return and
  how the loop goes on and ends.
\<close>

section \<open>JavaScript values\<close>

text \<open>
  The data that crosses the program's boundaries (the arguments the language model gives to
  a tool, the responses of the GitHub client \<open>octokit\<close> and of \<open>simple-git\<close>, and the
  values they throw) is plain JSON-like data. It is dynamically typed in the source, so it is
  dynamically typed here. Numbers are integers (ids, status codes, page numbers); strings
  are byte strings (a code point beyond ASCII is its UTF-8 bytes); an object is the list of
  its properties in their order, with distinct names.
\<close>

datatype jsval =
    JUndefined
  | JNull
  | JBool bool
  | JNum int
  | JStr string
  | JArr "jsval list"
  | JObj "(string \<times> jsval) list"

definition TypeError :: "string \<Rightarrow> jsval" where
  "TypeError msg = JObj [(''name'', JStr ''TypeError''), (''message'', JStr msg)]"

text \<open>
  Property read \<open>v.k\<close>: it throws a TypeError on \<open>undefined\<close> and \<open>null\<close>, gives the
  property of an object (\<open>undefined\<close> when absent), and \<open>undefined\<close> on the other
  values: none of the property names the source reads is a built-in property of a string,
  a number, a boolean or an array. Destructuring \<open>const { k } = v\<close> is the same read.
\<close>

definition getp :: "jsval \<Rightarrow> string \<Rightarrow> jsval + jsval" where
  "getp v k =
     (case v of
        JUndefined \<Rightarrow> Inl (TypeError (''Cannot read properties of undefined (reading '' @ k @ '')''))
      | JNull \<Rightarrow> Inl (TypeError (''Cannot read properties of null (reading '' @ k @ '')''))
      | JObj kvs \<Rightarrow> Inr (case map_of kvs k of Some x \<Rightarrow> x | None \<Rightarrow> JUndefined)
      | _ \<Rightarrow> Inr JUndefined)"

text \<open>Optional chaining \<open>v?.k\<close>.\<close>

definition getp_opt :: "jsval \<Rightarrow> string \<Rightarrow> jsval + jsval" where
  "getp_opt v k = (if v = JUndefined \<or> v = JNull then Inr JUndefined else getp v k)"

text \<open>Sequencing of steps that may throw: the first throw ends the sequence.\<close>

definition ex_bind :: "jsval + 'a \<Rightarrow> ('a \<Rightarrow> jsval + 'b) \<Rightarrow> jsval + 'b" where
  "ex_bind r f = (case r of Inl e \<Rightarrow> Inl e | Inr x \<Rightarrow> f x)"

definition js_truthy :: "jsval \<Rightarrow> bool" where
  "js_truthy v =
     (case v of
        JUndefined \<Rightarrow> False
      | JNull \<Rightarrow> False
      | JBool b \<Rightarrow> b
      | JNum n \<Rightarrow> n \<noteq> 0
      | JStr s \<Rightarrow> s \<noteq> []
      | _ \<Rightarrow> True)"

subsection \<open>Conversion to string: template literals and \<open>+\<close> on a string\<close>

definition digit_chars :: string where
  "digit_chars = ''0123456789''"

fun digits :: "nat \<Rightarrow> string" where
  "digits n =
     (if n < 10 then [digit_chars ! n] else digits (n div 10) @ [digit_chars ! (n mod 10)])"

declare digits.simps [simp del]

fun js_String :: "jsval \<Rightarrow> string"
  and js_join :: "jsval list \<Rightarrow> string" where
  "js_String JUndefined = ''undefined''"
| "js_String JNull = ''null''"
| "js_String (JBool b) = (if b then ''true'' else ''false'')"
| "js_String (JNum n) = (if n < 0 then ''-'' @ digits (nat (- n)) else digits (nat n))"
| "js_String (JStr s) = s"
| "js_String (JArr xs) = js_join xs"
| "js_String (JObj kvs) = ''[object Object]''"
| "js_join [] = ''''"
| "js_join (x # xs) =
     (if x = JUndefined \<or> x = JNull then '''' else js_String x) @
     (if xs = [] then '''' else '','' @ js_join xs)"

subsection \<open>\<open>JSON.stringify\<close>\<close>

definition hex_chars :: string where
  "hex_chars = ''0123456789abcdef''"

text \<open>
  Quoting of one character: the quote and the backslash are escaped, the control characters
  have their short or \<open>\u00XX\<close> form, every other character stands for itself.
\<close>

definition json_char :: "char \<Rightarrow> string" where
  "json_char c =
     (let n = (of_char c :: nat) in
      if n = 0x22 then [CHR 0x5C, CHR 0x22]
      else if n = 0x5C then [CHR 0x5C, CHR 0x5C]
      else if n = 0x08 then [CHR 0x5C, CHR ''b'']
      else if n = 0x0C then [CHR 0x5C, CHR ''f'']
      else if n = 0x0A then [CHR 0x5C, CHR ''n'']
      else if n = 0x0D then [CHR 0x5C, CHR ''r'']
      else if n = 0x09 then [CHR 0x5C, CHR ''t'']
      else if n < 0x20 then [CHR 0x5C, CHR ''u'', CHR ''0'', CHR ''0'', hex_chars ! (n div 16), hex_chars ! (n mod 16)]
      else [c])"

definition json_quote :: "string \<Rightarrow> string" where
  "json_quote s = [CHR 0x22] @ concat (map json_char s) @ [CHR 0x22]"

fun commas :: "string list \<Rightarrow> string" where
  "commas [] = ''''"
| "commas [x] = x"
| "commas (x # y # ys) = x @ '','' @ commas (y # ys)"

text \<open>
  A property whose value is \<open>undefined\<close> is left out of an object, and an \<open>undefined\<close>
  element of an array is written \<open>null\<close>. \<open>JSON.stringify(undefined)\<close> is not a string;
  the source applies \<open>JSON.stringify\<close> to an object literal or to the result of
  \<open>Array.prototype.map\<close> only, so that case is never evaluated.
\<close>

fun JSON_stringify :: "jsval \<Rightarrow> string"
  and json_elems :: "jsval list \<Rightarrow> string list"
  and json_props :: "(string \<times> jsval) list \<Rightarrow> string list" where
  "JSON_stringify JUndefined = ''undefined''"
| "JSON_stringify JNull = ''null''"
| "JSON_stringify (JBool b) = (if b then ''true'' else ''false'')"
| "JSON_stringify (JNum n) = js_String (JNum n)"
| "JSON_stringify (JStr s) = json_quote s"
| "JSON_stringify (JArr xs) = ''['' @ commas (json_elems xs) @ '']''"
| "JSON_stringify (JObj kvs) = ''{'' @ commas (json_props kvs) @ ''}''"
| "json_elems [] = []"
| "json_elems (x # xs) = (if x = JUndefined then ''null'' else JSON_stringify x) # json_elems xs"
| "json_props [] = []"
| "json_props ((k, v) # kvs) =
     (if v = JUndefined then json_props kvs
      else (json_quote k @ '':'' @ JSON_stringify v) # json_props kvs)"

text \<open>The property names that \<open>JSON.stringify\<close> writes for an object.\<close>

definition json_keys :: "jsval \<Rightarrow> string list" where
  "json_keys v = (case v of JObj kvs \<Rightarrow> map fst (filter (\<lambda>kv. snd kv \<noteq> JUndefined) kvs) | _ \<Rightarrow> [])"

subsection \<open>String and array methods the source calls\<close>

fun find_first :: "string \<Rightarrow> string \<Rightarrow> (string \<times> string) option" where
  "find_first pat [] = (if pat = [] then Some ([], []) else None)"
| "find_first pat (c # cs) =
     (if take (length pat) (c # cs) = pat then Some ([], drop (length pat) (c # cs))
      else (case find_first pat cs of None \<Rightarrow> None | Some (b, a) \<Rightarrow> Some (c # b, a)))"

text \<open>
  The replacement text of \<open>String.prototype.replace\<close>: \<open>$$\<close> is a dollar sign, \<open>$&\<close>
  the matched text, \<open>$`\<close> the text before the match and \<open>$'\<close> the text after it; with a
  string pattern there are no groups, so any other \<open>$\<close> stands for itself.
\<close>

fun substitution :: "string \<Rightarrow> string \<Rightarrow> string \<Rightarrow> string \<Rightarrow> string" where
  "substitution m b a [] = []"
| "substitution m b a [c] = [c]"
| "substitution m b a (c # d # ds) =
     (if c \<noteq> CHR ''$'' then c # substitution m b a (d # ds)
      else if d = CHR ''$'' then CHR ''$'' # substitution m b a ds
      else if d = CHR ''&'' then m @ substitution m b a ds
      else if d = CHR 0x60 then b @ substitution m b a ds
      else if d = CHR 0x27 then a @ substitution m b a ds
      else c # substitution m b a (d # ds))"

text \<open>\<open>s.replace(pat, rep)\<close> with strings \<open>pat\<close> and \<open>rep\<close>: the first occurrence only.\<close>

definition js_replace :: "jsval \<Rightarrow> string \<Rightarrow> string \<Rightarrow> jsval + string" where
  "js_replace v pat rep =
     (case v of
        JStr s \<Rightarrow>
          (case find_first pat s of
             None \<Rightarrow> Inr s
           | Some (b, a) \<Rightarrow> Inr (b @ substitution pat b a rep @ a))
      | JUndefined \<Rightarrow> Inl (TypeError ''Cannot read properties of undefined (reading replace)'')
      | JNull \<Rightarrow> Inl (TypeError ''Cannot read properties of null (reading replace)'')
      | _ \<Rightarrow> Inl (TypeError ''replace is not a function''))"

fun has_infix :: "string \<Rightarrow> string \<Rightarrow> bool" where
  "has_infix pat [] = (pat = [])"
| "has_infix pat (c # cs) = (take (length pat) (c # cs) = pat \<or> has_infix pat cs)"

text \<open>\<open>v.includes(s)\<close> for a string \<open>s\<close>: an array method and a string method.\<close>

definition js_includes :: "jsval \<Rightarrow> string \<Rightarrow> jsval + bool" where
  "js_includes v s =
     (case v of
        JArr xs \<Rightarrow> Inr (JStr s \<in> set xs)
      | JStr t \<Rightarrow> Inr (has_infix s t)
      | JUndefined \<Rightarrow> Inl (TypeError ''Cannot read properties of undefined (reading includes)'')
      | JNull \<Rightarrow> Inl (TypeError ''Cannot read properties of null (reading includes)'')
      | _ \<Rightarrow> Inl (TypeError ''includes is not a function''))"

text \<open>\<open>xs.find((r) => r.name === n)\<close>: the first such element, \<open>undefined\<close> when none.\<close>

fun find_named :: "string \<Rightarrow> jsval list \<Rightarrow> jsval + jsval" where
  "find_named n [] = Inr JUndefined"
| "find_named n (r # rs) =
     (case getp r ''name'' of
        Inl e \<Rightarrow> Inl e
      | Inr v \<Rightarrow> if v = JStr n then Inr r else find_named n rs)"

definition js_find_named :: "jsval \<Rightarrow> string \<Rightarrow> jsval + jsval" where
  "js_find_named v n =
     (case v of
        JArr xs \<Rightarrow> find_named n xs
      | JUndefined \<Rightarrow> Inl (TypeError ''Cannot read properties of undefined (reading find)'')
      | JNull \<Rightarrow> Inl (TypeError ''Cannot read properties of null (reading find)'')
      | _ \<Rightarrow> Inl (TypeError ''find is not a function''))"

text \<open>\<open>xs.map(f)\<close>, where \<open>f\<close> may throw: the first throw ends the map.\<close>

fun map_throwing :: "(jsval \<Rightarrow> jsval + jsval) \<Rightarrow> jsval list \<Rightarrow> jsval + jsval list" where
  "map_throwing f [] = Inr []"
| "map_throwing f (x # xs) =
     (case f x of
        Inl e \<Rightarrow> Inl e
      | Inr y \<Rightarrow> (case map_throwing f xs of Inl e \<Rightarrow> Inl e | Inr ys \<Rightarrow> Inr (y # ys)))"

definition js_map :: "jsval \<Rightarrow> (jsval \<Rightarrow> jsval + jsval) \<Rightarrow> jsval + jsval" where
  "js_map v f =
     (case v of
        JArr xs \<Rightarrow> (case map_throwing f xs of Inl e \<Rightarrow> Inl e | Inr ys \<Rightarrow> Inr (JArr ys))
      | JUndefined \<Rightarrow> Inl (TypeError ''Cannot read properties of undefined (reading map)'')
      | JNull \<Rightarrow> Inl (TypeError ''Cannot read properties of null (reading map)'')
      | _ \<Rightarrow> Inl (TypeError ''map is not a function''))"

subsection \<open>\<open>Buffer.from(s).toString("base64")\<close>\<close>

definition b64_chars :: string where
  "b64_chars = ''ABCDEFGHIJKLMNOPQRSTUVWXYZabcdefghijklmnopqrstuvwxyz0123456789+/''"

text \<open>
  Three bytes give four characters of six bits each; one or two remaining bytes are padded
  with zero bits and the output with \<open>=\<close>.
\<close>

fun base64 :: "string \<Rightarrow> string" where
  "base64 [] = []"
| "base64 [a] =
     (let x = (of_char a :: nat)
      in [b64_chars ! (x div 4), b64_chars ! (x mod 4 * 16), CHR ''='', CHR ''=''])"
| "base64 [a, b] =
     (let x = (of_char a :: nat); y = (of_char b :: nat)
      in [b64_chars ! (x div 4), b64_chars ! (x mod 4 * 16 + y div 16),
          b64_chars ! (y mod 16 * 4), CHR ''=''])"
| "base64 (a # b # c # rest) =
     (let x = (of_char a :: nat); y = (of_char b :: nat); z = (of_char c :: nat)
      in [b64_chars ! (x div 4), b64_chars ! (x mod 4 * 16 + y div 16),
          b64_chars ! (y mod 16 * 4 + z div 64), b64_chars ! (z mod 64)] @ base64 rest)"

section \<open>Effects: collaborator calls, faults and the event log\<close>

text \<open>
  A tool talks to two collaborators, the GitHub client (\<open>octokit\<close>) and \<open>simple-git\<close>,
  and writes to the console. Each call is recorded, with its arguments and its outcome, in a
  log in the order the calls happen; \<open>Inl\<close> is a thrown value (a rejected promise),
  \<open>Inr\<close> a returned one. What a collaborator answers is not decided by this program: it
  is the parameter \<open>respond\<close> of the environment, which sees the log so far, the method
  and the arguments.
\<close>

datatype event = Event (ev_name: string) (ev_args: "jsval list") (ev_outcome: "jsval + jsval")

definition failed :: "event \<Rightarrow> bool" where
  "failed e = (case ev_outcome e of Inl x \<Rightarrow> True | Inr v \<Rightarrow> False)"

datatype tool_call = ToolCall (tc_name: string) (tc_args: jsval) (tc_id: string)

datatype message =
    SystemMessage string
  | HumanMessage string
  | AIMessage string "tool_call list"
  | ToolMessage string string string

text \<open>
  The environment of the process: the collaborators, the language model behind
  \<open>llm.invoke\<close>, \<open>process.env.GITHUB_ACCESS_TOKEN\<close> (\<open>None\<close> when unset),
  \<open>__dirname\<close>, and \<open>path.join\<close> of \<open>node:path\<close> on two arguments.
\<close>

record env =
  respond :: "event list \<Rightarrow> string \<Rightarrow> jsval list \<Rightarrow> jsval + jsval"
  llm_invoke :: "message list \<Rightarrow> jsval + message"
  GITHUB_ACCESS_TOKEN :: "string option"
  dirname :: string
  path_join :: "string \<Rightarrow> string \<Rightarrow> string"

type_synonym 'a io = "event list \<Rightarrow> (jsval + 'a) \<times> event list"

definition io_return :: "'a \<Rightarrow> 'a io" where
  "io_return x = (\<lambda>w. (Inr x, w))"

definition io_throw :: "jsval \<Rightarrow> 'a io" where
  "io_throw e = (\<lambda>w. (Inl e, w))"

definition io_bind :: "'a io \<Rightarrow> ('a \<Rightarrow> 'b io) \<Rightarrow> 'b io" where
  "io_bind m f = (\<lambda>w. case m w of (Inl e, w') \<Rightarrow> (Inl e, w') | (Inr x, w') \<Rightarrow> f x w')"

definition io_lift :: "jsval + 'a \<Rightarrow> 'a io" where
  "io_lift r = (\<lambda>w. (r, w))"

definition try_catch :: "'a io \<Rightarrow> (jsval \<Rightarrow> 'a io) \<Rightarrow> 'a io" where
  "try_catch m h = (\<lambda>w. case m w of (Inl e, w') \<Rightarrow> h e w' | (Inr x, w') \<Rightarrow> (Inr x, w'))"

definition io_call :: "env \<Rightarrow> string \<Rightarrow> jsval list \<Rightarrow> jsval io" where
  "io_call E name args = (\<lambda>w. let r = respond E w name args in (r, w @ [Event name args r]))"

definition console :: "string \<Rightarrow> jsval list \<Rightarrow> unit io" where
  "console name args = (\<lambda>w. (Inr (), w @ [Event name args (Inr JUndefined)]))"

definition io_prop :: "jsval \<Rightarrow> string \<Rightarrow> jsval io" where
  "io_prop v k = io_lift (getp v k)"

text \<open>
  The frame every tool function has:
  \<^verbatim>\<open>try { ... } catch (error) { console.error("ERROR: ", error) }  return FAILURE\<close>.
  The body gives \<open>Some s\<close> when it reaches a \<open>return s\<close> inside the \<open>try\<close> block and
  \<open>None\<close> when it runs off the end of the block.
\<close>

definition try_or :: "string option io \<Rightarrow> string \<Rightarrow> string io" where
  "try_or body failure =
     io_bind
       (try_catch body
          (\<lambda>error. io_bind (console ''console.error'' [JStr ''ERROR: '', error]) (\<lambda>u. io_return None)))
       (\<lambda>r. io_return (case r of Some s \<Rightarrow> s | None \<Rightarrow> failure))"

section \<open>The tools (\<open>src/tools.js\<close>)\<close>

definition getOwner :: "env \<Rightarrow> jsval io" where
  "getOwner E =
     io_bind (io_call E ''octokit.rest.users.getAuthenticated'' []) (\<lambda>resp.
     io_bind (io_prop resp ''data'') (\<lambda>data.
     io_prop data ''login''))"

definition getRepoDetails :: "env \<Rightarrow> jsval \<Rightarrow> jsval \<Rightarrow> jsval io" where
  "getRepoDetails E owner repo =
     io_bind (io_call E ''octokit.rest.repos.get'' [JObj [(''owner'', owner), (''repo'', repo)]]) (\<lambda>resp.
     io_prop resp ''data'')"

subsection \<open>createGitRepository\<close>

definition createGitRepository_failure :: string where
  "createGitRepository_failure = ''Not able to create git repository, try again later''"

definition createGitRepository_body :: "env \<Rightarrow> jsval \<Rightarrow> string option io" where
  "createGitRepository_body E params =
     io_bind (io_prop params ''repoName'') (\<lambda>repoName.
     io_bind (io_prop params ''description'') (\<lambda>description.
     io_bind (io_call E ''octokit.request''
                [JStr ''POST /user/repos'',
                 JObj [(''name'', repoName),
                       (''description'', description),
                       (''homepage'', JStr ''https://github.com''),
                       (''private'', JBool False),
                       (''auto_init'', JBool False),
                       (''headers'', JObj [(''X-GitHub-Api-Version'', JStr ''2022-11-28'')])]]) (\<lambda>response.
     io_bind (io_prop response ''data'') (\<lambda>data.
     io_bind (io_prop data ''html_url'') (\<lambda>html_url.
     io_return (Some (''git repository created successfully!! '' @ js_String html_url)))))))"

definition createGitRepository_func :: "env \<Rightarrow> jsval \<Rightarrow> string io" where
  "createGitRepository_func E params =
     try_or (createGitRepository_body E params) createGitRepository_failure"

subsection \<open>deleteRepository\<close>

definition deleteRepository_failure :: string where
  "deleteRepository_failure = ''Not able to delete the repository''"

definition deleteRepository_body :: "env \<Rightarrow> jsval \<Rightarrow> string option io" where
  "deleteRepository_body E params =
     io_bind (io_prop params ''repoName'') (\<lambda>repoName.
     io_bind (getOwner E) (\<lambda>owner.
     io_bind (io_call E ''octokit.rest.repos.delete''
                [JObj [(''owner'', owner), (''repo'', repoName)]]) (\<lambda>response.
     io_bind (io_lift (getp_opt response ''status'')) (\<lambda>status.
     if status = JNum 204 then io_return (Some ''Repository deleted successfully!'')
     else io_return None))))"

definition deleteRepository_func :: "env \<Rightarrow> jsval \<Rightarrow> string io" where
  "deleteRepository_func E params =
     try_or (deleteRepository_body E params) deleteRepository_failure"

subsection \<open>getRepository\<close>

definition getRepository_failure :: string where
  "getRepository_failure = ''Not able to fetch more details of the repository''"

text \<open>The object literal \<open>repoDetails\<close>; reading \<open>data.owner.login\<close> can throw.\<close>

definition repoDetails :: "jsval \<Rightarrow> jsval + jsval" where
  "repoDetails data =
     ex_bind (getp data ''id'') (\<lambda>v_id.
     ex_bind (getp data ''name'') (\<lambda>v_name.
     ex_bind (getp data ''description'') (\<lambda>v_description.
     ex_bind (ex_bind (getp data ''owner'') (\<lambda>owner. getp owner ''login'')) (\<lambda>v_owner.
     ex_bind (getp data ''private'') (\<lambda>v_private.
     ex_bind (getp data ''html_url'') (\<lambda>v_url.
     ex_bind (getp data ''created_at'') (\<lambda>v_createdAt.
     ex_bind (ex_bind (getp data ''owner'') (\<lambda>owner. getp owner ''avatar_url'')) (\<lambda>v_avatarUrl.
     ex_bind (ex_bind (getp data ''owner'') (\<lambda>owner. getp owner ''user_view_type'')) (\<lambda>v_userViewType.
     Inr (JObj [(''id'', v_id),
                (''name'', v_name),
                (''description'', v_description),
                (''owner'', v_owner),
                (''private'', v_private),
                (''url'', v_url),
                (''createdAt'', v_createdAt),
                (''avatarUrl'', v_avatarUrl),
                (''userViewType'', v_userViewType)]))))))))))"

definition getRepository_body :: "env \<Rightarrow> jsval \<Rightarrow> string option io" where
  "getRepository_body E params =
     io_bind (io_prop params ''repoName'') (\<lambda>repoName.
     io_bind (getOwner E) (\<lambda>owner.
     io_bind (getRepoDetails E owner repoName) (\<lambda>data.
     io_bind (io_lift (repoDetails data)) (\<lambda>details.
     io_return (Some (JSON_stringify details))))))"

definition getRepository_func :: "env \<Rightarrow> jsval \<Rightarrow> string io" where
  "getRepository_func E params =
     try_or (getRepository_body E params) getRepository_failure"

subsection \<open>gitPush\<close>

definition check_mark :: string where
  "check_mark = [CHR 0xE2, CHR 0x9C, CHR 0x85]"

definition cross_mark :: string where
  "cross_mark = [CHR 0xE2, CHR 0x9D, CHR 0x8C]"

definition warning_sign :: string where
  "warning_sign = [CHR 0xE2, CHR 0x9A, CHR 0xA0, CHR 0xEF, CHR 0xB8, CHR 0x8F]"

definition gitPush_success :: string where
  "gitPush_success = check_mark @ '' Files pushed successfully!''"

definition gitPush_failure :: string where
  "gitPush_failure = cross_mark @ '' Git push operation failed''"

text \<open>The template literal \<open>`https://${process.env.GITHUB_ACCESS_TOKEN}@`\<close>.\<close>

definition token_prefix :: "env \<Rightarrow> string" where
  "token_prefix E =
     ''https://'' @ (case GITHUB_ACCESS_TOKEN E of None \<Rightarrow> ''undefined'' | Some t \<Rightarrow> t) @ ''@''"

definition authedUrl :: "env \<Rightarrow> jsval \<Rightarrow> jsval + string" where
  "authedUrl E html_url = js_replace html_url ''https://'' (token_prefix E)"

definition projectPath :: "env \<Rightarrow> jsval \<Rightarrow> string" where
  "projectPath E projectName = path_join E (dirname E) (''../'' @ js_String projectName)"

text \<open>Step 4 of the source: switch to \<open>main\<close>, creating it when it is not a local branch.\<close>

definition switch_main :: "env \<Rightarrow> unit io" where
  "switch_main E =
     io_bind (io_call E ''git.branchLocal'' []) (\<lambda>branches.
     io_bind (io_prop branches ''all'') (\<lambda>all.
     io_bind (io_lift (js_includes all ''main'')) (\<lambda>has_main.
     io_bind (if has_main then io_call E ''git.checkout'' [JStr ''main'']
              else io_call E ''git.checkoutLocalBranch'' [JStr ''main'']) (\<lambda>u.
     io_return ()))))"

text \<open>Step 5: set the remote \<open>origin\<close>, removing an existing one first.\<close>

definition set_origin :: "env \<Rightarrow> string \<Rightarrow> unit io" where
  "set_origin E url =
     io_bind (io_call E ''git.getRemotes'' [JBool True]) (\<lambda>remotes.
     io_bind (io_lift (js_find_named remotes ''origin'')) (\<lambda>found.
     io_bind (if js_truthy found then io_call E ''git.removeRemote'' [JStr ''origin'']
              else io_return JUndefined) (\<lambda>u.
     io_bind (io_call E ''git.addRemote'' [JStr ''origin'', JStr url]) (\<lambda>u.
     io_return ()))))"

text \<open>Step 6: pull with rebase inside its own \<open>try\<close>; the handler reads \<open>pullErr.message\<close>.\<close>

definition pull_rebase :: "env \<Rightarrow> unit io" where
  "pull_rebase E =
     try_catch
       (io_bind (io_call E ''git.pull''
                   [JStr ''origin'', JStr ''main'', JObj [(''--rebase'', JStr ''true'')]]) (\<lambda>u.
        io_return ()))
       (\<lambda>pullErr.
          io_bind (io_prop pullErr ''message'') (\<lambda>msg.
          console ''console.warn''
            [JStr (warning_sign @ '' Pull failed (probably empty repo):''), msg]))"

definition gitPush_body :: "env \<Rightarrow> jsval \<Rightarrow> string option io" where
  "gitPush_body E params =
     io_bind (io_prop params ''projectName'') (\<lambda>projectName.
     io_bind (io_prop params ''repoName'') (\<lambda>repoName.
     io_bind (io_prop params ''commitMessage'') (\<lambda>commitMessage.
     io_bind (getOwner E) (\<lambda>owner.
     io_bind (getRepoDetails E owner repoName) (\<lambda>data.
     io_bind (io_prop data ''html_url'') (\<lambda>html_url.
     io_bind (io_lift (authedUrl E html_url)) (\<lambda>url.
     io_bind (io_call E ''simpleGit'' [JStr (projectPath E projectName)]) (\<lambda>git.
     io_bind (io_call E ''git.init'' []) (\<lambda>u.
     io_bind (io_call E ''git.add'' [JStr ''./*'']) (\<lambda>u.
     io_bind (io_call E ''git.commit'' [commitMessage]) (\<lambda>u.
     io_bind (switch_main E) (\<lambda>u.
     io_bind (set_origin E url) (\<lambda>u.
     io_bind (pull_rebase E) (\<lambda>u.
     io_bind (io_call E ''git.push'' [JArr [JStr ''-u'', JStr ''origin'', JStr ''main'']]) (\<lambda>u.
     io_return (Some gitPush_success))))))))))))))))"

definition gitPush_func :: "env \<Rightarrow> jsval \<Rightarrow> string io" where
  "gitPush_func E params = try_or (gitPush_body E params) gitPush_failure"

subsection \<open>gitCloneRepository\<close>

definition gitCloneRepository_failure :: string where
  "gitCloneRepository_failure = ''repo cloning is failed''"

definition localPath :: string where
  "localPath = ''your local file path''"

definition gitCloneRepository_body :: "env \<Rightarrow> jsval \<Rightarrow> string option io" where
  "gitCloneRepository_body E params =
     io_bind (io_prop params ''repoName'') (\<lambda>repoName.
     io_bind (getOwner E) (\<lambda>owner.
     io_bind (getRepoDetails E owner repoName) (\<lambda>data.
     io_bind (io_prop data ''clone_url'') (\<lambda>cloneUrl.
     io_bind (io_call E ''simpleGit'' []) (\<lambda>git.
     io_bind (io_call E ''git.clone'' [cloneUrl, JStr localPath]) (\<lambda>u.
     io_return (Some (check_mark @ '' Repo '' @ js_String owner @ ''/'' @ js_String repoName
                      @ '' cloned into '' @ localPath))))))))"

definition gitCloneRepository_func :: "env \<Rightarrow> jsval \<Rightarrow> string io" where
  "gitCloneRepository_func E params =
     try_or (gitCloneRepository_body E params) gitCloneRepository_failure"

subsection \<open>getCommitsByRepoName\<close>

definition getCommitsByRepoName_failure :: string where
  "getCommitsByRepoName_failure = ''Not able to fetch commit details''"

text \<open>The callback of \<open>data.map\<close>: one entry per commit.\<close>

definition commit_entry :: "jsval \<Rightarrow> jsval + jsval" where
  "commit_entry commit =
     ex_bind (getp commit ''node_id'') (\<lambda>v_commitId.
     ex_bind (getp commit ''sha'') (\<lambda>v_sha.
     ex_bind (ex_bind (getp commit ''commit'') (\<lambda>c. getp c ''message'')) (\<lambda>v_message.
     ex_bind (ex_bind (ex_bind (getp commit ''commit'') (\<lambda>c. getp c ''committer''))
                (\<lambda>c. getp c ''name'')) (\<lambda>v_committerName.
     ex_bind (ex_bind (ex_bind (getp commit ''commit'') (\<lambda>c. getp c ''committer''))
                (\<lambda>c. getp c ''date'')) (\<lambda>v_date.
     Inr (JObj [(''commitId'', v_commitId),
                (''sha'', v_sha),
                (''message'', v_message),
                (''committerName'', v_committerName),
                (''date'', v_date)]))))))"

definition listCommits_request :: "jsval \<Rightarrow> jsval \<Rightarrow> jsval" where
  "listCommits_request owner repoName =
     JObj [(''owner'', owner), (''repo'', repoName), (''per_page'', JNum 10), (''page'', JNum 1)]"

definition getCommitsByRepoName_body :: "env \<Rightarrow> jsval \<Rightarrow> string option io" where
  "getCommitsByRepoName_body E params =
     io_bind (io_prop params ''repoName'') (\<lambda>repoName.
     io_bind (getOwner E) (\<lambda>owner.
     io_bind (io_call E ''octokit.rest.repos.listCommits'' [listCommits_request owner repoName]) (\<lambda>resp.
     io_bind (io_prop resp ''data'') (\<lambda>data.
     io_bind (io_lift (js_map data commit_entry)) (\<lambda>commitMessages.
     io_return (Some (JSON_stringify commitMessages)))))))"

definition getCommitsByRepoName_func :: "env \<Rightarrow> jsval \<Rightarrow> string io" where
  "getCommitsByRepoName_func E params =
     try_or (getCommitsByRepoName_body E params) getCommitsByRepoName_failure"

subsection \<open>createOrUpdateGitFile\<close>

definition createOrUpdateGitFile_failure :: string where
  "createOrUpdateGitFile_failure = ''Neither file created or updated''"

definition createOrUpdateFileContents_request :: "jsval \<Rightarrow> jsval \<Rightarrow> jsval \<Rightarrow> jsval" where
  "createOrUpdateFileContents_request owner repoName fileName =
     JObj [(''owner'', owner),
           (''repo'', repoName),
           (''message'', JStr ''add hello.txt''),
           (''content'', JStr (base64 ''Hello from octokit!!'')),
           (''path'', fileName)]"

definition createOrUpdateGitFile_body :: "env \<Rightarrow> jsval \<Rightarrow> string option io" where
  "createOrUpdateGitFile_body E params =
     io_bind (io_prop params ''fileName'') (\<lambda>fileName.
     io_bind (io_prop params ''repoName'') (\<lambda>repoName.
     io_bind (getOwner E) (\<lambda>owner.
     io_bind (io_call E ''octokit.rest.repos.createOrUpdateFileContents''
                [createOrUpdateFileContents_request owner repoName fileName]) (\<lambda>response.
     io_bind (io_prop response ''url'') (\<lambda>url.
     io_return (Some (''File added successfully!. '' @ JSON_stringify (JObj [(''url'', url)]))))))))"

definition createOrUpdateGitFile_func :: "env \<Rightarrow> jsval \<Rightarrow> string io" where
  "createOrUpdateGitFile_func E params =
     try_or (createOrUpdateGitFile_body E params) createOrUpdateGitFile_failure"

subsection \<open>updateRepository\<close>

definition updateRepository_failure :: string where
  "updateRepository_failure = ''Not able to update the repository''"

definition update_request :: "jsval \<Rightarrow> jsval \<Rightarrow> jsval \<Rightarrow> jsval \<Rightarrow> jsval" where
  "update_request owner repoName description visibility =
     JObj [(''owner'', owner),
           (''repo'', repoName),
           (''description'', description),
           (''visibility'', visibility),
           (''private'', JBool (if visibility = JStr ''private'' then True else False))]"

definition updateRepository_body :: "env \<Rightarrow> jsval \<Rightarrow> string option io" where
  "updateRepository_body E params =
     io_bind (io_prop params ''repoName'') (\<lambda>repoName.
     io_bind (io_prop params ''description'') (\<lambda>description.
     io_bind (io_prop params ''visibility'') (\<lambda>visibility.
     io_bind (getOwner E) (\<lambda>owner.
     io_bind (io_call E ''octokit.rest.repos.update''
                [update_request owner repoName description visibility]) (\<lambda>response.
     io_return (Some ''Git repository updated successfully!''))))))"

definition updateRepository_func :: "env \<Rightarrow> jsval \<Rightarrow> string io" where
  "updateRepository_func E params =
     try_or (updateRepository_body E params) updateRepository_failure"

subsection \<open>The tool objects\<close>

text \<open>
  \<open>tool(func, {name, description, schema})\<close>: the name, the \<open>zod\<close> schema (each field
  with its type and whether it is optional) and the function. The description is a text for
  the language model only and is left out.
\<close>

datatype ztype = ZString | ZEnum "string list"

datatype tool =
  Tool (tool_name: string)
       (tool_schema: "(string \<times> ztype \<times> bool) list")
       (tool_func: "env \<Rightarrow> jsval \<Rightarrow> string io")

definition createGitRepository :: tool where
  "createGitRepository =
     Tool ''create-git-respository''
       [(''repoName'', ZString, False), (''description'', ZString, False)]
       createGitRepository_func"

definition deleteRepository :: tool where
  "deleteRepository =
     Tool ''delete-git-respository''
       [(''repoName'', ZString, False)]
       deleteRepository_func"

definition getRepository :: tool where
  "getRepository =
     Tool ''get-repository-details''
       [(''repoName'', ZString, False)]
       getRepository_func"

definition gitPush :: tool where
  "gitPush =
     Tool ''git-push-files''
       [(''repoName'', ZString, False), (''commitMessage'', ZString, False),
        (''projectName'', ZString, False)]
       gitPush_func"

definition gitCloneRepository :: tool where
  "gitCloneRepository =
     Tool ''clone-git-repository''
       [(''repoName'', ZString, False)]
       gitCloneRepository_func"

definition getCommitsByRepoName :: tool where
  "getCommitsByRepoName =
     Tool ''get-git-commits-by-repo-name''
       [(''repoName'', ZString, False)]
       getCommitsByRepoName_func"

definition createOrUpdateGitFile :: tool where
  "createOrUpdateGitFile =
     Tool ''create-or-update-file''
       [(''fileName'', ZString, False), (''repoName'', ZString, False)]
       createOrUpdateGitFile_func"

definition updateRepository :: tool where
  "updateRepository =
     Tool ''Update-git-repository''
       [(''description'', ZString, True), (''repoName'', ZString, False),
        (''visibility'', ZEnum [''public'', ''private'', ''internal''], True)]
       updateRepository_func"

text \<open>\<open>const tools = [...]\<close> of \<open>src/index.js\<close>.\<close>

definition tools :: "tool list" where
  "tools =
     [createGitRepository, deleteRepository, getRepository, gitPush, gitCloneRepository,
      getCommitsByRepoName, createOrUpdateGitFile, updateRepository]"

text \<open>
  The frame of each tool function, by tool name: the body of its \<open>try\<close> block and the
  text it returns after its \<open>catch\<close> block.
\<close>

definition tool_frames :: "(string \<times> (env \<Rightarrow> jsval \<Rightarrow> string option io) \<times> string) list" where
  "tool_frames =
     [(''create-git-respository'', createGitRepository_body, createGitRepository_failure),
      (''delete-git-respository'', deleteRepository_body, deleteRepository_failure),
      (''get-repository-details'', getRepository_body, getRepository_failure),
      (''git-push-files'', gitPush_body, gitPush_failure),
      (''clone-git-repository'', gitCloneRepository_body, gitCloneRepository_failure),
      (''get-git-commits-by-repo-name'', getCommitsByRepoName_body, getCommitsByRepoName_failure),
      (''create-or-update-file'', createOrUpdateGitFile_body, createOrUpdateGitFile_failure),
      (''Update-git-repository'', updateRepository_body, updateRepository_failure)]"

definition try_block :: "tool \<Rightarrow> env \<Rightarrow> jsval \<Rightarrow> string option io" where
  "try_block t =
     (case map_of tool_frames (tool_name t) of
        Some (body, failure) \<Rightarrow> body
      | None \<Rightarrow> (\<lambda>E params. io_return None))"

definition failure_text :: "tool \<Rightarrow> string" where
  "failure_text t =
     (case map_of tool_frames (tool_name t) of Some (body, failure) \<Rightarrow> failure | None \<Rightarrow> [])"

section \<open>The tool node\<close>

text \<open>
  Modelled from the spec: \<open>ToolNode\<close> and the \<open>tool\<close> wrapper are imported by
  \<open>src/index.js\<close> and \<open>src/tools.js\<close> from \<open>@langchain/langgraph/prebuilt\<close> and
  \<open>@langchain/core/tools\<close>; their code is not part of \<open>src/\<close>. The definitions of
  this section follow the executor of the spec (section 4.2 and step 4 of section 4.4):
  resolve the action by name, validate the arguments against the schema and do not execute
  on a mismatch, invoke the function, turn every fault into a textual result, and give one
  result per request of the last assistant message, in the order of the requests, each with
  the identifier of its request. The requests are executed one after the other here. The
  wording of the failure texts is not fixed by the spec.
\<close>

text \<open>
  Modelled from the spec: the check of one field of the argument bundle against its declared
  type; an absent field passes when it is optional.
\<close>

definition field_ok :: "ztype \<Rightarrow> bool \<Rightarrow> jsval \<Rightarrow> bool" where
  "field_ok ty optional v =
     (if v = JUndefined then optional
      else (case v of
              JStr s \<Rightarrow> (case ty of ZString \<Rightarrow> True | ZEnum xs \<Rightarrow> s \<in> set xs)
            | _ \<Rightarrow> False))"

text \<open>
  Modelled from the spec: the check of the argument bundle against the schema. It gives the
  name of the first field that fails, or the validated fields in the order of the schema.
\<close>

fun validate_fields :: "(string \<times> ztype \<times> bool) list \<Rightarrow> (string \<times> jsval) list \<Rightarrow> string + (string \<times> jsval) list" where
  "validate_fields [] kvs = Inr []"
| "validate_fields ((k, ty, optional) # fs) kvs =
     (let v = (case map_of kvs k of Some x \<Rightarrow> x | None \<Rightarrow> JUndefined) in
      if \<not> field_ok ty optional v then Inl k
      else (case validate_fields fs kvs of
              Inl bad \<Rightarrow> Inl bad
            | Inr rest \<Rightarrow> Inr (if v = JUndefined then rest else (k, v) # rest)))"

definition validate :: "(string \<times> ztype \<times> bool) list \<Rightarrow> jsval \<Rightarrow> string + jsval" where
  "validate schema args =
     (case args of
        JObj kvs \<Rightarrow> (case validate_fields schema kvs of Inl bad \<Rightarrow> Inl bad | Inr ps \<Rightarrow> Inr (JObj ps))
      | _ \<Rightarrow> Inl ''input'')"

definition Error :: "string \<Rightarrow> jsval" where
  "Error msg = JObj [(''name'', JStr ''Error''), (''message'', JStr msg)]"

text \<open>Modelled from the spec: the textual result for a fault.\<close>

definition fault_text :: "jsval \<Rightarrow> string" where
  "fault_text e =
     ''Error: '' @ (case getp e ''message'' of Inl x \<Rightarrow> js_String e | Inr m \<Rightarrow> js_String m)
     @ ''\<newline> Please fix your mistakes.''"

text \<open>
  Modelled from the spec: resolve the action by name, validate its arguments, and invoke its
  function only when both succeed.
\<close>

definition invoke_tool :: "env \<Rightarrow> tool list \<Rightarrow> tool_call \<Rightarrow> string io" where
  "invoke_tool E ts call =
     (case find (\<lambda>t. tool_name t = tc_name call) ts of
        None \<Rightarrow> io_throw (Error (''Tool '' @ tc_name call @ '' not found.''))
      | Some t \<Rightarrow>
          (case validate (tool_schema t) (tc_args call) of
             Inl bad \<Rightarrow> io_throw (Error (''Received tool input did not match expected schema: '' @ bad))
           | Inr params \<Rightarrow> tool_func t E params))"

text \<open>
  Modelled from the spec: the executor for one request. Every fault becomes a result message
  with a failure text; the result carries the name and the identifier of the request.
\<close>

definition execute :: "env \<Rightarrow> tool list \<Rightarrow> tool_call \<Rightarrow> message io" where
  "execute E ts call =
     try_catch
       (io_bind (invoke_tool E ts call) (\<lambda>output.
        io_return (ToolMessage output (tc_name call) (tc_id call))))
       (\<lambda>e. io_return (ToolMessage (fault_text e) (tc_name call) (tc_id call)))"

fun execute_all :: "env \<Rightarrow> tool list \<Rightarrow> tool_call list \<Rightarrow> message list io" where
  "execute_all E ts [] = io_return []"
| "execute_all E ts (c # cs) =
     io_bind (execute E ts c) (\<lambda>m.
     io_bind (execute_all E ts cs) (\<lambda>ms.
     io_return (m # ms)))"

text \<open>
  Modelled from the spec: \<open>const toolNode = new ToolNode(tools)\<close>, the node that executes
  the requests of the last message, which has to be an assistant message.
\<close>

definition toolNode :: "env \<Rightarrow> message list \<Rightarrow> message list io" where
  "toolNode E messages =
     (if messages = [] then io_throw (Error ''ToolNode only accepts AIMessages as input.'')
      else (case last messages of
              AIMessage c tcs \<Rightarrow> execute_all E tools tcs
            | _ \<Rightarrow> io_throw (Error ''ToolNode only accepts AIMessages as input.'')))"

section \<open>The graph and the session loop (\<open>src/index.js\<close>)\<close>

text \<open>
  The state of the graph is \<open>state.messages\<close>; what a node returns under \<open>messages\<close> is
  appended to it (\<open>MessagesAnnotation\<close>).
\<close>

definition callModel :: "env \<Rightarrow> message list \<Rightarrow> jsval + message list" where
  "callModel E messages =
     (case llm_invoke E messages of Inl e \<Rightarrow> Inl e | Inr response \<Rightarrow> Inr [response])"

text \<open>
  \<open>lastMessage.tool_calls.length\<close>: only an assistant message has \<open>tool_calls\<close>; on
  another message, and on an empty state, the read throws a TypeError.
\<close>

definition shouldContinue :: "message list \<Rightarrow> jsval + string" where
  "shouldContinue messages =
     (if messages = [] then Inl (TypeError ''Cannot read properties of undefined (reading tool_calls)'')
      else (case last messages of
              AIMessage c tcs \<Rightarrow> if length tcs \<noteq> 0 then Inr ''tools'' else Inr ''__end__''
            | _ \<Rightarrow> Inl (TypeError ''Cannot read properties of undefined (reading length)'')))"

datatype node = Assistant | ToolsNode | END

text \<open>The map given to \<open>addConditionalEdges("assistant", shouldContinue, ...)\<close>.\<close>

definition conditional_edges :: "(string \<times> node) list" where
  "conditional_edges = [(''__end__'', END), (''tools'', ToolsNode)]"

text \<open>
  How a run of the graph ends: at \<open>END\<close>, with the state; by a fault that leaves the graph
  (the promise of \<open>agent.invoke\<close> is rejected), with the state at the failed step; or
  because the step budget is used up, with the state reached.
\<close>

datatype outcome =
    is_Done: Done "message list"
  | is_Rejected: Rejected jsval "message list"
  | is_OutOfSteps: OutOfSteps "message list"

text \<open>
  The run of the compiled graph from a node: \<open>__start__ \<rightarrow> assistant\<close>, \<open>assistant\<close>
  to the target \<open>shouldContinue\<close> names, \<open>tools \<rightarrow> assistant\<close>. The source sets no
  bound on the number of steps. The first argument is a budget of node executions: a run
  that needs more than the budget has the outcome \<open>OutOfSteps\<close>, which stands both for a
  run that never ends and for a run that the graph library stops at a step limit of its own.
\<close>

fun run :: "env \<Rightarrow> nat \<Rightarrow> node \<Rightarrow> message list \<Rightarrow> event list \<Rightarrow> outcome \<times> event list" where
  "run E n END messages w = (Done messages, w)"
| "run E 0 nd messages w = (OutOfSteps messages, w)"
| "run E (Suc n) Assistant messages w =
     (case callModel E messages of
        Inl e \<Rightarrow> (Rejected e messages, w)
      | Inr upd \<Rightarrow>
          (case shouldContinue (messages @ upd) of
             Inl e \<Rightarrow> (Rejected e messages, w)
           | Inr r \<Rightarrow>
               (case map_of conditional_edges r of
                  None \<Rightarrow> (Rejected (Error (''Branch '' @ r @ '' has no target'')) messages, w)
                | Some nd \<Rightarrow> run E n nd (messages @ upd) w)))"
| "run E (Suc n) ToolsNode messages w =
     (case toolNode E messages w of
        (Inl e, w') \<Rightarrow> (Rejected e messages, w')
      | (Inr upd, w') \<Rightarrow> run E n Assistant (messages @ upd) w')"

text \<open>The two messages \<open>main\<close> passes to \<open>agent.invoke\<close> for a query.\<close>

definition turn_input :: "string \<Rightarrow> message list" where
  "turn_input query =
     [SystemMessage ''You are a smart github personal assistant to create and manage github repositories.'',
      HumanMessage query]"

text \<open>
  \<open>agent.invoke(input, {configurable: {thread_id: "1"}})\<close> with the checkpointer: the
  input is appended to the messages saved for the thread, and the graph runs from its start.
  The checkpointer is the conversation store of the spec (section 4.5): an ordered log of
  messages per thread that is only appended to; \<open>main\<close> uses the one thread \<open>"1"\<close>.
\<close>

definition agent_invoke :: "env \<Rightarrow> nat \<Rightarrow> message list \<Rightarrow> message list \<Rightarrow> event list \<Rightarrow> outcome \<times> event list" where
  "agent_invoke E limit saved input w = run E limit Assistant (saved @ input) w"

definition content :: "message \<Rightarrow> string" where
  "content m =
     (case m of
        SystemMessage c \<Rightarrow> c
      | HumanMessage c \<Rightarrow> c
      | AIMessage c tcs \<Rightarrow> c
      | ToolMessage c n i \<Rightarrow> c)"

text \<open>
  How \<open>main\<close> ends: the user said \<open>bye\<close>; the input ended; a fault of a turn left
  \<open>main\<close>, which has no handler around \<open>agent.invoke\<close>; or a turn used up its budget.
\<close>

datatype exit = Bye | EndOfInput | Uncaught jsval | TurnOutOfSteps

text \<open>
  \<open>main\<close> on the lines typed by the user. It gives how the loop ended, the messages of
  the thread at that point and the event log.
\<close>

fun main :: "env \<Rightarrow> nat \<Rightarrow> string list \<Rightarrow> message list \<Rightarrow> event list \<Rightarrow> exit \<times> message list \<times> event list" where
  "main E limit [] saved w = (EndOfInput, saved, w)"
| "main E limit (query # rest) saved w =
     (if query = ''bye'' then (Bye, saved, w)
      else (case agent_invoke E limit saved (turn_input query) w of
              (Done messages, w') \<Rightarrow>
                (if messages = []
                 then (Uncaught (TypeError ''Cannot read properties of undefined (reading content)''), messages, w')
                 else main E limit rest messages
                        (w' @ [Event ''console.log'' [JStr ''AI: '', JStr (content (last messages))] (Inr JUndefined)]))
            | (Rejected e messages, w') \<Rightarrow> (Uncaught e, messages, w')
            | (OutOfSteps messages, w') \<Rightarrow> (TurnOutOfSteps, messages, w')))"

section \<open>Notions used by the properties\<close>

text \<open>The events a computation adds to the log it starts from.\<close>

definition new_events :: "'a io \<Rightarrow> event list \<Rightarrow> event list" where
  "new_events m w = drop (length w) (snd (m w))"

text \<open>The argument lists of the calls of one method among some events, in order.\<close>

definition calls_named :: "string \<Rightarrow> event list \<Rightarrow> jsval list list" where
  "calls_named n evs = map ev_args (filter (\<lambda>e. ev_name e = n) evs)"

text \<open>The property names of an object, in the order of the object literal.\<close>

definition obj_keys :: "jsval \<Rightarrow> string list" where
  "obj_keys v = (case v of JObj kvs \<Rightarrow> map fst kvs | _ \<Rightarrow> [])"

text \<open>
  A computation is clean up to \<open>T\<close> when every run of it that returns has added only
  events that succeeded, or failed events that \<open>T\<close> tolerates.
\<close>

definition clean :: "(event \<Rightarrow> bool) \<Rightarrow> 'a io \<Rightarrow> bool" where
  "clean T m =
     (\<forall>w x w'. m w = (Inr x, w') \<longrightarrow> (\<exists>evs. w' = w @ evs \<and> (\<forall>e\<in>set evs. failed e \<longrightarrow> T e)))"

text \<open>A result message answers a request: it carries the request's name and identifier.\<close>

definition answers :: "tool_call \<Rightarrow> message \<Rightarrow> bool" where
  "answers call m =
     (case m of ToolMessage c n i \<Rightarrow> n = tc_name call \<and> i = tc_id call | _ \<Rightarrow> False)"

text \<open>
  A sequence of messages is paired when every assistant message is followed at once by the
  results of its requests, one per request and in their order, and no result stands
  anywhere else.
\<close>

function paired :: "message list \<Rightarrow> bool" where
  "paired [] = True"
| "paired (SystemMessage c # rest) = paired rest"
| "paired (HumanMessage c # rest) = paired rest"
| "paired (ToolMessage c n i # rest) = False"
| "paired (AIMessage c tcs # rest) =
     (length tcs \<le> length rest \<and> list_all2 answers tcs (take (length tcs) rest)
      \<and> paired (drop (length tcs) rest))"
  by pat_completeness auto
termination
  by (relation "measure length") auto

text \<open>The messages an outcome carries.\<close>

definition outcome_messages :: "outcome \<Rightarrow> message list" where
  "outcome_messages out =
     (case out of Done ms \<Rightarrow> ms | Rejected e ms \<Rightarrow> ms | OutOfSteps ms \<Rightarrow> ms)"

text \<open>
  The messages and the log after \<open>k\<close> round trips from given messages and a given log:
  in each round trip the language model, called on the messages so far, returns an
  assistant message with at least one request, the executor runs the requests of that
  message on the registered tools, and the assistant message and the results are appended.
  There is no such state when one of the \<open>k\<close> calls of the language model fails or
  returns a message without a request.
\<close>

fun rounds :: "env \<Rightarrow> nat \<Rightarrow> message list \<Rightarrow> event list \<Rightarrow> (message list \<times> event list) option" where
  "rounds E 0 ms w = Some (ms, w)"
| "rounds E (Suc k) ms w =
     (case llm_invoke E ms of
        Inr (AIMessage c tcs) \<Rightarrow>
          (if tcs = [] then None
           else (case execute_all E tools tcs w of
                   (Inr results, w') \<Rightarrow> rounds E k (ms @ AIMessage c tcs # results) w'
                 | (Inl e, w') \<Rightarrow> None))
      | _ \<Rightarrow> None)"

text \<open>The calls to \<open>simple-git\<close> among some events, in order: method and arguments.\<close>

definition is_git :: "event \<Rightarrow> bool" where
  "is_git e = (ev_name e = ''simpleGit'' \<or> take 4 (ev_name e) = ''git.'')"

definition git_calls :: "event list \<Rightarrow> (string \<times> jsval list) list" where
  "git_calls evs = map (\<lambda>e. (ev_name e, ev_args e)) (filter is_git evs)"

text \<open>
  The steps of a push as the specification lists them: initialize a repository at the local
  path, stage all files, commit with the message, have the branch \<open>main\<close> checked out
  (created when absent), have the remote \<open>origin\<close> at the authenticated URL (replaced
  when present), pull with rebase, push with upstream tracking.
\<close>

definition push_steps :: "string \<Rightarrow> jsval \<Rightarrow> bool \<Rightarrow> bool \<Rightarrow> string \<Rightarrow> (string \<times> jsval list) list" where
  "push_steps path commitMessage has_main has_origin url =
     [(''simpleGit'', [JStr path]),
      (''git.init'', []),
      (''git.add'', [JStr ''./*'']),
      (''git.commit'', [commitMessage]),
      (''git.branchLocal'', []),
      (if has_main then (''git.checkout'', [JStr ''main''])
       else (''git.checkoutLocalBranch'', [JStr ''main''])),
      (''git.getRemotes'', [JBool True])]
     @ (if has_origin then [(''git.removeRemote'', [JStr ''origin''])] else [])
     @ [(''git.addRemote'', [JStr ''origin'', JStr url]),
        (''git.pull'', [JStr ''origin'', JStr ''main'', JObj [(''--rebase'', JStr ''true'')]]),
        (''git.push'', [JArr [JStr ''-u'', JStr ''origin'', JStr ''main'']])]"


section \<open>Sample environments\<close>

text \<open>
  A concrete environment for running the definitions: the account \<open>octo\<close> owns the public
  repository \<open>demo\<close>, which has one commit; the local project has no branch and no remote
  yet and the remote is empty, so that the pull fails. The language model asks for the
  details of \<open>demo\<close> when the last message is the user's, and answers otherwise.
\<close>

text \<open>
  \<open>path.join\<close> of \<open>node:path\<close> on a POSIX system, for two arguments: the non-empty
  arguments are joined with a slash and the result is normalized (empty and \<open>.\<close>
  segments are dropped, a \<open>..\<close> segment removes the segment before it).
\<close>

fun split_slash :: "string \<Rightarrow> string list" where
  "split_slash [] = [[]]"
| "split_slash (x # xs) =
     (if x = CHR ''/'' then [] # split_slash xs
      else (case split_slash xs of [] \<Rightarrow> [[x]] | s # ss \<Rightarrow> (x # s) # ss))"

fun resolve_segments :: "bool \<Rightarrow> string list \<Rightarrow> string list \<Rightarrow> string list" where
  "resolve_segments absolute acc [] = rev acc"
| "resolve_segments absolute acc (s # ss) =
     (if s = [] \<or> s = ''.'' then resolve_segments absolute acc ss
      else if s = ''..'' then
        (case acc of
           [] \<Rightarrow> if absolute then resolve_segments absolute acc ss
                 else resolve_segments absolute [s] ss
         | seg # below \<Rightarrow>
             if seg = ''..'' then resolve_segments absolute (s # acc) ss
             else resolve_segments absolute below ss)
      else resolve_segments absolute (s # acc) ss)"

fun slashes :: "string list \<Rightarrow> string" where
  "slashes [] = []"
| "slashes [x] = x"
| "slashes (x # y # ys) = x @ ''/'' @ slashes (y # ys)"

definition posix_normalize :: "string \<Rightarrow> string" where
  "posix_normalize p =
     (if p = [] then ''.''
      else
        (let absolute = (hd p = CHR ''/'');
             trailing = (last p = CHR ''/'');
             body = slashes (resolve_segments absolute [] (split_slash p))
         in if body = [] then (if absolute then ''/'' else if trailing then ''./'' else ''.'')
            else (if absolute then ''/'' else []) @ body @ (if trailing then ''/'' else [])))"

definition posix_join :: "string \<Rightarrow> string \<Rightarrow> string" where
  "posix_join a b =
     (let joined = (if a = [] then b else if b = [] then a else a @ ''/'' @ b)
      in if joined = [] then ''.'' else posix_normalize joined)"

definition demo_repo :: jsval where
  "demo_repo =
     JObj [(''id'', JNum 42),
           (''name'', JStr ''demo''),
           (''description'', JNull),
           (''owner'', JObj [(''login'', JStr ''octo''),
                             (''avatar_url'', JStr ''https://avatars.example/u/1''),
                             (''user_view_type'', JStr ''public'')]),
           (''private'', JBool False),
           (''html_url'', JStr ''https://github.com/octo/demo''),
           (''created_at'', JStr ''2024-01-01T00:00:00Z''),
           (''clone_url'', JStr ''https://github.com/octo/demo.git'')]"

definition demo_commit :: jsval where
  "demo_commit =
     JObj [(''node_id'', JStr ''C_1''),
           (''sha'', JStr ''abc123''),
           (''commit'', JObj [(''message'', JStr ''first''),
                              (''committer'', JObj [(''name'', JStr ''Octo''),
                                                    (''date'', JStr ''2024-01-02T00:00:00Z'')])])]"

definition demo_respond :: "event list \<Rightarrow> string \<Rightarrow> jsval list \<Rightarrow> jsval + jsval" where
  "demo_respond w name args =
     (if name = ''octokit.rest.users.getAuthenticated''
        then Inr (JObj [(''data'', JObj [(''login'', JStr ''octo'')])])
      else if name = ''octokit.rest.repos.get''
        then Inr (JObj [(''status'', JNum 200), (''data'', demo_repo)])
      else if name = ''octokit.rest.repos.listCommits''
        then Inr (JObj [(''status'', JNum 200), (''data'', JArr [demo_commit])])
      else if name = ''octokit.rest.repos.createOrUpdateFileContents''
        then Inr (JObj [(''status'', JNum 201),
                        (''url'', JStr ''https://api.github.com/repos/octo/demo/contents/notes.md'')])
      else if name = ''octokit.rest.repos.update'' then Inr (JObj [(''status'', JNum 200)])
      else if name = ''octokit.rest.repos.delete'' then Inr (JObj [(''status'', JNum 204)])
      else if name = ''octokit.request''
        then Inr (JObj [(''data'', JObj [(''html_url'', JStr ''https://github.com/octo/demo'')])])
      else if name = ''git.branchLocal'' then Inr (JObj [(''all'', JArr [])])
      else if name = ''git.getRemotes'' then Inr (JArr [])
      else if name = ''git.pull'' then Inl (JObj [(''message'', JStr ''could not find remote ref main'')])
      else Inr JUndefined)"

definition demo_request :: tool_call where
  "demo_request = ToolCall ''get-repository-details'' (JObj [(''repoName'', JStr ''demo'')]) ''call_1''"

definition demo_llm :: "message list \<Rightarrow> jsval + message" where
  "demo_llm ms =
     (if ms = [] then Inl (Error ''no messages'')
      else (case last ms of
              HumanMessage q \<Rightarrow> Inr (AIMessage '''' [demo_request])
            | _ \<Rightarrow> Inr (AIMessage ''The repository demo is public.'' [])))"

definition demo_env :: env where
  "demo_env =
     \<lparr> respond = demo_respond,
       llm_invoke = demo_llm,
       GITHUB_ACCESS_TOKEN = Some ''ghp_token'',
       dirname = ''/app/src'',
       path_join = posix_join \<rparr>"

text \<open>The same environment with a language model that asks for an action at every call.\<close>

definition insisting_env :: env where
  "insisting_env = demo_env \<lparr> llm_invoke := (\<lambda>ms. Inr (AIMessage '''' [demo_request])) \<rparr>"

text \<open>The same environment with a language model that cannot be reached.\<close>

definition unreachable_env :: env where
  "unreachable_env = demo_env \<lparr> llm_invoke := (\<lambda>ms. Inl (Error ''fetch failed'')) \<rparr>"

text \<open>
  The same environment with a language model that asks for an action once and cannot be
  reached afterwards, and with a remote that refuses every call of the GitHub client.
\<close>

definition failing_later_env :: env where
  "failing_later_env =
     demo_env \<lparr> llm_invoke := (\<lambda>ms. if ms \<noteq> [] \<and> last ms = HumanMessage ''is demo public?''
                                     then Inr (AIMessage '''' [demo_request])
                                     else Inl (Error ''fetch failed'')),
                respond := (\<lambda>w name args. Inl (Error ''Bad credentials'')) \<rparr>"

text \<open>
  The sample environment with a remote that refuses every call of the GitHub client, and
  with a language model that asks for the details of \<open>demo\<close> when the last message is
  the user's and gives up otherwise.
\<close>

definition refusing_env :: env where
  "refusing_env =
     demo_env \<lparr> respond := (\<lambda>w name args. Inl (Error ''Bad credentials'')),
                llm_invoke := (\<lambda>ms. if ms \<noteq> [] \<and> last ms = HumanMessage ''is demo public?''
                                     then Inr (AIMessage [] [demo_request])
                                     else Inr (AIMessage ''I could not reach GitHub.'' [])) \<rparr>"

text \<open>
  The sample environment with a remote whose answer on the repository has no \<open>data\<close>.
\<close>

definition malformed_env :: env where
  "malformed_env =
     demo_env \<lparr> respond := (\<lambda>w name args.
        if name = ''octokit.rest.repos.get'' then Inr (JObj [(''status'', JNum 200)])
        else demo_respond w name args) \<rparr>"

text \<open>
  The sample environment with a local project that has the branch \<open>main\<close> and a remote
  \<open>origin\<close> already, and a remote repository from which the pull succeeds.
\<close>

definition established_env :: env where
  "established_env =
     demo_env \<lparr> respond := (\<lambda>w name args.
        if name = ''git.branchLocal''
          then Inr (JObj [(''all'', JArr [JStr ''feature'', JStr ''main'']), (''current'', JStr ''feature'')])
        else if name = ''git.getRemotes''
          then Inr (JArr [JObj [(''name'', JStr ''upstream'')],
                          JObj [(''name'', JStr ''origin''),
                                (''refs'', JObj [(''fetch'', JStr ''https://github.com/octo/old.git'')])]])
        else if name = ''git.pull'' then Inr (JObj [(''files'', JArr [])])
        else demo_respond w name args) \<rparr>"

text \<open>
  The sample environment with a language model that asks for an action at its first two
  calls of a turn and cannot be reached at the third.
\<close>

definition failing_third_env :: env where
  "failing_third_env =
     demo_env \<lparr> llm_invoke := (\<lambda>ms. if length ms < 6 then Inr (AIMessage [] [demo_request])
                                     else Inl (Error ''fetch failed'')) \<rparr>"

text \<open>Arguments a caller might give to the tools.\<close>

definition internal_params :: jsval where
  "internal_params = JObj [(''repoName'', JStr ''demo''), (''visibility'', JStr ''internal'')]"

definition paging_params :: jsval where
  "paging_params = JObj [(''repoName'', JStr ''demo''), (''per_page'', JNum 5), (''page'', JNum 2)]"

definition file_params :: jsval where
  "file_params =
     JObj [(''repoName'', JStr ''demo''), (''fileName'', JStr ''notes.md''),
           (''content'', JStr ''my notes''), (''commitMessage'', JStr ''add my notes'')]"

definition clone_params :: jsval where
  "clone_params = JObj [(''repoName'', JStr ''demo''), (''localPath'', JStr ''/home/me/demo'')]"

definition push_params :: jsval where
  "push_params =
     JObj [(''repoName'', JStr ''demo''), (''projectName'', JStr ''proj''),
           (''commitMessage'', JStr ''init'')]"

definition demo_details :: jsval where
  "demo_details =
     JObj [(''id'', JNum 42),
           (''name'', JStr ''demo''),
           (''description'', JNull),
           (''owner'', JStr ''octo''),
           (''private'', JBool False),
           (''url'', JStr ''https://github.com/octo/demo''),
           (''createdAt'', JStr ''2024-01-01T00:00:00Z''),
           (''avatarUrl'', JStr ''https://avatars.example/u/1''),
           (''userViewType'', JStr ''public'')]"


section \<open>Lemmas on the effects\<close>

lemmas io_defs = io_bind_def io_return_def io_throw_def io_lift_def try_catch_def io_call_def
  console_def io_prop_def try_or_def

lemma ex_bind_Inr: "ex_bind r f = Inr y \<longleftrightarrow> (\<exists>x. r = Inr x \<and> f x = Inr y)"
  by (cases r) (auto simp: ex_bind_def)

lemma io_bind_Inr:
  "io_bind m f w = (Inr y, w'') \<longleftrightarrow> (\<exists>x w'. m w = (Inr x, w') \<and> f x w' = (Inr y, w''))"
  by (auto simp: io_bind_def split: prod.splits sum.splits)

lemma io_call_Inr:
  "io_call E n a w = (Inr x, w') \<longleftrightarrow> respond E w n a = Inr x \<and> w' = w @ [Event n a (Inr x)]"
  by (auto simp: io_call_def Let_def)

lemma io_lift_Inr: "io_lift r w = (Inr x, w') \<longleftrightarrow> r = Inr x \<and> w' = w"
  by (auto simp: io_lift_def)

lemma io_prop_Inr: "io_prop v k w = (Inr x, w') \<longleftrightarrow> getp v k = Inr x \<and> w' = w"
  by (auto simp: io_prop_def io_lift_def)

lemma io_return_Inr: "io_return v w = (Inr x, w') \<longleftrightarrow> x = v \<and> w' = w"
  by (auto simp: io_return_def)

lemmas io_Inr = io_bind_Inr io_call_Inr io_lift_Inr io_prop_Inr io_return_Inr

subsection \<open>Runs that return have seen no fault\<close>

lemma clean_return: "clean T (io_return x)"
  by (simp add: clean_def io_return_def)

lemma clean_throw: "clean T (io_throw x)"
  by (simp add: clean_def io_throw_def)

lemma clean_lift: "clean T (io_lift r)"
  by (simp add: clean_def io_lift_def)

lemma clean_prop: "clean T (io_prop v k)"
  by (simp add: io_prop_def clean_lift)

lemma clean_console: "clean T (console n a)"
  by (simp add: clean_def console_def failed_def)

lemma clean_call: "clean T (io_call E n a)"
  by (auto simp: clean_def io_call_def failed_def Let_def)

lemma clean_bind:
  assumes "clean T m" and "\<And>x. clean T (f x)"
  shows "clean T (io_bind m f)"
  unfolding clean_def
proof (intro allI impI)
  fix w y w''
  assume "io_bind m f w = (Inr y, w'')"
  then obtain x w' where m: "m w = (Inr x, w')" and f: "f x w' = (Inr y, w'')"
    by (auto simp: io_bind_Inr)
  from assms(1) m obtain evs1 where 1: "w' = w @ evs1" "\<forall>e\<in>set evs1. failed e \<longrightarrow> T e"
    unfolding clean_def by blast
  from assms(2)[of x] f obtain evs2 where 2: "w'' = w' @ evs2" "\<forall>e\<in>set evs2. failed e \<longrightarrow> T e"
    unfolding clean_def by blast
  from 1 2 show "\<exists>evs. w'' = w @ evs \<and> (\<forall>e\<in>set evs. failed e \<longrightarrow> T e)"
    by (intro exI[of _ "evs1 @ evs2"]) auto
qed

lemma clean_if: "clean T a \<Longrightarrow> clean T b \<Longrightarrow> clean T (if c then a else b)"
  by simp

lemma clean_getOwner: "clean T (getOwner E)"
  unfolding getOwner_def by (intro clean_bind clean_call clean_prop)

lemma clean_getRepoDetails: "clean T (getRepoDetails E a b)"
  unfolding getRepoDetails_def by (intro clean_bind clean_call clean_prop)

lemma clean_pull_rebase: "clean (\<lambda>e. ev_name e = ''git.pull'') (pull_rebase E)"
  unfolding clean_def pull_rebase_def io_defs
  by (auto simp: Let_def failed_def split: sum.splits prod.splits)

lemmas clean_intros = clean_bind clean_return clean_throw clean_lift clean_prop clean_console
  clean_call clean_if clean_getOwner clean_getRepoDetails

lemma clean_createGitRepository: "clean T (createGitRepository_body E params)"
  unfolding createGitRepository_body_def by (intro clean_intros)

lemma clean_deleteRepository: "clean T (deleteRepository_body E params)"
  unfolding deleteRepository_body_def by (intro clean_intros)

lemma clean_getRepository: "clean T (getRepository_body E params)"
  unfolding getRepository_body_def by (intro clean_intros)

lemma clean_gitPush: "clean (\<lambda>e. ev_name e = ''git.pull'') (gitPush_body E params)"
  unfolding gitPush_body_def switch_main_def set_origin_def
  by (intro clean_intros clean_pull_rebase)

lemma clean_gitCloneRepository: "clean T (gitCloneRepository_body E params)"
  unfolding gitCloneRepository_body_def by (intro clean_intros)

lemma clean_getCommitsByRepoName: "clean T (getCommitsByRepoName_body E params)"
  unfolding getCommitsByRepoName_body_def by (intro clean_intros)

lemma clean_createOrUpdateGitFile: "clean T (createOrUpdateGitFile_body E params)"
  unfolding createOrUpdateGitFile_body_def by (intro clean_intros)

lemma clean_updateRepository: "clean T (updateRepository_body E params)"
  unfolding updateRepository_body_def by (intro clean_intros)

subsection \<open>The frame of a tool function\<close>

lemma try_or_total: "\<exists>s. fst (try_or body failure w) = Inr s"
  unfolding io_defs by (auto split: prod.splits sum.splits)

lemma try_or_cases:
  "fst (try_or body f w) = Inr f \<or>
   (\<exists>s w'. body w = (Inr (Some s), w') \<and> try_or body f w = (Inr s, w'))"
  unfolding io_defs by (auto split: sum.splits prod.splits option.splits)

lemma try_or_failure:
  assumes "clean T body"
    and "\<exists>e\<in>set (new_events (try_or body failure) w). failed e \<and> \<not> T e"
  shows "fst (try_or body failure w) = Inr failure"
proof -
  from try_or_cases[of body failure w] show ?thesis
  proof
    assume "\<exists>s w'. body w = (Inr (Some s), w') \<and> try_or body failure w = (Inr s, w')"
    then obtain s w' where b: "body w = (Inr (Some s), w')" and t: "try_or body failure w = (Inr s, w')"
      by blast
    from assms(1) b obtain evs where evs: "w' = w @ evs" "\<forall>e\<in>set evs. failed e \<longrightarrow> T e"
      unfolding clean_def by blast
    with t have "new_events (try_or body failure) w = evs"
      by (simp add: new_events_def)
    with assms(2) evs(2) show ?thesis by blast
  qed
qed

lemma getOwner_appends: "getOwner E w = (r, w') \<Longrightarrow> \<exists>evs. w' = w @ evs"
  unfolding getOwner_def io_defs by (auto simp: Let_def split: sum.splits prod.splits)


section \<open>The tools: what is sent and what is returned\<close>

lemma commit_entry_keys:
  "commit_entry c = Inr x \<Longrightarrow>
     obj_keys x = [''commitId'', ''sha'', ''message'', ''committerName'', ''date'']"
  by (auto simp: commit_entry_def ex_bind_Inr obj_keys_def)

lemma map_throwing_Inr:
  "map_throwing f xs = Inr ys \<Longrightarrow> list_all2 (\<lambda>x y. f x = Inr y) xs ys"
  by (induction xs arbitrary: ys) (auto split: sum.splits)

lemma entries_keys:
  "list_all2 (\<lambda>c x. commit_entry c = Inr x) cs es \<Longrightarrow> x \<in> set es \<Longrightarrow>
     obj_keys x = [''commitId'', ''sha'', ''message'', ''committerName'', ''date'']"
  by (induction rule: list_all2_induct) (auto dest: commit_entry_keys)

lemma repoDetails_keys:
  "repoDetails d = Inr x \<Longrightarrow>
     obj_keys x = [''id'', ''name'', ''description'', ''owner'', ''private'', ''url'',
                   ''createdAt'', ''avatarUrl'', ''userViewType'']"
  by (auto simp: repoDetails_def ex_bind_Inr obj_keys_def)

lemma listCommits_events:
  "\<forall>e\<in>set (new_events (getCommitsByRepoName_func E params) w).
      ev_name e = ''octokit.rest.repos.listCommits'' \<longrightarrow>
      (\<exists>owner repo. getp params ''repoName'' = Inr repo \<and>
         ev_args e = [JObj [(''owner'', owner), (''repo'', repo),
                            (''per_page'', JNum 10), (''page'', JNum 1)]])"
  unfolding new_events_def getCommitsByRepoName_func_def getCommitsByRepoName_body_def
    getOwner_def io_defs
  by (auto split: sum.splits prod.splits simp: Let_def listCommits_request_def)

lemma listCommits_result:
  "fst (getCommitsByRepoName_func E params w) = Inr getCommitsByRepoName_failure \<or>
   (\<exists>owner repo resp commits entries.
      fst (getCommitsByRepoName_func E params w) = Inr (JSON_stringify (JArr entries)) \<and>
      Event ''octokit.rest.repos.listCommits'' [listCommits_request owner repo] (Inr resp)
         \<in> set (new_events (getCommitsByRepoName_func E params) w) \<and>
      getp resp ''data'' = Inr (JArr commits) \<and>
      list_all2 (\<lambda>c x. commit_entry c = Inr x) commits entries \<and>
      (\<forall>x\<in>set entries.
          obj_keys x = [''commitId'', ''sha'', ''message'', ''committerName'', ''date'']))"
proof -
  let ?m = "getCommitsByRepoName_func E params"
  from try_or_cases[of "getCommitsByRepoName_body E params" getCommitsByRepoName_failure w]
  consider "fst (?m w) = Inr getCommitsByRepoName_failure"
    | s w' where "getCommitsByRepoName_body E params w = (Inr (Some s), w')" "?m w = (Inr s, w')"
    unfolding getCommitsByRepoName_func_def by blast
  then show ?thesis
  proof cases
    case 1
    then show ?thesis by simp
  next
    case 2
    from 2(1) obtain resp data cm owner repo w0 where
      w': "w' = w0 @ [Event ''octokit.rest.repos.listCommits'' [listCommits_request owner repo] (Inr resp)]"
      and w0: "getOwner E w = (Inr owner, w0)"
      and d: "getp resp ''data'' = Inr data" and m: "js_map data commit_entry = Inr cm"
      and s: "s = JSON_stringify cm"
      unfolding getCommitsByRepoName_body_def by (auto simp: io_Inr)
    from m obtain commits entries where c: "data = JArr commits" "cm = JArr entries"
      "map_throwing commit_entry commits = Inr entries"
      by (auto simp: js_map_def split: jsval.splits sum.splits)
    from w0 obtain evs where "w0 = w @ evs" using getOwner_appends by blast
    with w' 2(2) have l:
      "Event ''octokit.rest.repos.listCommits'' [listCommits_request owner repo] (Inr resp)
        \<in> set (new_events ?m w)"
      by (simp add: new_events_def)
    have la: "list_all2 (\<lambda>c x. commit_entry c = Inr x) commits entries"
      using c(3) by (rule map_throwing_Inr)
    then have "\<forall>x\<in>set entries.
        obj_keys x = [''commitId'', ''sha'', ''message'', ''committerName'', ''date'']"
      using entries_keys by blast
    with 2(2) s c d l la show ?thesis
      by (intro disjI2 exI[of _ owner] exI[of _ repo] exI[of _ resp] exI[of _ commits]
          exI[of _ entries]) (simp del: JSON_stringify.simps)
  qed
qed

text \<open>
  C5, as the code has it: the list-commits tool takes the repository name only (its schema has
  the one field \<open>repoName\<close>); every request it sends to the GitHub client asks for page 1
  with a page size of 10, whatever the caller supplies; it returns either its failure text
  or the serialized list that has one entry per commit of the response, in order, each entry
  an object with the properties \<open>commitId\<close>, \<open>sha\<close>, \<open>message\<close>, \<open>committerName\<close>
  and \<open>date\<close>.
\<close>

theorem getCommitsByRepoName_fixed_page:
  "tool_schema getCommitsByRepoName = [(''repoName'', ZString, False)] \<and>
   (\<forall>e\<in>set (new_events (tool_func getCommitsByRepoName E params) w).
      ev_name e = ''octokit.rest.repos.listCommits'' \<longrightarrow>
      (\<exists>owner repo. getp params ''repoName'' = Inr repo \<and>
         ev_args e = [JObj [(''owner'', owner), (''repo'', repo),
                            (''per_page'', JNum 10), (''page'', JNum 1)]])) \<and>
   (fst (tool_func getCommitsByRepoName E params w) = Inr ''Not able to fetch commit details'' \<or>
    (\<exists>owner repo resp commits entries.
      fst (tool_func getCommitsByRepoName E params w) = Inr (JSON_stringify (JArr entries)) \<and>
      Event ''octokit.rest.repos.listCommits'' [listCommits_request owner repo] (Inr resp)
         \<in> set (new_events (tool_func getCommitsByRepoName E params) w) \<and>
      getp resp ''data'' = Inr (JArr commits) \<and>
      list_all2 (\<lambda>c x. commit_entry c = Inr x) commits entries \<and>
      (\<forall>x\<in>set entries.
          obj_keys x = [''commitId'', ''sha'', ''message'', ''committerName'', ''date''])))"
  using listCommits_events[of E params w] listCommits_result[of E params w]
  by (simp add: getCommitsByRepoName_def getCommitsByRepoName_failure_def del: JSON_stringify.simps)

text \<open>
  The theorem at the sample environment: the request that is sent, and the one entry that
  is returned.
\<close>

theorem getCommitsByRepoName_fixed_page_witness:
  "Event ''octokit.rest.repos.listCommits''
      [JObj [(''owner'', JStr ''octo''), (''repo'', JStr ''demo''),
             (''per_page'', JNum 10), (''page'', JNum 1)]]
      (Inr (JObj [(''status'', JNum 200), (''data'', JArr [demo_commit])]))
     \<in> set (new_events (tool_func getCommitsByRepoName demo_env paging_params) []) \<and>
   fst (tool_func getCommitsByRepoName demo_env paging_params []) =
     Inr (JSON_stringify (JArr [JObj [(''commitId'', JStr ''C_1''), (''sha'', JStr ''abc123''),
            (''message'', JStr ''first''), (''committerName'', JStr ''Octo''),
            (''date'', JStr ''2024-01-02T00:00:00Z'')]])) \<and>
   (\<exists>owner repo. getp paging_params ''repoName'' = Inr repo \<and>
      [JObj [(''owner'', JStr ''octo''), (''repo'', JStr ''demo''),
             (''per_page'', JNum 10), (''page'', JNum 1)]] =
      [JObj [(''owner'', owner), (''repo'', repo), (''per_page'', JNum 10), (''page'', JNum 1)]])"
proof -
  let ?e = "Event ''octokit.rest.repos.listCommits''
      [JObj [(''owner'', JStr ''octo''), (''repo'', JStr ''demo''),
             (''per_page'', JNum 10), (''page'', JNum 1)]]
      (Inr (JObj [(''status'', JNum 200), (''data'', JArr [demo_commit])]))"
  have h: "?e \<in> set (new_events (tool_func getCommitsByRepoName demo_env paging_params) [])"
    by code_simp
  have r: "fst (tool_func getCommitsByRepoName demo_env paging_params []) =
     Inr (JSON_stringify (JArr [JObj [(''commitId'', JStr ''C_1''), (''sha'', JStr ''abc123''),
            (''message'', JStr ''first''), (''committerName'', JStr ''Octo''),
            (''date'', JStr ''2024-01-02T00:00:00Z'')]]))"
    by code_simp
  from getCommitsByRepoName_fixed_page[of demo_env paging_params "[]"] h
  have "\<exists>owner repo. getp paging_params ''repoName'' = Inr repo \<and>
      ev_args ?e = [JObj [(''owner'', owner), (''repo'', repo),
                          (''per_page'', JNum 10), (''page'', JNum 1)]]"
    by (metis event.sel(1))
  with h r show ?thesis by simp
qed

text \<open>
  C5 as stated fails: a caller that supplies a page size of 5 and page 2 gets the request
  for page 1 with a page size of 10; the page size and the page number are not inputs.
\<close>

theorem getCommitsByRepoName_counterexample:
  "calls_named ''octokit.rest.repos.listCommits''
       (new_events (tool_func getCommitsByRepoName demo_env paging_params) []) =
     [[JObj [(''owner'', JStr ''octo''), (''repo'', JStr ''demo''),
             (''per_page'', JNum 10), (''page'', JNum 1)]]] \<and>
   getp paging_params ''per_page'' = Inr (JNum 5) \<and>
   getp paging_params ''page'' = Inr (JNum 2) \<and>
   map fst (tool_schema getCommitsByRepoName) = [''repoName'']"
  by code_simp


lemma base64_hello: "base64 ''Hello from octokit!!'' = ''SGVsbG8gZnJvbSBvY3Rva2l0ISE=''"
  by code_simp

lemma createOrUpdateFileContents_events:
  "\<forall>e\<in>set (new_events (createOrUpdateGitFile_func E params) w).
      ev_name e = ''octokit.rest.repos.createOrUpdateFileContents'' \<longrightarrow>
      (\<exists>owner repo path.
         getp params ''repoName'' = Inr repo \<and> getp params ''fileName'' = Inr path \<and>
         ev_args e = [JObj [(''owner'', owner), (''repo'', repo),
                            (''message'', JStr ''add hello.txt''),
                            (''content'', JStr ''SGVsbG8gZnJvbSBvY3Rva2l0ISE=''),
                            (''path'', path)]])"
  unfolding new_events_def createOrUpdateGitFile_func_def createOrUpdateGitFile_body_def
    getOwner_def io_defs createOrUpdateFileContents_request_def base64_hello
  by (auto split: sum.splits prod.splits simp: Let_def)

lemma createOrUpdateGitFile_result:
  "fst (createOrUpdateGitFile_func E params w) = Inr createOrUpdateGitFile_failure \<or>
   (\<exists>req resp url.
      Event ''octokit.rest.repos.createOrUpdateFileContents'' [req] (Inr resp)
        \<in> set (new_events (createOrUpdateGitFile_func E params) w) \<and>
      getp resp ''url'' = Inr url \<and>
      fst (createOrUpdateGitFile_func E params w) =
        Inr (''File added successfully!. '' @ JSON_stringify (JObj [(''url'', url)])))"
proof -
  let ?m = "createOrUpdateGitFile_func E params"
  from try_or_cases[of "createOrUpdateGitFile_body E params" createOrUpdateGitFile_failure w]
  consider "fst (?m w) = Inr createOrUpdateGitFile_failure"
    | s w' where "createOrUpdateGitFile_body E params w = (Inr (Some s), w')" "?m w = (Inr s, w')"
    unfolding createOrUpdateGitFile_func_def by blast
  then show ?thesis
  proof cases
    case 1
    then show ?thesis by simp
  next
    case 2
    from 2(1) obtain req resp url owner w0 where
      w': "w' = w0 @ [Event ''octokit.rest.repos.createOrUpdateFileContents'' [req] (Inr resp)]"
      and w0: "getOwner E w = (Inr owner, w0)"
      and u: "getp resp ''url'' = Inr url"
      and s: "s = ''File added successfully!. '' @ JSON_stringify (JObj [(''url'', url)])"
      unfolding createOrUpdateGitFile_body_def by (auto simp: io_Inr simp del: JSON_stringify.simps)
    from w0 obtain evs where "w0 = w @ evs" using getOwner_appends by blast
    with w' 2(2) have
      "Event ''octokit.rest.repos.createOrUpdateFileContents'' [req] (Inr resp) \<in> set (new_events ?m w)"
      by (simp add: new_events_def)
    with 2(2) s u show ?thesis
      by (intro disjI2 exI[of _ req] exI[of _ resp] exI[of _ url]) (simp del: JSON_stringify.simps)
  qed
qed

text \<open>
  C6, as the code has it: the create-or-update-file tool takes a repository name and a file
  name (its schema has the fields \<open>fileName\<close> and \<open>repoName\<close>); every request it sends
  writes the fixed content \<open>Hello from octokit!!\<close>, in base64, with the fixed commit
  message \<open>add hello.txt\<close>, to the path given as \<open>fileName\<close> in the named repository;
  it returns either its failure text or the success text followed by the serialized object
  whose one property \<open>url\<close> is the \<open>url\<close> of the collaborator's response.
\<close>

theorem createOrUpdateGitFile_fixed_content:
  "map fst (tool_schema createOrUpdateGitFile) = [''fileName'', ''repoName''] \<and>
   (\<forall>e\<in>set (new_events (tool_func createOrUpdateGitFile E params) w).
      ev_name e = ''octokit.rest.repos.createOrUpdateFileContents'' \<longrightarrow>
      (\<exists>owner repo path.
         getp params ''repoName'' = Inr repo \<and> getp params ''fileName'' = Inr path \<and>
         ev_args e = [JObj [(''owner'', owner), (''repo'', repo),
                            (''message'', JStr ''add hello.txt''),
                            (''content'', JStr (base64 ''Hello from octokit!!'')),
                            (''path'', path)]])) \<and>
   (fst (tool_func createOrUpdateGitFile E params w) = Inr ''Neither file created or updated'' \<or>
    (\<exists>req resp url.
      Event ''octokit.rest.repos.createOrUpdateFileContents'' [req] (Inr resp)
        \<in> set (new_events (tool_func createOrUpdateGitFile E params) w) \<and>
      getp resp ''url'' = Inr url \<and>
      fst (tool_func createOrUpdateGitFile E params w) =
        Inr (''File added successfully!. '' @ JSON_stringify (JObj [(''url'', url)]))))"
  using createOrUpdateFileContents_events[of E params w] createOrUpdateGitFile_result[of E params w]
  unfolding base64_hello
  by (simp add: createOrUpdateGitFile_def createOrUpdateGitFile_failure_def
        del: JSON_stringify.simps)

text \<open>
  The theorem at the sample environment: the request that is sent for the caller's file
  name, and the result with the response's \<open>url\<close>.
\<close>

theorem createOrUpdateGitFile_fixed_content_witness:
  "Event ''octokit.rest.repos.createOrUpdateFileContents''
      [JObj [(''owner'', JStr ''octo''), (''repo'', JStr ''demo''),
             (''message'', JStr ''add hello.txt''),
             (''content'', JStr ''SGVsbG8gZnJvbSBvY3Rva2l0ISE=''),
             (''path'', JStr ''notes.md'')]]
      (Inr (JObj [(''status'', JNum 201),
                  (''url'', JStr ''https://api.github.com/repos/octo/demo/contents/notes.md'')]))
     \<in> set (new_events (tool_func createOrUpdateGitFile demo_env file_params) []) \<and>
   fst (tool_func createOrUpdateGitFile demo_env file_params []) =
     Inr (''File added successfully!. '' @ JSON_stringify
            (JObj [(''url'', JStr ''https://api.github.com/repos/octo/demo/contents/notes.md'')])) \<and>
   (\<exists>owner repo path.
      getp file_params ''repoName'' = Inr repo \<and> getp file_params ''fileName'' = Inr path \<and>
      [JObj [(''owner'', JStr ''octo''), (''repo'', JStr ''demo''),
             (''message'', JStr ''add hello.txt''),
             (''content'', JStr ''SGVsbG8gZnJvbSBvY3Rva2l0ISE=''),
             (''path'', JStr ''notes.md'')]] =
      [JObj [(''owner'', owner), (''repo'', repo), (''message'', JStr ''add hello.txt''),
             (''content'', JStr (base64 ''Hello from octokit!!'')), (''path'', path)]])"
proof -
  let ?e = "Event ''octokit.rest.repos.createOrUpdateFileContents''
      [JObj [(''owner'', JStr ''octo''), (''repo'', JStr ''demo''),
             (''message'', JStr ''add hello.txt''),
             (''content'', JStr ''SGVsbG8gZnJvbSBvY3Rva2l0ISE=''),
             (''path'', JStr ''notes.md'')]]
      (Inr (JObj [(''status'', JNum 201),
                  (''url'', JStr ''https://api.github.com/repos/octo/demo/contents/notes.md'')]))"
  have h: "?e \<in> set (new_events (tool_func createOrUpdateGitFile demo_env file_params) [])"
    by code_simp
  have r: "fst (tool_func createOrUpdateGitFile demo_env file_params []) =
     Inr (''File added successfully!. '' @ JSON_stringify
            (JObj [(''url'', JStr ''https://api.github.com/repos/octo/demo/contents/notes.md'')]))"
    by code_simp
  from createOrUpdateGitFile_fixed_content[of demo_env file_params "[]"] h
  have "\<exists>owner repo path.
      getp file_params ''repoName'' = Inr repo \<and> getp file_params ''fileName'' = Inr path \<and>
      ev_args ?e = [JObj [(''owner'', owner), (''repo'', repo), (''message'', JStr ''add hello.txt''),
             (''content'', JStr (base64 ''Hello from octokit!!'')), (''path'', path)]]"
    unfolding base64_hello by (metis event.sel(1))
  with h r show ?thesis unfolding base64_hello by (simp del: JSON_stringify.simps)
qed

text \<open>
  C6 as stated fails: a caller that supplies the content \<open>my notes\<close> and the commit
  message \<open>add my notes\<close> has the fixed content and the fixed message sent instead.
\<close>

theorem createOrUpdateGitFile_counterexample:
  "calls_named ''octokit.rest.repos.createOrUpdateFileContents''
       (new_events (tool_func createOrUpdateGitFile demo_env file_params) []) =
     [[JObj [(''owner'', JStr ''octo''), (''repo'', JStr ''demo''),
             (''message'', JStr ''add hello.txt''),
             (''content'', JStr (base64 ''Hello from octokit!!'')),
             (''path'', JStr ''notes.md'')]]] \<and>
   getp file_params ''content'' = Inr (JStr ''my notes'') \<and>
   getp file_params ''commitMessage'' = Inr (JStr ''add my notes'') \<and>
   base64 ''Hello from octokit!!'' \<noteq> base64 ''my notes'' \<and>
   base64 ''Hello from octokit!!'' \<noteq> ''my notes''"
  by code_simp


lemma getRepository_result:
  "fst (getRepository_func E params w) = Inr getRepository_failure \<or>
   (\<exists>owner repo resp data details.
      fst (getRepository_func E params w) = Inr (JSON_stringify details) \<and>
      getp params ''repoName'' = Inr repo \<and>
      Event ''octokit.rest.repos.get'' [JObj [(''owner'', owner), (''repo'', repo)]] (Inr resp)
        \<in> set (new_events (getRepository_func E params) w) \<and>
      getp resp ''data'' = Inr data \<and>
      repoDetails data = Inr details \<and>
      obj_keys details = [''id'', ''name'', ''description'', ''owner'', ''private'', ''url'',
                          ''createdAt'', ''avatarUrl'', ''userViewType''])"
proof -
  let ?m = "getRepository_func E params"
  from try_or_cases[of "getRepository_body E params" getRepository_failure w]
  consider "fst (?m w) = Inr getRepository_failure"
    | s w' where "getRepository_body E params w = (Inr (Some s), w')" "?m w = (Inr s, w')"
    unfolding getRepository_func_def by blast
  then show ?thesis
  proof cases
    case 1
    then show ?thesis by simp
  next
    case 2
    from 2(1) obtain repo owner resp data details w0 where
      p: "getp params ''repoName'' = Inr repo"
      and w0: "getOwner E w = (Inr owner, w0)"
      and w': "w' = w0 @ [Event ''octokit.rest.repos.get'' [JObj [(''owner'', owner), (''repo'', repo)]] (Inr resp)]"
      and d: "getp resp ''data'' = Inr data" "repoDetails data = Inr details"
      and s: "s = JSON_stringify details"
      unfolding getRepository_body_def getRepoDetails_def by (auto simp: io_Inr)
    from w0 obtain evs where "w0 = w @ evs" using getOwner_appends by blast
    with w' 2(2) have
      "Event ''octokit.rest.repos.get'' [JObj [(''owner'', owner), (''repo'', repo)]] (Inr resp)
         \<in> set (new_events ?m w)"
      by (simp add: new_events_def)
    with 2(2) s p d repoDetails_keys[OF d(2)] show ?thesis
      by (intro disjI2 exI[of _ owner] exI[of _ repo] exI[of _ resp] exI[of _ data]
          exI[of _ details]) (simp del: JSON_stringify.simps)
  qed
qed

text \<open>
  C7, as the code has it: the get-repository-details tool, given a repository name, returns
  either its failure text or the serialization of the object \<open>repoDetails\<close> built from
  the collaborator's data for that repository, whose properties are \<open>id\<close>, \<open>name\<close>,
  \<open>description\<close>, \<open>owner\<close>, \<open>private\<close>, \<open>url\<close>, \<open>createdAt\<close>, \<open>avatarUrl\<close> and
  \<open>userViewType\<close>, in this order.
\<close>

theorem getRepository_fields:
  "fst (tool_func getRepository E params w) = Inr ''Not able to fetch more details of the repository'' \<or>
   (\<exists>owner repo resp data details.
      fst (tool_func getRepository E params w) = Inr (JSON_stringify details) \<and>
      getp params ''repoName'' = Inr repo \<and>
      Event ''octokit.rest.repos.get'' [JObj [(''owner'', owner), (''repo'', repo)]] (Inr resp)
        \<in> set (new_events (tool_func getRepository E params) w) \<and>
      getp resp ''data'' = Inr data \<and>
      repoDetails data = Inr details \<and>
      obj_keys details = [''id'', ''name'', ''description'', ''owner'', ''private'', ''url'',
                          ''createdAt'', ''avatarUrl'', ''userViewType''])"
  using getRepository_result[of E params w]
  by (simp add: getRepository_def getRepository_failure_def del: JSON_stringify.simps)

text \<open>
  C7 as stated fails: for the sample repository the record that is returned has the
  properties \<open>private\<close> and \<open>userViewType\<close>, and neither \<open>visibility\<close> nor
  \<open>ownerViewType\<close>.
\<close>

theorem getRepository_counterexample:
  "fst (tool_func getRepository demo_env (JObj [(''repoName'', JStr ''demo'')]) []) =
     Inr (JSON_stringify demo_details) \<and>
   json_keys demo_details =
     [''id'', ''name'', ''description'', ''owner'', ''private'', ''url'', ''createdAt'',
      ''avatarUrl'', ''userViewType''] \<and>
   json_keys demo_details \<noteq>
     [''id'', ''name'', ''description'', ''owner'', ''visibility'', ''url'', ''createdAt'',
      ''avatarUrl'', ''ownerViewType'']"
  by code_simp


lemma clone_events:
  "\<forall>e\<in>set (new_events (gitCloneRepository_func E params) w).
      ev_name e = ''git.clone'' \<longrightarrow> (\<exists>url. ev_args e = [url, JStr ''your local file path''])"
  unfolding new_events_def gitCloneRepository_func_def gitCloneRepository_body_def getOwner_def
    getRepoDetails_def io_defs
  by (auto split: sum.splits prod.splits simp: Let_def localPath_def)

text \<open>
  C9: the clone tool has the repository name as its only input, and every clone it starts,
  for any arguments, any environment and any log, has the fixed text
  \<open>your local file path\<close> as its destination.
\<close>

theorem gitCloneRepository_fixed_path:
  "tool_schema gitCloneRepository = [(''repoName'', ZString, False)] \<and>
   (\<forall>e\<in>set (new_events (tool_func gitCloneRepository E params) w).
      ev_name e = ''git.clone'' \<longrightarrow> (\<exists>url. ev_args e = [url, JStr ''your local file path'']))"
  using clone_events[of E params w] by (simp add: gitCloneRepository_def)

text \<open>
  The theorem at the sample environment, for a caller that supplies a path of its own: the
  clone goes to the fixed path.
\<close>

theorem gitCloneRepository_fixed_path_witness:
  "Event ''git.clone'' [JStr ''https://github.com/octo/demo.git'', JStr ''your local file path'']
      (Inr JUndefined)
     \<in> set (new_events (tool_func gitCloneRepository demo_env clone_params) []) \<and>
   getp clone_params ''localPath'' = Inr (JStr ''/home/me/demo'') \<and>
   (\<exists>url. [JStr ''https://github.com/octo/demo.git'', JStr ''your local file path''] =
            [url, JStr ''your local file path''])"
proof -
  let ?e = "Event ''git.clone''
      [JStr ''https://github.com/octo/demo.git'', JStr ''your local file path''] (Inr JUndefined)"
  have h: "?e \<in> set (new_events (tool_func gitCloneRepository demo_env clone_params) [])"
    by code_simp
  have p: "getp clone_params ''localPath'' = Inr (JStr ''/home/me/demo'')"
    by code_simp
  from gitCloneRepository_fixed_path[of demo_env clone_params "[]"] h
  have "\<exists>url. ev_args ?e = [url, JStr ''your local file path'']"
    by (metis event.sel(1))
  with h p show ?thesis by simp
qed


lemma update_events:
  "\<forall>e\<in>set (new_events (updateRepository_func E params) w).
      ev_name e = ''octokit.rest.repos.update'' \<longrightarrow>
      (\<exists>owner repo description visibility.
         getp params ''visibility'' = Inr visibility \<and>
         ev_args e = [JObj [(''owner'', owner), (''repo'', repo), (''description'', description),
                            (''visibility'', visibility),
                            (''private'', JBool (visibility = JStr ''private''))]])"
  unfolding new_events_def updateRepository_func_def updateRepository_body_def getOwner_def io_defs
  by (auto split: sum.splits prod.splits simp: Let_def update_request_def)

text \<open>
  C10: in every request the update-repository tool sends, \<open>private\<close> is true exactly when
  the \<open>visibility\<close> argument is the string \<open>private\<close>; so it is false for
  \<open>internal\<close>, for \<open>public\<close> and when \<open>visibility\<close> is omitted.
\<close>

theorem updateRepository_private_flag:
  "\<forall>e\<in>set (new_events (tool_func updateRepository E params) w).
      ev_name e = ''octokit.rest.repos.update'' \<longrightarrow>
      (\<exists>owner repo description visibility.
         getp params ''visibility'' = Inr visibility \<and>
         ev_args e = [JObj [(''owner'', owner), (''repo'', repo), (''description'', description),
                            (''visibility'', visibility),
                            (''private'', JBool (visibility = JStr ''private''))]])"
  using update_events[of E params w] by (simp add: updateRepository_def)

text \<open>
  The theorem at the sample environment, for the visibility \<open>internal\<close>: the request is
  sent with \<open>private\<close> false.
\<close>

theorem updateRepository_private_flag_witness:
  "Event ''octokit.rest.repos.update''
      [JObj [(''owner'', JStr ''octo''), (''repo'', JStr ''demo''), (''description'', JUndefined),
             (''visibility'', JStr ''internal''), (''private'', JBool False)]]
      (Inr (JObj [(''status'', JNum 200)]))
     \<in> set (new_events (tool_func updateRepository demo_env internal_params) []) \<and>
   (\<exists>owner repo description visibility.
      getp internal_params ''visibility'' = Inr visibility \<and>
      [JObj [(''owner'', JStr ''octo''), (''repo'', JStr ''demo''), (''description'', JUndefined),
             (''visibility'', JStr ''internal''), (''private'', JBool False)]] =
      [JObj [(''owner'', owner), (''repo'', repo), (''description'', description),
             (''visibility'', visibility), (''private'', JBool (visibility = JStr ''private''))]])"
proof -
  let ?e = "Event ''octokit.rest.repos.update''
      [JObj [(''owner'', JStr ''octo''), (''repo'', JStr ''demo''), (''description'', JUndefined),
             (''visibility'', JStr ''internal''), (''private'', JBool False)]]
      (Inr (JObj [(''status'', JNum 200)]))"
  have h: "?e \<in> set (new_events (tool_func updateRepository demo_env internal_params) [])"
    by code_simp
  from updateRepository_private_flag[of demo_env internal_params "[]"] h
  have "\<exists>owner repo description visibility.
      getp internal_params ''visibility'' = Inr visibility \<and>
      ev_args ?e = [JObj [(''owner'', owner), (''repo'', repo), (''description'', description),
             (''visibility'', visibility), (''private'', JBool (visibility = JStr ''private''))]]"
    by (metis event.sel(1))
  with h show ?thesis by simp
qed

section \<open>The push\<close>

lemma getOwner_Inr:
  "getOwner E w = (Inr owner, w') \<Longrightarrow>
     \<exists>resp. w' = w @ [Event ''octokit.rest.users.getAuthenticated'' [] (Inr resp)]"
  unfolding getOwner_def by (auto simp: io_Inr)

lemma getRepoDetails_Inr:
  "getRepoDetails E owner repo w = (Inr data, w') \<Longrightarrow>
     \<exists>resp. getp resp ''data'' = Inr data \<and>
       w' = w @ [Event ''octokit.rest.repos.get'' [JObj [(''owner'', owner), (''repo'', repo)]] (Inr resp)]"
  unfolding getRepoDetails_def by (auto simp: io_Inr)

lemma switch_main_Inr:
  assumes "switch_main E w = (Inr u, w')"
  shows "\<exists>branches all has_main r.
       getp branches ''all'' = Inr all \<and> js_includes all ''main'' = Inr has_main \<and>
       w' = w @ [Event ''git.branchLocal'' [] (Inr branches),
                 Event (if has_main then ''git.checkout'' else ''git.checkoutLocalBranch'')
                   [JStr ''main''] (Inr r)]"
proof -
  from assms obtain branches all has_main r where
    1: "getp branches ''all'' = Inr all" "js_includes all ''main'' = Inr has_main"
    and 2: "(if has_main then io_call E ''git.checkout'' [JStr ''main'']
             else io_call E ''git.checkoutLocalBranch'' [JStr ''main''])
              (w @ [Event ''git.branchLocal'' [] (Inr branches)]) = (Inr r, w')"
    unfolding switch_main_def io_bind_Inr io_call_Inr io_prop_Inr io_lift_Inr io_return_Inr
    by blast
  from 2 have "w' = w @ [Event ''git.branchLocal'' [] (Inr branches),
                 Event (if has_main then ''git.checkout'' else ''git.checkoutLocalBranch'')
                   [JStr ''main''] (Inr r)]"
    by (cases has_main) (simp_all add: io_call_Inr)
  with 1 show ?thesis by blast
qed

lemma set_origin_Inr:
  assumes "set_origin E url w = (Inr u, w')"
  shows "\<exists>remotes found r1 r2.
       js_find_named remotes ''origin'' = Inr found \<and>
       w' = w @ [Event ''git.getRemotes'' [JBool True] (Inr remotes)]
              @ (if js_truthy found then [Event ''git.removeRemote'' [JStr ''origin''] (Inr r1)] else [])
              @ [Event ''git.addRemote'' [JStr ''origin'', JStr url] (Inr r2)]"
proof -
  from assms obtain remotes found r1 w1 r2 where
    1: "js_find_named remotes ''origin'' = Inr found"
    and 2: "(if js_truthy found then io_call E ''git.removeRemote'' [JStr ''origin'']
             else io_return JUndefined)
              (w @ [Event ''git.getRemotes'' [JBool True] (Inr remotes)]) = (Inr r1, w1)"
    and 3: "w' = w1 @ [Event ''git.addRemote'' [JStr ''origin'', JStr url] (Inr r2)]"
    unfolding set_origin_def io_bind_Inr io_call_Inr io_prop_Inr io_lift_Inr io_return_Inr
    by blast
  from 2 have "w1 = w @ [Event ''git.getRemotes'' [JBool True] (Inr remotes)]
              @ (if js_truthy found then [Event ''git.removeRemote'' [JStr ''origin''] (Inr r1)] else [])"
    by (cases "js_truthy found") (simp_all add: io_call_Inr io_return_Inr)
  with 1 3 show ?thesis by auto
qed

lemma pull_rebase_Inr:
  "pull_rebase E w = (Inr u, w') \<Longrightarrow>
     \<exists>r warn.
       w' = w @ [Event ''git.pull'' [JStr ''origin'', JStr ''main'', JObj [(''--rebase'', JStr ''true'')]] r]
              @ (if failed (Event ''git.pull'' [] r) then [Event ''console.warn'' warn (Inr JUndefined)] else [])"
  unfolding pull_rebase_def io_defs
  by (auto simp: Let_def failed_def split: sum.splits prod.splits)

lemma gitPush_marks: "gitPush_success \<noteq> gitPush_failure"
  by (simp add: gitPush_success_def gitPush_failure_def check_mark_def cross_mark_def)

lemma gitPush_body_Inr:
  assumes "gitPush_body E params w = (Inr (Some s), w')"
  shows "\<exists>projectName commitMessage owner repo resp data html_url url branches all has_main
            remotes found evs.
      getp params ''projectName'' = Inr projectName \<and>
      getp params ''commitMessage'' = Inr commitMessage \<and>
      getp params ''repoName'' = Inr repo \<and>
      w' = w @ evs \<and>
      Event ''octokit.rest.repos.get'' [JObj [(''owner'', owner), (''repo'', repo)]] (Inr resp) \<in> set evs \<and>
      getp resp ''data'' = Inr data \<and>
      getp data ''html_url'' = Inr html_url \<and>
      authedUrl E html_url = Inr url \<and>
      Event ''git.branchLocal'' [] (Inr branches) \<in> set evs \<and>
      getp branches ''all'' = Inr all \<and>
      js_includes all ''main'' = Inr has_main \<and>
      Event ''git.getRemotes'' [JBool True] (Inr remotes) \<in> set evs \<and>
      js_find_named remotes ''origin'' = Inr found \<and>
      git_calls evs =
        push_steps (projectPath E projectName) commitMessage has_main (js_truthy found) url"
proof -
  from assms obtain projectName repo commitMessage owner w1 data w2 html_url url g w3 w4 w5 w6 w7 w8 w9
      r4 r5 r6 r9 u7 u8 u9
    where p: "getp params ''projectName'' = Inr projectName" "getp params ''repoName'' = Inr repo"
      "getp params ''commitMessage'' = Inr commitMessage"
    and o: "getOwner E w = (Inr owner, w1)"
    and d: "getRepoDetails E owner repo w1 = (Inr data, w2)"
    and h: "getp data ''html_url'' = Inr html_url" "authedUrl E html_url = Inr url"
    and w3: "w3 = w2 @ [Event ''simpleGit'' [JStr (projectPath E projectName)] (Inr g)]"
    and w4: "w4 = w3 @ [Event ''git.init'' [] (Inr r4)]"
    and w5: "w5 = w4 @ [Event ''git.add'' [JStr ''./*''] (Inr r5)]"
    and w6: "w6 = w5 @ [Event ''git.commit'' [commitMessage] (Inr r6)]"
    and s7: "switch_main E w6 = (Inr u7, w7)"
    and s8: "set_origin E url w7 = (Inr u8, w8)"
    and s9: "pull_rebase E w8 = (Inr u9, w9)"
    and w': "w' = w9 @ [Event ''git.push'' [JArr [JStr ''-u'', JStr ''origin'', JStr ''main'']] (Inr r9)]"
    unfolding gitPush_body_def by (auto simp: io_Inr)
  from getOwner_Inr[OF o] obtain resp0 where
    w1: "w1 = w @ [Event ''octokit.rest.users.getAuthenticated'' [] (Inr resp0)]" by blast
  from getRepoDetails_Inr[OF d] obtain resp where
    r: "getp resp ''data'' = Inr data"
    and w2: "w2 = w1 @ [Event ''octokit.rest.repos.get'' [JObj [(''owner'', owner), (''repo'', repo)]] (Inr resp)]"
    by blast
  from switch_main_Inr[OF s7] obtain branches all has_main r7 where
    b: "getp branches ''all'' = Inr all" "js_includes all ''main'' = Inr has_main"
    and w7: "w7 = w6 @ [Event ''git.branchLocal'' [] (Inr branches),
                 Event (if has_main then ''git.checkout'' else ''git.checkoutLocalBranch'')
                   [JStr ''main''] (Inr r7)]"
    by blast
  from set_origin_Inr[OF s8] obtain remotes found r81 r82 where
    f: "js_find_named remotes ''origin'' = Inr found"
    and w8: "w8 = w7 @ [Event ''git.getRemotes'' [JBool True] (Inr remotes)]
              @ (if js_truthy found then [Event ''git.removeRemote'' [JStr ''origin''] (Inr r81)] else [])
              @ [Event ''git.addRemote'' [JStr ''origin'', JStr url] (Inr r82)]"
    by blast
  from pull_rebase_Inr[OF s9] obtain r91 warn where
    w9: "w9 = w8 @ [Event ''git.pull'' [JStr ''origin'', JStr ''main'', JObj [(''--rebase'', JStr ''true'')]] r91]
              @ (if failed (Event ''git.pull'' [] r91) then [Event ''console.warn'' warn (Inr JUndefined)] else [])"
    by blast
  define evs where "evs = drop (length w) w'"
  have e: "w' = w @ evs"
    unfolding evs_def w' w9 w8 w7 w6 w5 w4 w3 w2 w1 by simp
  have evs: "evs = [Event ''octokit.rest.users.getAuthenticated'' [] (Inr resp0),
       Event ''octokit.rest.repos.get'' [JObj [(''owner'', owner), (''repo'', repo)]] (Inr resp),
       Event ''simpleGit'' [JStr (projectPath E projectName)] (Inr g),
       Event ''git.init'' [] (Inr r4),
       Event ''git.add'' [JStr ''./*''] (Inr r5),
       Event ''git.commit'' [commitMessage] (Inr r6),
       Event ''git.branchLocal'' [] (Inr branches),
       Event (if has_main then ''git.checkout'' else ''git.checkoutLocalBranch'') [JStr ''main''] (Inr r7),
       Event ''git.getRemotes'' [JBool True] (Inr remotes)]
      @ (if js_truthy found then [Event ''git.removeRemote'' [JStr ''origin''] (Inr r81)] else [])
      @ [Event ''git.addRemote'' [JStr ''origin'', JStr url] (Inr r82),
         Event ''git.pull'' [JStr ''origin'', JStr ''main'', JObj [(''--rebase'', JStr ''true'')]] r91]
      @ (if failed (Event ''git.pull'' [] r91) then [Event ''console.warn'' warn (Inr JUndefined)] else [])
      @ [Event ''git.push'' [JArr [JStr ''-u'', JStr ''origin'', JStr ''main'']] (Inr r9)]"
    unfolding evs_def w' w9 w8 w7 w6 w5 w4 w3 w2 w1 by simp
  have g: "git_calls evs =
        push_steps (projectPath E projectName) commitMessage has_main (js_truthy found) url"
    unfolding evs by (simp add: git_calls_def is_git_def push_steps_def)
  have m1: "Event ''octokit.rest.repos.get'' [JObj [(''owner'', owner), (''repo'', repo)]] (Inr resp) \<in> set evs"
    and m2: "Event ''git.branchLocal'' [] (Inr branches) \<in> set evs"
    and m3: "Event ''git.getRemotes'' [JBool True] (Inr remotes) \<in> set evs"
    unfolding evs by simp_all
  from p e m1 r h m2 b m3 f g show ?thesis by blast
qed

lemma find_named_truthy:
  "find_named n rs = Inr found \<Longrightarrow>
     js_truthy found \<longleftrightarrow> (\<exists>r\<in>set rs. getp r ''name'' = Inr (JStr n))"
proof (induction rs)
  case Nil
  then show ?case by (simp add: js_truthy_def)
next
  case (Cons r rs)
  show ?case
  proof (cases "getp r ''name''")
    case (Inl e)
    with Cons.prems show ?thesis by simp
  next
    case (Inr v)
    show ?thesis
    proof (cases "v = JStr n")
      case True
      with Inr Cons.prems have "found = r" by simp
      moreover from Inr True obtain kvs where "r = JObj kvs"
        by (cases r) (auto simp: getp_def)
      ultimately show ?thesis using Inr True by (simp add: js_truthy_def)
    next
      case False
      with Inr Cons.prems Cons.IH show ?thesis by simp
    qed
  qed
qed

lemma js_find_named_Inr:
  "js_find_named v n = Inr found \<Longrightarrow> \<exists>rs. v = JArr rs \<and> find_named n rs = Inr found"
  by (cases v) (auto simp: js_find_named_def)

lemma js_includes_Inr:
  "js_includes v s = Inr b \<Longrightarrow>
     (\<exists>bs. v = JArr bs \<and> (b \<longleftrightarrow> JStr s \<in> set bs)) \<or>
     (\<exists>t. v = JStr t \<and> (b \<longleftrightarrow> has_infix s t))"
  by (cases v) (auto simp: js_includes_def)

lemma substitution_plain: "CHR ''$'' \<notin> set rep \<Longrightarrow> substitution m b a rep = rep"
  by (induction m b a rep rule: substitution.induct) auto

lemma authedUrl_https:
  assumes "GITHUB_ACCESS_TOKEN E = Some tok" and "CHR ''$'' \<notin> set tok"
  shows "authedUrl E (JStr (''https://'' @ rest)) = Inr (''https://'' @ tok @ ''@'' @ rest)"
proof -
  have "CHR ''$'' \<notin> set (token_prefix E)"
    using assms by (simp add: token_prefix_def)
  then have "substitution ''https://'' [] rest (token_prefix E) = token_prefix E"
    by (rule substitution_plain)
  moreover have "find_first ''https://'' (''https://'' @ rest) = Some ([], rest)"
    by simp
  ultimately show ?thesis
    using assms(1) by (simp add: authedUrl_def js_replace_def token_prefix_def)
qed

text \<open>
  C8: a push that reports success has made exactly these calls to the local version-control
  collaborator, in this order: open the project path, \<open>init\<close>, \<open>add\<close> of all files,
  \<open>commit\<close> with the given message, list the local branches and check out \<open>main\<close>,
  with \<open>checkout\<close> when \<open>main\<close> is in the list and with \<open>checkoutLocalBranch\<close>, which
  creates it, when it is not; list the remotes, remove \<open>origin\<close> when a remote of the
  list has this name, and add \<open>origin\<close> with the URL of the repository that has the
  access token put after \<open>https://\<close>; \<open>pull\<close> with rebase; and \<open>push\<close> with upstream
  tracking. Every call but the pull has succeeded; the pull may have failed.
\<close>

theorem gitPush_steps_in_order:
  assumes "fst (tool_func gitPush E params w) = Inr gitPush_success"
  shows "\<exists>projectName commitMessage owner repo resp data html_url url branches all has_main rs.
      getp params ''projectName'' = Inr projectName \<and>
      getp params ''commitMessage'' = Inr commitMessage \<and>
      getp params ''repoName'' = Inr repo \<and>
      Event ''octokit.rest.repos.get'' [JObj [(''owner'', owner), (''repo'', repo)]] (Inr resp)
        \<in> set (new_events (tool_func gitPush E params) w) \<and>
      getp resp ''data'' = Inr data \<and>
      getp data ''html_url'' = Inr html_url \<and>
      authedUrl E html_url = Inr url \<and>
      (\<forall>rest tok. html_url = JStr (''https://'' @ rest) \<and> GITHUB_ACCESS_TOKEN E = Some tok \<and>
          CHR ''$'' \<notin> set tok \<longrightarrow> url = ''https://'' @ tok @ ''@'' @ rest) \<and>
      Event ''git.branchLocal'' [] (Inr branches) \<in> set (new_events (tool_func gitPush E params) w) \<and>
      getp branches ''all'' = Inr all \<and>
      ((\<exists>bs. all = JArr bs \<and> (has_main \<longleftrightarrow> JStr ''main'' \<in> set bs)) \<or>
       (\<exists>t. all = JStr t \<and> (has_main \<longleftrightarrow> has_infix ''main'' t))) \<and>
      Event ''git.getRemotes'' [JBool True] (Inr (JArr rs))
        \<in> set (new_events (tool_func gitPush E params) w) \<and>
      git_calls (new_events (tool_func gitPush E params) w) =
        push_steps (projectPath E projectName) commitMessage has_main
          (\<exists>r\<in>set rs. getp r ''name'' = Inr (JStr ''origin'')) url \<and>
      (\<forall>e\<in>set (new_events (tool_func gitPush E params) w). failed e \<longrightarrow> ev_name e = ''git.pull'')"
proof -
  have f: "tool_func gitPush E params = try_or (gitPush_body E params) gitPush_failure"
    by (simp add: gitPush_def gitPush_func_def)
  from try_or_cases[of "gitPush_body E params" gitPush_failure w] assms gitPush_marks
  obtain s w' where b: "gitPush_body E params w = (Inr (Some s), w')"
    and t: "tool_func gitPush E params w = (Inr s, w')"
    unfolding f by auto
  from clean_gitPush[of E params] b obtain evs where
    evs: "w' = w @ evs" "\<forall>e\<in>set evs. failed e \<longrightarrow> ev_name e = ''git.pull''"
    unfolding clean_def by blast
  from t evs(1) have n: "new_events (tool_func gitPush E params) w = evs"
    by (simp add: new_events_def)
  from gitPush_body_Inr[OF b] evs(1)
  obtain projectName commitMessage owner repo resp data html_url url branches all has_main
      remotes found where
    p: "getp params ''projectName'' = Inr projectName"
      "getp params ''commitMessage'' = Inr commitMessage"
      "getp params ''repoName'' = Inr repo"
    and r: "Event ''octokit.rest.repos.get'' [JObj [(''owner'', owner), (''repo'', repo)]] (Inr resp) \<in> set evs"
      "getp resp ''data'' = Inr data" "getp data ''html_url'' = Inr html_url"
      "authedUrl E html_url = Inr url"
    and br: "Event ''git.branchLocal'' [] (Inr branches) \<in> set evs"
      "getp branches ''all'' = Inr all" "js_includes all ''main'' = Inr has_main"
    and re: "Event ''git.getRemotes'' [JBool True] (Inr remotes) \<in> set evs"
      "js_find_named remotes ''origin'' = Inr found"
    and g: "git_calls evs =
        push_steps (projectPath E projectName) commitMessage has_main (js_truthy found) url"
    by auto
  from js_find_named_Inr[OF re(2)] obtain rs where
    rs: "remotes = JArr rs" "find_named ''origin'' rs = Inr found" by blast
  have o: "js_truthy found \<longleftrightarrow> (\<exists>r\<in>set rs. getp r ''name'' = Inr (JStr ''origin''))"
    using rs(2) by (rule find_named_truthy)
  have u: "\<forall>rest tok. html_url = JStr (''https://'' @ rest) \<and> GITHUB_ACCESS_TOKEN E = Some tok \<and>
          CHR ''$'' \<notin> set tok \<longrightarrow> url = ''https://'' @ tok @ ''@'' @ rest"
    using r(4) authedUrl_https[of E] by auto
  from p r br(1,2) js_includes_Inr[OF br(3)] re(1) g u evs(2)
  show ?thesis
    unfolding n rs(1) o by blast
qed

text \<open>
  The theorem at two sample environments. In the first the local project has neither a
  branch \<open>main\<close> nor a remote \<open>origin\<close> and the pull fails: \<open>main\<close> is created,
  nothing is removed, and the push reports success. In the second the project has both:
  \<open>main\<close> is checked out and \<open>origin\<close> is removed before it is added.
\<close>

theorem gitPush_steps_in_order_witness:
  "fst (tool_func gitPush demo_env push_params []) = Inr gitPush_success \<and>
   git_calls (new_events (tool_func gitPush demo_env push_params) []) =
     [(''simpleGit'', [JStr ''/app/proj'']),
      (''git.init'', []),
      (''git.add'', [JStr ''./*'']),
      (''git.commit'', [JStr ''init'']),
      (''git.branchLocal'', []),
      (''git.checkoutLocalBranch'', [JStr ''main'']),
      (''git.getRemotes'', [JBool True]),
      (''git.addRemote'', [JStr ''origin'', JStr ''https://ghp_token@github.com/octo/demo'']),
      (''git.pull'', [JStr ''origin'', JStr ''main'', JObj [(''--rebase'', JStr ''true'')]]),
      (''git.push'', [JArr [JStr ''-u'', JStr ''origin'', JStr ''main'']])] \<and>
   Event ''git.pull'' [JStr ''origin'', JStr ''main'', JObj [(''--rebase'', JStr ''true'')]]
       (Inl (JObj [(''message'', JStr ''could not find remote ref main'')]))
     \<in> set (new_events (tool_func gitPush demo_env push_params) []) \<and>
   fst (tool_func gitPush established_env push_params []) = Inr gitPush_success \<and>
   git_calls (new_events (tool_func gitPush established_env push_params) []) =
     [(''simpleGit'', [JStr ''/app/proj'']),
      (''git.init'', []),
      (''git.add'', [JStr ''./*'']),
      (''git.commit'', [JStr ''init'']),
      (''git.branchLocal'', []),
      (''git.checkout'', [JStr ''main'']),
      (''git.getRemotes'', [JBool True]),
      (''git.removeRemote'', [JStr ''origin'']),
      (''git.addRemote'', [JStr ''origin'', JStr ''https://ghp_token@github.com/octo/demo'']),
      (''git.pull'', [JStr ''origin'', JStr ''main'', JObj [(''--rebase'', JStr ''true'')]]),
      (''git.push'', [JArr [JStr ''-u'', JStr ''origin'', JStr ''main'']])] \<and>
   (\<exists>projectName commitMessage has_main has_origin url.
       getp push_params ''projectName'' = Inr projectName \<and>
       getp push_params ''commitMessage'' = Inr commitMessage \<and>
       git_calls (new_events (tool_func gitPush demo_env push_params) []) =
         push_steps (projectPath demo_env projectName) commitMessage has_main has_origin url) \<and>
   (\<exists>projectName commitMessage has_main has_origin url.
       getp push_params ''projectName'' = Inr projectName \<and>
       getp push_params ''commitMessage'' = Inr commitMessage \<and>
       git_calls (new_events (tool_func gitPush established_env push_params) []) =
         push_steps (projectPath established_env projectName) commitMessage has_main has_origin url)"
proof -
  have h1: "fst (tool_func gitPush demo_env push_params []) = Inr gitPush_success"
    by code_simp
  have g1: "git_calls (new_events (tool_func gitPush demo_env push_params) []) =
     [(''simpleGit'', [JStr ''/app/proj'']),
      (''git.init'', []),
      (''git.add'', [JStr ''./*'']),
      (''git.commit'', [JStr ''init'']),
      (''git.branchLocal'', []),
      (''git.checkoutLocalBranch'', [JStr ''main'']),
      (''git.getRemotes'', [JBool True]),
      (''git.addRemote'', [JStr ''origin'', JStr ''https://ghp_token@github.com/octo/demo'']),
      (''git.pull'', [JStr ''origin'', JStr ''main'', JObj [(''--rebase'', JStr ''true'')]]),
      (''git.push'', [JArr [JStr ''-u'', JStr ''origin'', JStr ''main'']])]"
    by code_simp
  have p1: "Event ''git.pull'' [JStr ''origin'', JStr ''main'', JObj [(''--rebase'', JStr ''true'')]]
       (Inl (JObj [(''message'', JStr ''could not find remote ref main'')]))
     \<in> set (new_events (tool_func gitPush demo_env push_params) [])"
    by code_simp
  have h2: "fst (tool_func gitPush established_env push_params []) = Inr gitPush_success"
    by code_simp
  have g2: "git_calls (new_events (tool_func gitPush established_env push_params) []) =
     [(''simpleGit'', [JStr ''/app/proj'']),
      (''git.init'', []),
      (''git.add'', [JStr ''./*'']),
      (''git.commit'', [JStr ''init'']),
      (''git.branchLocal'', []),
      (''git.checkout'', [JStr ''main'']),
      (''git.getRemotes'', [JBool True]),
      (''git.removeRemote'', [JStr ''origin'']),
      (''git.addRemote'', [JStr ''origin'', JStr ''https://ghp_token@github.com/octo/demo'']),
      (''git.pull'', [JStr ''origin'', JStr ''main'', JObj [(''--rebase'', JStr ''true'')]]),
      (''git.push'', [JArr [JStr ''-u'', JStr ''origin'', JStr ''main'']])]"
    by code_simp
  from gitPush_steps_in_order[OF h1] have t1:
    "\<exists>projectName commitMessage has_main has_origin url.
       getp push_params ''projectName'' = Inr projectName \<and>
       getp push_params ''commitMessage'' = Inr commitMessage \<and>
       git_calls (new_events (tool_func gitPush demo_env push_params) []) =
         push_steps (projectPath demo_env projectName) commitMessage has_main has_origin url"
    by blast
  from gitPush_steps_in_order[OF h2] have t2:
    "\<exists>projectName commitMessage has_main has_origin url.
       getp push_params ''projectName'' = Inr projectName \<and>
       getp push_params ''commitMessage'' = Inr commitMessage \<and>
       git_calls (new_events (tool_func gitPush established_env push_params) []) =
         push_steps (projectPath established_env projectName) commitMessage has_main has_origin url"
    by blast
  from h1 g1 p1 h2 g2 t1 t2 show ?thesis by blast
qed

section \<open>The executor\<close>

lemma tool_cases:
  assumes "t \<in> set tools"
  obtains "t = createGitRepository" | "t = deleteRepository" | "t = getRepository"
    | "t = gitPush" | "t = gitCloneRepository" | "t = getCommitsByRepoName"
    | "t = createOrUpdateGitFile" | "t = updateRepository"
  using assms unfolding tools_def by auto

lemma tool_frame:
  assumes "t \<in> set tools"
  shows "tool_func t E params = try_or (try_block t E params) (failure_text t) \<and>
         clean (\<lambda>e. ev_name e = ''git.pull'') (try_block t E params)"
  using assms
proof (cases rule: tool_cases)
  case 1
  then show ?thesis
    using clean_createGitRepository[of _ E params]
    by (simp add: createGitRepository_def createGitRepository_func_def try_block_def failure_text_def tool_frames_def)
next
  case 2
  then show ?thesis
    using clean_deleteRepository[of _ E params]
    by (simp add: deleteRepository_def deleteRepository_func_def try_block_def failure_text_def tool_frames_def)
next
  case 3
  then show ?thesis
    using clean_getRepository[of _ E params]
    by (simp add: getRepository_def getRepository_func_def try_block_def failure_text_def tool_frames_def)
next
  case 4
  then show ?thesis
    using clean_gitPush[of E params]
    by (simp add: gitPush_def gitPush_func_def try_block_def failure_text_def tool_frames_def)
next
  case 5
  then show ?thesis
    using clean_gitCloneRepository[of _ E params]
    by (simp add: gitCloneRepository_def gitCloneRepository_func_def try_block_def failure_text_def tool_frames_def)
next
  case 6
  then show ?thesis
    using clean_getCommitsByRepoName[of _ E params]
    by (simp add: getCommitsByRepoName_def getCommitsByRepoName_func_def try_block_def failure_text_def tool_frames_def)
next
  case 7
  then show ?thesis
    using clean_createOrUpdateGitFile[of _ E params]
    by (simp add: createOrUpdateGitFile_def createOrUpdateGitFile_func_def try_block_def failure_text_def tool_frames_def)
next
  case 8
  then show ?thesis
    using clean_updateRepository[of _ E params]
    by (simp add: updateRepository_def updateRepository_func_def try_block_def failure_text_def tool_frames_def)
qed

lemma tool_found:
  assumes "t \<in> set tools"
  shows "find (\<lambda>u. tool_name u = tool_name t) tools = Some t"
  using assms
proof (cases rule: tool_cases)
  case 1
  then show ?thesis
    by (simp add: tools_def createGitRepository_def deleteRepository_def getRepository_def
          gitPush_def gitCloneRepository_def getCommitsByRepoName_def createOrUpdateGitFile_def
          updateRepository_def)
next
  case 2
  then show ?thesis
    by (simp add: tools_def createGitRepository_def deleteRepository_def getRepository_def
          gitPush_def gitCloneRepository_def getCommitsByRepoName_def createOrUpdateGitFile_def
          updateRepository_def)
next
  case 3
  then show ?thesis
    by (simp add: tools_def createGitRepository_def deleteRepository_def getRepository_def
          gitPush_def gitCloneRepository_def getCommitsByRepoName_def createOrUpdateGitFile_def
          updateRepository_def)
next
  case 4
  then show ?thesis
    by (simp add: tools_def createGitRepository_def deleteRepository_def getRepository_def
          gitPush_def gitCloneRepository_def getCommitsByRepoName_def createOrUpdateGitFile_def
          updateRepository_def)
next
  case 5
  then show ?thesis
    by (simp add: tools_def createGitRepository_def deleteRepository_def getRepository_def
          gitPush_def gitCloneRepository_def getCommitsByRepoName_def createOrUpdateGitFile_def
          updateRepository_def)
next
  case 6
  then show ?thesis
    by (simp add: tools_def createGitRepository_def deleteRepository_def getRepository_def
          gitPush_def gitCloneRepository_def getCommitsByRepoName_def createOrUpdateGitFile_def
          updateRepository_def)
next
  case 7
  then show ?thesis
    by (simp add: tools_def createGitRepository_def deleteRepository_def getRepository_def
          gitPush_def gitCloneRepository_def getCommitsByRepoName_def createOrUpdateGitFile_def
          updateRepository_def)
next
  case 8
  then show ?thesis
    by (simp add: tools_def createGitRepository_def deleteRepository_def getRepository_def
          gitPush_def gitCloneRepository_def getCommitsByRepoName_def createOrUpdateGitFile_def
          updateRepository_def)
qed

lemma try_or_throws:
  "body w = (Inl e, w') \<Longrightarrow>
     try_or body f w = (Inr f, w' @ [Event ''console.error'' [JStr ''ERROR: '', e] (Inr JUndefined)])"
  by (simp add: io_defs)

lemma execute_total:
  "\<exists>out w'. execute E ts call w = (Inr (ToolMessage out (tc_name call) (tc_id call)), w')"
proof (cases "invoke_tool E ts call w")
  case (Pair r w')
  then show ?thesis
    by (cases r) (simp_all add: execute_def try_catch_def io_bind_def io_return_def)
qed

lemma execute_registered:
  assumes "t \<in> set tools" and "validate (tool_schema t) args = Inr params"
    and "tool_func t E params w = (Inr s, w')"
  shows "execute E tools (ToolCall (tool_name t) args i) w =
           (Inr (ToolMessage s (tool_name t) i), w')"
  using assms(2,3) tool_found[OF assms(1)]
  by (simp add: execute_def invoke_tool_def try_catch_def io_bind_def io_return_def)

lemma answers_ToolMessage: "answers c (ToolMessage out (tc_name c) (tc_id c))"
  by (simp add: answers_def)

lemma execute_all_total:
  "\<exists>results w'. execute_all E ts tcs w = (Inr results, w') \<and> list_all2 answers tcs results"
proof (induction tcs arbitrary: w)
  case Nil
  then show ?case by (simp add: io_return_def)
next
  case (Cons c cs)
  from execute_total[of E ts c w] obtain out w1 where
    1: "execute E ts c w = (Inr (ToolMessage out (tc_name c) (tc_id c)), w1)" by blast
  from Cons.IH[of w1] obtain results w2 where
    2: "execute_all E ts cs w1 = (Inr results, w2)" "list_all2 answers cs results" by blast
  from 1 2 show ?case
    by (simp add: io_bind_def io_return_def answers_ToolMessage)
qed

lemma execute_all_single:
  "execute E ts call w = (Inr m, w') \<Longrightarrow> execute_all E ts [call] w = (Inr [m], w')"
  by (simp add: io_bind_def io_return_def)

lemma toolNode_requests:
  "toolNode E (ms @ [AIMessage c tcs]) w = execute_all E tools tcs w"
  by (simp add: toolNode_def)

lemma run_tools_step:
  "\<exists>results w'. toolNode E (ms @ [AIMessage c tcs]) w = (Inr results, w') \<and>
      list_all2 answers tcs results \<and>
      run E (Suc n) ToolsNode (ms @ [AIMessage c tcs]) w =
        run E n Assistant (ms @ [AIMessage c tcs] @ results) w'"
proof -
  from execute_all_total[of E tools tcs w] obtain results w' where
    t: "toolNode E (ms @ [AIMessage c tcs]) w = (Inr results, w')" "list_all2 answers tcs results"
    unfolding toolNode_requests by blast
  then show ?thesis by simp
qed

section \<open>The orchestration loop\<close>

lemma paired_append: "paired xs \<Longrightarrow> paired ys \<Longrightarrow> paired (xs @ ys)"
  by (induction xs rule: paired.induct) auto

lemma paired_round: "list_all2 answers tcs results \<Longrightarrow> paired (AIMessage c tcs # results)"
  by (frule list_all2_lengthD) simp

lemma callModel_Inr: "callModel E ms = Inr upd \<longleftrightarrow> (\<exists>m. llm_invoke E ms = Inr m \<and> upd = [m])"
  by (auto simp: callModel_def split: sum.splits)

lemma shouldContinue_Inr:
  "shouldContinue (ms @ [m]) = Inr r \<longleftrightarrow>
     (\<exists>c tcs. m = AIMessage c tcs \<and> r = (if tcs \<noteq> [] then ''tools'' else ''__end__''))"
  by (cases m) (auto simp: shouldContinue_def)

lemma run_assistant_requests:
  assumes "llm_invoke E ms = Inr (AIMessage c tcs)" and "tcs \<noteq> []"
  shows "run E (Suc n) Assistant ms w = run E n ToolsNode (ms @ [AIMessage c tcs]) w"
  using assms by (simp add: callModel_def shouldContinue_def conditional_edges_def)

lemma run_assistant_answer:
  assumes "llm_invoke E ms = Inr (AIMessage c [])"
  shows "run E (Suc n) Assistant ms w = (Done (ms @ [AIMessage c []]), w)"
  using assms by (simp add: callModel_def shouldContinue_def conditional_edges_def)

lemma run_assistant_fault:
  assumes "llm_invoke E ms = Inl e"
  shows "run E (Suc n) Assistant ms w = (Rejected e ms, w)"
  using assms by (simp add: callModel_def)

text \<open>
  What holds of the messages when a run ends, from each node: at the assistant and at the
  end the messages since the start are paired; at the tool node they are paired up to the
  last assistant message, whose results are still to come.
\<close>

lemma run_Done_paired:
  assumes "run E n nd ms w = (Done ms', w')"
    and "nd = ToolsNode \<longrightarrow> (\<exists>pre c tcs. ms = pre @ [AIMessage c tcs] \<and> paired pre)"
    and "nd \<noteq> ToolsNode \<longrightarrow> paired ms"
  shows "paired ms'"
  using assms
proof (induction n arbitrary: nd ms w)
  case 0
  then show ?case by (cases nd) auto
next
  case (Suc n)
  show ?case
  proof (cases nd)
    case Assistant
    with Suc.prems(1) obtain m r nd' where
      m: "llm_invoke E ms = Inr m" and r: "shouldContinue (ms @ [m]) = Inr r"
      and t: "map_of conditional_edges r = Some nd'"
      and run: "run E n nd' (ms @ [m]) w = (Done ms', w')"
      by (auto simp: callModel_def split: sum.splits option.splits)
    from r obtain c tcs where c: "m = AIMessage c tcs" "r = (if tcs \<noteq> [] then ''tools'' else ''__end__'')"
      unfolding shouldContinue_Inr by blast
    from Suc.prems(3) Assistant have p: "paired ms" by simp
    show ?thesis
    proof (cases "tcs = []")
      case True
      with c t have "nd' = END" by (simp add: conditional_edges_def)
      moreover have "paired (ms @ [m])"
        using p c True by (intro paired_append) simp_all
      ultimately show ?thesis using run by simp
    next
      case False
      with c t have "nd' = ToolsNode" by (simp add: conditional_edges_def)
      with Suc.IH[OF run] p c show ?thesis by auto
    qed
  next
    case ToolsNode
    with Suc.prems(2) obtain pre c tcs where
      ms: "ms = pre @ [AIMessage c tcs]" and p: "paired pre" by blast
    from run_tools_step[of E pre c tcs w n] obtain results w1 where
      a: "list_all2 answers tcs results"
      and s: "run E (Suc n) ToolsNode (pre @ [AIMessage c tcs]) w =
                run E n Assistant (pre @ [AIMessage c tcs] @ results) w1"
      by blast
    have "paired (pre @ (AIMessage c tcs # results))"
      using p paired_round[OF a] by (rule paired_append)
    with Suc.IH[of Assistant "pre @ [AIMessage c tcs] @ results" w1] Suc.prems(1) s ms ToolsNode
    show ?thesis by simp
  next
    case END
    with Suc.prems show ?thesis by simp
  qed
qed

lemma run_Rejected:
  assumes "run E n nd ms w = (Rejected e ms', w')"
  shows "(nd = Assistant \<longrightarrow>
            (\<exists>rounds. ms' = ms @ rounds \<and> paired rounds \<and>
               (llm_invoke E ms' = Inl e \<or>
                (\<exists>m. llm_invoke E ms' = Inr m \<and> (\<forall>c tcs. m \<noteq> AIMessage c tcs))))) \<and>
         (nd = ToolsNode \<longrightarrow> (\<forall>pre c tcs. ms = pre @ [AIMessage c tcs] \<longrightarrow>
            (\<exists>rounds. ms' = pre @ rounds \<and> paired rounds \<and>
               (llm_invoke E ms' = Inl e \<or>
                (\<exists>m. llm_invoke E ms' = Inr m \<and> (\<forall>c tcs. m \<noteq> AIMessage c tcs))))))"
  using assms
proof (induction n arbitrary: nd ms w)
  case 0
  then show ?case by (cases nd) auto
next
  case (Suc n)
  show ?case
  proof (cases nd)
    case Assistant
    from Suc.prems have p: "run E (Suc n) Assistant ms w = (Rejected e ms', w')"
      unfolding Assistant .
    show ?thesis
    proof (cases "llm_invoke E ms")
      case (Inl x)
      from p have "ms' = ms" "x = e"
        unfolding run_assistant_fault[OF Inl] by simp_all
      with Inl Assistant show ?thesis by (auto intro: exI[of _ "[]"])
    next
      case (Inr m)
      show ?thesis
      proof (cases "\<exists>c tcs. m = AIMessage c tcs")
        case False
        then have "\<exists>x. shouldContinue (ms @ [m]) = Inl x"
          by (cases m) (auto simp: shouldContinue_def)
        with p Inr have "ms' = ms"
          by (auto simp: callModel_def)
        with Inr False Assistant show ?thesis by (auto intro: exI[of _ "[]"])
      next
        case True
        then obtain c tcs where m: "m = AIMessage c tcs" by blast
        show ?thesis
        proof (cases "tcs = []")
          case True
          with Inr m have l: "llm_invoke E ms = Inr (AIMessage c [])" by simp
          from p show ?thesis
            unfolding run_assistant_answer[OF l] by simp
        next
          case False
          from Inr m have l: "llm_invoke E ms = Inr (AIMessage c tcs)" by simp
          from p have "run E n ToolsNode (ms @ [AIMessage c tcs]) w = (Rejected e ms', w')"
            unfolding run_assistant_requests[OF l False] .
          from Suc.IH[OF this] Assistant show ?thesis by auto
        qed
      qed
    qed
  next
    case ToolsNode
    have "\<exists>rounds. ms' = pre @ rounds \<and> paired rounds \<and>
               (llm_invoke E ms' = Inl e \<or>
                (\<exists>m. llm_invoke E ms' = Inr m \<and> (\<forall>c tcs. m \<noteq> AIMessage c tcs)))"
      if ms: "ms = pre @ [AIMessage c tcs]" for pre c tcs
    proof -
      from run_tools_step[of E pre c tcs w n] obtain results w1 where
        a: "list_all2 answers tcs results"
        and s: "run E (Suc n) ToolsNode (pre @ [AIMessage c tcs]) w =
                  run E n Assistant (pre @ [AIMessage c tcs] @ results) w1"
        by blast
      with Suc.prems have
        "run E n Assistant (pre @ [AIMessage c tcs] @ results) w1 = (Rejected e ms', w')"
        unfolding ToolsNode ms by simp
      from Suc.IH[OF this] obtain rounds where
        r: "ms' = (pre @ [AIMessage c tcs] @ results) @ rounds" "paired rounds"
          "llm_invoke E ms' = Inl e \<or>
             (\<exists>m. llm_invoke E ms' = Inr m \<and> (\<forall>c tcs. m \<noteq> AIMessage c tcs))"
        by blast
      have "paired ((AIMessage c tcs # results) @ rounds)"
        using paired_round[OF a] r(2) by (rule paired_append)
      with r show ?thesis
        by (intro exI[of _ "(AIMessage c tcs # results) @ rounds"]) simp
    qed
    with ToolsNode show ?thesis by blast
  next
    case END
    with Suc.prems show ?thesis by simp
  qed
qed

lemma rounds_Suc:
  assumes "llm_invoke E ms = Inr (AIMessage c tcs)" and "tcs \<noteq> []"
    and "execute_all E tools tcs w = (Inr results, w')"
  shows "rounds E (Suc k) ms w = rounds E k (ms @ AIMessage c tcs # results) w'"
  using assms by simp

lemma rounds_SucE:
  assumes "rounds E (Suc k) ms w = Some st"
  obtains c tcs results w' where "llm_invoke E ms = Inr (AIMessage c tcs)" "tcs \<noteq> []"
    "execute_all E tools tcs w = (Inr results, w')"
    "rounds E k (ms @ AIMessage c tcs # results) w' = Some st"
  using assms
  by (auto split: sum.splits message.splits if_splits prod.splits)

lemma run_round:
  assumes "llm_invoke E ms = Inr (AIMessage c tcs)" and "tcs \<noteq> []"
    and "execute_all E tools tcs w = (Inr results, w')"
  shows "run E (Suc (Suc n)) Assistant ms w = run E n Assistant (ms @ AIMessage c tcs # results) w'"
proof -
  have "run E (Suc (Suc n)) Assistant ms w = run E (Suc n) ToolsNode (ms @ [AIMessage c tcs]) w"
    using assms(1,2) by (rule run_assistant_requests)
  also have "\<dots> = run E n Assistant (ms @ AIMessage c tcs # results) w'"
    using assms(3) by (simp add: toolNode_requests)
  finally show ?thesis .
qed

text \<open>A run with enough steps for \<open>k\<close> round trips goes on from the state after them.\<close>

lemma run_rounds:
  "rounds E k ms w = Some (ms', w') \<Longrightarrow>
     run E (2 * k + n) Assistant ms w = run E n Assistant ms' w'"
proof (induction k arbitrary: ms w)
  case 0
  then show ?case by simp
next
  case (Suc k)
  from Suc.prems obtain c tcs results w1 where
    r: "llm_invoke E ms = Inr (AIMessage c tcs)" "tcs \<noteq> []"
      "execute_all E tools tcs w = (Inr results, w1)"
      "rounds E k (ms @ AIMessage c tcs # results) w1 = Some (ms', w')"
    by (rule rounds_SucE)
  have "run E (2 * Suc k + n) Assistant ms w = run E (Suc (Suc (2 * k + n))) Assistant ms w"
    by simp
  also have "\<dots> = run E (2 * k + n) Assistant (ms @ AIMessage c tcs # results) w1"
    using r(1-3) by (rule run_round)
  also have "\<dots> = run E n Assistant ms' w'"
    using r(4) by (rule Suc.IH)
  finally show ?case .
qed

lemma rounds_paired:
  "rounds E k ms w = Some (ms', w') \<Longrightarrow> \<exists>rs. ms' = ms @ rs \<and> paired rs"
proof (induction k arbitrary: ms w)
  case 0
  then show ?case by simp
next
  case (Suc k)
  from Suc.prems obtain c tcs results w1 where
    r: "execute_all E tools tcs w = (Inr results, w1)"
      "rounds E k (ms @ AIMessage c tcs # results) w1 = Some (ms', w')"
    by (rule rounds_SucE)
  from execute_all_total[of E tools tcs w] r(1) have a: "list_all2 answers tcs results" by simp
  from Suc.IH[OF r(2)] obtain rs where rs: "ms' = (ms @ AIMessage c tcs # results) @ rs" "paired rs"
    by blast
  have "paired ((AIMessage c tcs # results) @ rs)"
    using paired_round[OF a] rs(2) by (rule paired_append)
  with rs(1) show ?case by (intro exI[of _ "(AIMessage c tcs # results) @ rs"]) simp
qed

lemma insisting_rounds:
  assumes "\<forall>h. \<exists>c tcs. llm_invoke E h = Inr (AIMessage c tcs) \<and> tcs \<noteq> []"
  shows "\<exists>ms' w'. rounds E k ms w = Some (ms', w')"
proof (induction k arbitrary: ms w)
  case 0
  show ?case by simp
next
  case (Suc k)
  from assms obtain c tcs where l: "llm_invoke E ms = Inr (AIMessage c tcs)" "tcs \<noteq> []" by blast
  from execute_all_total[of E tools tcs w] obtain results w1 where
    x: "execute_all E tools tcs w = (Inr results, w1)" by blast
  show ?case unfolding rounds_Suc[OF l x] by (rule Suc.IH)
qed

text \<open>
  What holds of the messages when a run is cut off: they are paired, or paired up to a last
  assistant message whose requests have no results yet.
\<close>

lemma run_OutOfSteps:
  assumes "run E n nd ms w = (OutOfSteps ms', w')"
    and "nd = ToolsNode \<longrightarrow> (\<exists>pre c tcs. ms = pre @ [AIMessage c tcs] \<and> tcs \<noteq> [] \<and> paired pre)"
    and "nd \<noteq> ToolsNode \<longrightarrow> paired ms"
  shows "paired ms' \<or> (\<exists>pre c tcs. ms' = pre @ [AIMessage c tcs] \<and> tcs \<noteq> [] \<and> paired pre)"
  using assms
proof (induction n arbitrary: nd ms w)
  case 0
  then show ?case by (cases nd) auto
next
  case (Suc n)
  show ?case
  proof (cases nd)
    case Assistant
    from Suc.prems(1) have p: "run E (Suc n) Assistant ms w = (OutOfSteps ms', w')"
      unfolding Assistant .
    from Suc.prems(3) Assistant have pm: "paired ms" by simp
    show ?thesis
    proof (cases "llm_invoke E ms")
      case (Inl x)
      from p show ?thesis unfolding run_assistant_fault[OF Inl] by simp
    next
      case (Inr m)
      show ?thesis
      proof (cases "\<exists>c tcs. m = AIMessage c tcs")
        case False
        then have "\<exists>x. shouldContinue (ms @ [m]) = Inl x"
          by (cases m) (auto simp: shouldContinue_def)
        with p Inr show ?thesis by (auto simp: callModel_def)
      next
        case True
        then obtain c tcs where m: "m = AIMessage c tcs" by blast
        show ?thesis
        proof (cases "tcs = []")
          case True
          with Inr m have l: "llm_invoke E ms = Inr (AIMessage c [])" by simp
          from p show ?thesis unfolding run_assistant_answer[OF l] by simp
        next
          case False
          from Inr m have l: "llm_invoke E ms = Inr (AIMessage c tcs)" by simp
          from p have "run E n ToolsNode (ms @ [AIMessage c tcs]) w = (OutOfSteps ms', w')"
            unfolding run_assistant_requests[OF l False] .
          from Suc.IH[OF this] pm False show ?thesis by auto
        qed
      qed
    qed
  next
    case ToolsNode
    with Suc.prems(2) obtain pre c tcs where
      ms: "ms = pre @ [AIMessage c tcs]" and p: "paired pre" by blast
    from run_tools_step[of E pre c tcs w n] obtain results w1 where
      a: "list_all2 answers tcs results"
      and s: "run E (Suc n) ToolsNode (pre @ [AIMessage c tcs]) w =
                run E n Assistant (pre @ [AIMessage c tcs] @ results) w1"
      by blast
    have "paired (pre @ (AIMessage c tcs # results))"
      using p paired_round[OF a] by (rule paired_append)
    moreover from Suc.prems(1) s have
      "run E n Assistant (pre @ [AIMessage c tcs] @ results) w1 = (OutOfSteps ms', w')"
      unfolding ToolsNode ms by simp
    ultimately show ?thesis
      using Suc.IH[of Assistant "pre @ [AIMessage c tcs] @ results" w1] by simp
  next
    case END
    with Suc.prems show ?thesis by simp
  qed
qed

subsection \<open>Faults of the tools\<close>

text \<open>
  C2: for every registered tool, the function returns a text and throws nothing, whatever
  its arguments and whatever the collaborators do. Any fault raised inside its \<open>try\<close>
  block, a failed call to a collaborator as well as a TypeError on an answer of the wrong
  shape, is caught and logged, and the failure text of the tool is returned; a text other
  than the failure text is returned only when the block ran to its \<open>return\<close>, and then no
  call to a collaborator has failed (the pull of a push apart, whose failure the push
  tolerates). The executor gives a result message for every request; for a request of the
  tool with valid arguments the result carries the text the function returned, and the
  turn goes on: the language model is called on the messages extended by the request and
  this result, and its answer ends the turn.
\<close>

theorem tool_faults_never_escape:
  assumes "t \<in> set tools"
  shows "(\<exists>s. fst (tool_func t E params w) = Inr s) \<and>
     tool_func t E params = try_or (try_block t E params) (failure_text t) \<and>
     (\<forall>e w'. try_block t E params w = (Inl e, w') \<longrightarrow>
        tool_func t E params w =
          (Inr (failure_text t),
           w' @ [Event ''console.error'' [JStr ''ERROR: '', e] (Inr JUndefined)])) \<and>
     (fst (tool_func t E params w) = Inr (failure_text t) \<or>
      (\<exists>s w'. try_block t E params w = (Inr (Some s), w') \<and>
         tool_func t E params w = (Inr s, w') \<and>
         (\<forall>e\<in>set (new_events (tool_func t E params) w). failed e \<longrightarrow> ev_name e = ''git.pull''))) \<and>
     ((\<exists>e\<in>set (new_events (tool_func t E params) w). failed e \<and> ev_name e \<noteq> ''git.pull'')
        \<longrightarrow> fst (tool_func t E params w) = Inr (failure_text t)) \<and>
     (\<exists>out w'. execute E tools call w = (Inr (ToolMessage out (tc_name call) (tc_id call)), w')) \<and>
     (validate (tool_schema t) args = Inr params \<longrightarrow>
        (\<exists>s w'. tool_func t E params w = (Inr s, w') \<and>
           execute E tools (ToolCall (tool_name t) args i) w =
             (Inr (ToolMessage s (tool_name t) i), w') \<and>
           (llm_invoke E ms = Inr (AIMessage c [ToolCall (tool_name t) args i]) \<longrightarrow>
              rounds E 1 ms w =
                Some (ms @ [AIMessage c [ToolCall (tool_name t) args i],
                            ToolMessage s (tool_name t) i], w') \<and>
              (\<forall>c'. llm_invoke E (ms @ [AIMessage c [ToolCall (tool_name t) args i],
                                          ToolMessage s (tool_name t) i]) = Inr (AIMessage c' []) \<longrightarrow>
                 run E (Suc (Suc (Suc n))) Assistant ms w =
                   (Done (ms @ [AIMessage c [ToolCall (tool_name t) args i],
                                ToolMessage s (tool_name t) i, AIMessage c' []]), w')) \<and>
              (\<forall>e. llm_invoke E (ms @ [AIMessage c [ToolCall (tool_name t) args i],
                                         ToolMessage s (tool_name t) i]) = Inl e \<longrightarrow>
                 run E (Suc (Suc (Suc n))) Assistant ms w =
                   (Rejected e (ms @ [AIMessage c [ToolCall (tool_name t) args i],
                                      ToolMessage s (tool_name t) i]), w')))))"
proof -
  let ?m = "tool_func t E params"
  let ?b = "try_block t E params"
  let ?f = "failure_text t"
  from tool_frame[OF assms, of E params] have
    fr: "?m = try_or ?b ?f" and cl: "clean (\<lambda>e. ev_name e = ''git.pull'') ?b"
    by simp_all
  have 1: "\<exists>s. fst (?m w) = Inr s"
    unfolding fr by (rule try_or_total)
  have 3: "\<forall>e w'. ?b w = (Inl e, w') \<longrightarrow>
        ?m w = (Inr ?f, w' @ [Event ''console.error'' [JStr ''ERROR: '', e] (Inr JUndefined)])"
    unfolding fr using try_or_throws[of ?b w] by blast
  have 4: "fst (?m w) = Inr ?f \<or>
      (\<exists>s w'. ?b w = (Inr (Some s), w') \<and> ?m w = (Inr s, w') \<and>
         (\<forall>e\<in>set (new_events ?m w). failed e \<longrightarrow> ev_name e = ''git.pull''))"
  proof -
    from try_or_cases[of ?b ?f w] show ?thesis
    proof
      assume "fst (try_or ?b ?f w) = Inr ?f"
      then show ?thesis unfolding fr by simp
    next
      assume "\<exists>s w'. ?b w = (Inr (Some s), w') \<and> try_or ?b ?f w = (Inr s, w')"
      then obtain s w' where b: "?b w = (Inr (Some s), w')" and m: "?m w = (Inr s, w')"
        unfolding fr by blast
      from cl b obtain evs where
        evs: "w' = w @ evs" "\<forall>e\<in>set evs. failed e \<longrightarrow> ev_name e = ''git.pull''"
        unfolding clean_def by blast
      from m evs(1) have "new_events ?m w = evs" by (simp add: new_events_def)
      with b m evs(2) show ?thesis by blast
    qed
  qed
  have 5: "(\<exists>e\<in>set (new_events ?m w). failed e \<and> ev_name e \<noteq> ''git.pull'')
        \<longrightarrow> fst (?m w) = Inr ?f"
    using 4 by blast
  have 7: "\<exists>s w'. ?m w = (Inr s, w') \<and>
           execute E tools (ToolCall (tool_name t) args i) w =
             (Inr (ToolMessage s (tool_name t) i), w') \<and>
           (llm_invoke E ms = Inr (AIMessage c [ToolCall (tool_name t) args i]) \<longrightarrow>
              rounds E 1 ms w =
                Some (ms @ [AIMessage c [ToolCall (tool_name t) args i],
                            ToolMessage s (tool_name t) i], w') \<and>
              (\<forall>c'. llm_invoke E (ms @ [AIMessage c [ToolCall (tool_name t) args i],
                                          ToolMessage s (tool_name t) i]) = Inr (AIMessage c' []) \<longrightarrow>
                 run E (Suc (Suc (Suc n))) Assistant ms w =
                   (Done (ms @ [AIMessage c [ToolCall (tool_name t) args i],
                                ToolMessage s (tool_name t) i, AIMessage c' []]), w')) \<and>
              (\<forall>e. llm_invoke E (ms @ [AIMessage c [ToolCall (tool_name t) args i],
                                         ToolMessage s (tool_name t) i]) = Inl e \<longrightarrow>
                 run E (Suc (Suc (Suc n))) Assistant ms w =
                   (Rejected e (ms @ [AIMessage c [ToolCall (tool_name t) args i],
                                      ToolMessage s (tool_name t) i]), w')))"
    if v: "validate (tool_schema t) args = Inr params"
  proof -
    let ?call = "ToolCall (tool_name t) args i"
    from 1 obtain s w' where m: "?m w = (Inr s, w')" by (metis prod.collapse)
    let ?tm = "ToolMessage s (tool_name t) i"
    have x: "execute E tools ?call w = (Inr ?tm, w')"
      using assms v m by (rule execute_registered)
    have xa: "execute_all E tools [?call] w = (Inr [?tm], w')"
      using x by (rule execute_all_single)
    have rest: "rounds E 1 ms w = Some (ms @ [AIMessage c [?call], ?tm], w') \<and>
              (\<forall>c'. llm_invoke E (ms @ [AIMessage c [?call], ?tm]) = Inr (AIMessage c' []) \<longrightarrow>
                 run E (Suc (Suc (Suc n))) Assistant ms w =
                   (Done (ms @ [AIMessage c [?call], ?tm, AIMessage c' []]), w')) \<and>
              (\<forall>e. llm_invoke E (ms @ [AIMessage c [?call], ?tm]) = Inl e \<longrightarrow>
                 run E (Suc (Suc (Suc n))) Assistant ms w =
                   (Rejected e (ms @ [AIMessage c [?call], ?tm]), w'))"
      if l: "llm_invoke E ms = Inr (AIMessage c [?call])"
    proof -
      have ne: "[?call] \<noteq> []" by simp
      have r1: "rounds E 1 ms w = Some (ms @ [AIMessage c [?call], ?tm], w')"
        using rounds_Suc[OF l ne xa, of 0] by simp
      have step: "run E (Suc (Suc (Suc n))) Assistant ms w =
          run E (Suc n) Assistant (ms @ [AIMessage c [?call], ?tm]) w'"
        using run_round[OF l ne xa, of "Suc n"] by simp
      have a: "run E (Suc (Suc (Suc n))) Assistant ms w =
                   (Done (ms @ [AIMessage c [?call], ?tm, AIMessage c' []]), w')"
        if "llm_invoke E (ms @ [AIMessage c [?call], ?tm]) = Inr (AIMessage c' [])" for c'
        unfolding step run_assistant_answer[OF that] by simp
      have b: "run E (Suc (Suc (Suc n))) Assistant ms w =
                   (Rejected e (ms @ [AIMessage c [?call], ?tm]), w')"
        if "llm_invoke E (ms @ [AIMessage c [?call], ?tm]) = Inl e" for e
        unfolding step run_assistant_fault[OF that] by simp
      from r1 a b show ?thesis by blast
    qed
    from m x rest show ?thesis by blast
  qed
  from 1 fr 3 4 5 execute_total[of E tools call w] 7 show ?thesis by blast
qed

text \<open>
  The theorem at three sample environments, for the details tool. With a remote whose
  answer has no \<open>data\<close>, the \<open>try\<close> block throws a TypeError and the function returns its
  failure text and logs the error. With a remote that refuses every call, the call that
  failed is in the log, the function returns its failure text, the executor wraps it in the
  result of the request, and the turn goes on to the answer of the language model.
\<close>

theorem tool_faults_never_escape_witness:
  "getRepository \<in> set tools \<and>
   try_block getRepository malformed_env (JObj [(''repoName'', JStr ''demo'')]) [] =
     (Inl (TypeError ''Cannot read properties of undefined (reading id)''),
      [Event ''octokit.rest.users.getAuthenticated'' []
         (Inr (JObj [(''data'', JObj [(''login'', JStr ''octo'')])])),
       Event ''octokit.rest.repos.get'' [JObj [(''owner'', JStr ''octo''), (''repo'', JStr ''demo'')]]
         (Inr (JObj [(''status'', JNum 200)]))]) \<and>
   tool_func getRepository malformed_env (JObj [(''repoName'', JStr ''demo'')]) [] =
     (Inr ''Not able to fetch more details of the repository'',
      [Event ''octokit.rest.users.getAuthenticated'' []
         (Inr (JObj [(''data'', JObj [(''login'', JStr ''octo'')])])),
       Event ''octokit.rest.repos.get'' [JObj [(''owner'', JStr ''octo''), (''repo'', JStr ''demo'')]]
         (Inr (JObj [(''status'', JNum 200)]))] @
      [Event ''console.error''
         [JStr ''ERROR: '', TypeError ''Cannot read properties of undefined (reading id)'']
         (Inr JUndefined)]) \<and>
   Event ''octokit.rest.users.getAuthenticated'' [] (Inl (Error ''Bad credentials''))
     \<in> set (new_events (tool_func getRepository refusing_env (JObj [(''repoName'', JStr ''demo'')])) []) \<and>
   failed (Event ''octokit.rest.users.getAuthenticated'' [] (Inl (Error ''Bad credentials''))) \<and>
   fst (tool_func getRepository refusing_env (JObj [(''repoName'', JStr ''demo'')]) []) =
     Inr ''Not able to fetch more details of the repository'' \<and>
   validate (tool_schema getRepository) (JObj [(''repoName'', JStr ''demo'')]) =
     Inr (JObj [(''repoName'', JStr ''demo'')]) \<and>
   llm_invoke refusing_env (turn_input ''is demo public?'') =
     Inr (AIMessage [] [ToolCall ''get-repository-details'' (JObj [(''repoName'', JStr ''demo'')]) ''call_1'']) \<and>
   fst (execute refusing_env tools
          (ToolCall ''get-repository-details'' (JObj [(''repoName'', JStr ''demo'')]) ''call_1'') []) =
     Inr (ToolMessage ''Not able to fetch more details of the repository''
            ''get-repository-details'' ''call_1'') \<and>
   fst (run refusing_env (Suc (Suc (Suc 0))) Assistant (turn_input ''is demo public?'') []) =
     Done (turn_input ''is demo public?'' @
           [AIMessage [] [ToolCall ''get-repository-details'' (JObj [(''repoName'', JStr ''demo'')]) ''call_1''],
            ToolMessage ''Not able to fetch more details of the repository''
              ''get-repository-details'' ''call_1'',
            AIMessage ''I could not reach GitHub.'' []]) \<and>
   fst (run failing_later_env (Suc (Suc (Suc 0))) Assistant (turn_input ''is demo public?'') []) =
     Rejected (Error ''fetch failed'')
       (turn_input ''is demo public?'' @
           [AIMessage [] [ToolCall ''get-repository-details'' (JObj [(''repoName'', JStr ''demo'')]) ''call_1''],
            ToolMessage ''Not able to fetch more details of the repository''
              ''get-repository-details'' ''call_1''])"
proof -
  let ?p = "JObj [(''repoName'', JStr ''demo'')]"
  let ?q = "turn_input ''is demo public?''"
  let ?f = "''Not able to fetch more details of the repository''"
  let ?call = "ToolCall ''get-repository-details'' ?p ''call_1''"
  let ?e = "Event ''octokit.rest.users.getAuthenticated'' [] (Inl (Error ''Bad credentials''))"
  let ?w2 = "[Event ''octokit.rest.users.getAuthenticated'' []
         (Inr (JObj [(''data'', JObj [(''login'', JStr ''octo'')])])),
       Event ''octokit.rest.repos.get'' [JObj [(''owner'', JStr ''octo''), (''repo'', JStr ''demo'')]]
         (Inr (JObj [(''status'', JNum 200)]))]"
  have t: "getRepository \<in> set tools" by (simp add: tools_def)
  have n: "tool_name getRepository = ''get-repository-details''" by (simp add: getRepository_def)
  have ft: "failure_text getRepository = ?f" by code_simp
  have b: "try_block getRepository malformed_env ?p [] =
     (Inl (TypeError ''Cannot read properties of undefined (reading id)''), ?w2)"
    by code_simp
  have h: "?e \<in> set (new_events (tool_func getRepository refusing_env ?p) [])"
    by code_simp
  have f: "failed ?e" by code_simp
  have ne: "ev_name ?e \<noteq> ''git.pull''" by simp
  have v: "validate (tool_schema getRepository) ?p = Inr ?p" by code_simp
  have l: "llm_invoke refusing_env ?q = Inr (AIMessage [] [?call])" by code_simp
  have l2: "llm_invoke refusing_env (?q @ [AIMessage [] [?call], ToolMessage ?f ''get-repository-details'' ''call_1''])
      = Inr (AIMessage ''I could not reach GitHub.'' [])"
    by code_simp
  note T1 = tool_faults_never_escape[OF t, where E = malformed_env and params = ?p and w = "[]"]
  note T2 = tool_faults_never_escape[OF t, where E = refusing_env and params = ?p and w = "[]"
      and args = ?p and i = "''call_1''" and ms = ?q and c = "[]" and n = 0]
  from T1 b have m: "tool_func getRepository malformed_env ?p [] =
     (Inr ?f, ?w2 @ [Event ''console.error''
         [JStr ''ERROR: '', TypeError ''Cannot read properties of undefined (reading id)'']
         (Inr JUndefined)])"
    unfolding ft by blast
  from T2 h f ne have r: "fst (tool_func getRepository refusing_env ?p []) = Inr ?f"
    unfolding ft by blast
  from T2 v obtain s w' where
    s: "tool_func getRepository refusing_env ?p [] = (Inr s, w')"
    and x: "execute refusing_env tools (ToolCall (tool_name getRepository) ?p ''call_1'') [] =
             (Inr (ToolMessage s (tool_name getRepository) ''call_1''), w')"
    and d: "llm_invoke refusing_env ?q = Inr (AIMessage [] [ToolCall (tool_name getRepository) ?p ''call_1'']) \<longrightarrow>
       (\<forall>c'. llm_invoke refusing_env (?q @ [AIMessage [] [ToolCall (tool_name getRepository) ?p ''call_1''],
                                          ToolMessage s (tool_name getRepository) ''call_1'']) = Inr (AIMessage c' []) \<longrightarrow>
          run refusing_env (Suc (Suc (Suc 0))) Assistant ?q [] =
            (Done (?q @ [AIMessage [] [ToolCall (tool_name getRepository) ?p ''call_1''],
                         ToolMessage s (tool_name getRepository) ''call_1'', AIMessage c' []]), w'))"
    by blast
  from s r have sf: "s = ?f" by simp
  from x have x': "fst (execute refusing_env tools ?call []) =
      Inr (ToolMessage ?f ''get-repository-details'' ''call_1'')"
    unfolding n sf by simp
  from d l l2 have "run refusing_env (Suc (Suc (Suc 0))) Assistant ?q [] =
      (Done (?q @ [AIMessage [] [?call], ToolMessage ?f ''get-repository-details'' ''call_1'',
                   AIMessage ''I could not reach GitHub.'' []]), w')"
    unfolding n sf by blast
  then have d': "fst (run refusing_env (Suc (Suc (Suc 0))) Assistant ?q []) =
      Done (?q @ [AIMessage [] [?call], ToolMessage ?f ''get-repository-details'' ''call_1'',
                   AIMessage ''I could not reach GitHub.'' []])"
    by simp
  have l3: "llm_invoke failing_later_env ?q = Inr (AIMessage [] [?call])" by code_simp
  have l4: "llm_invoke failing_later_env
      (?q @ [AIMessage [] [?call], ToolMessage ?f ''get-repository-details'' ''call_1''])
      = Inl (Error ''fetch failed'')"
    by code_simp
  have r3: "fst (tool_func getRepository failing_later_env ?p []) = Inr ?f" by code_simp
  note T3 = tool_faults_never_escape[OF t, where E = failing_later_env and params = ?p and w = "[]"
      and args = ?p and i = "''call_1''" and ms = ?q and c = "[]" and n = 0]
  from T3 v obtain s3 w3 where
    s3: "tool_func getRepository failing_later_env ?p [] = (Inr s3, w3)"
    and d3: "llm_invoke failing_later_env ?q = Inr (AIMessage [] [ToolCall (tool_name getRepository) ?p ''call_1'']) \<longrightarrow>
       (\<forall>e. llm_invoke failing_later_env (?q @ [AIMessage [] [ToolCall (tool_name getRepository) ?p ''call_1''],
                                          ToolMessage s3 (tool_name getRepository) ''call_1'']) = Inl e \<longrightarrow>
          run failing_later_env (Suc (Suc (Suc 0))) Assistant ?q [] =
            (Rejected e (?q @ [AIMessage [] [ToolCall (tool_name getRepository) ?p ''call_1''],
                         ToolMessage s3 (tool_name getRepository) ''call_1'']), w3))"
    by blast
  from s3 r3 have sf3: "s3 = ?f" by simp
  from d3 l3 l4 have "run failing_later_env (Suc (Suc (Suc 0))) Assistant ?q [] =
      (Rejected (Error ''fetch failed'')
         (?q @ [AIMessage [] [?call], ToolMessage ?f ''get-repository-details'' ''call_1'']), w3)"
    unfolding n sf3 by blast
  then have e': "fst (run failing_later_env (Suc (Suc (Suc 0))) Assistant ?q []) =
      Rejected (Error ''fetch failed'')
         (?q @ [AIMessage [] [?call], ToolMessage ?f ''get-repository-details'' ''call_1''])"
    by simp
  from t b m h f r v l x' d' e' show ?thesis by (intro conjI)
qed

subsection \<open>Requests and results\<close>

lemma rounds_snoc:
  assumes "rounds E k ms w = Some (ms', w')"
    and "llm_invoke E ms' = Inr (AIMessage c tcs)" and "tcs \<noteq> []"
    and "execute_all E tools tcs w' = (Inr results, w'')"
  shows "rounds E (Suc k) ms w = Some (ms' @ AIMessage c tcs # results, w'')"
  using assms
proof (induction k arbitrary: ms w)
  case 0
  then show ?case by simp
next
  case (Suc k)
  from Suc.prems(1) obtain c1 tcs1 results1 w1 where
    r: "llm_invoke E ms = Inr (AIMessage c1 tcs1)" "tcs1 \<noteq> []"
      "execute_all E tools tcs1 w = (Inr results1, w1)"
      "rounds E k (ms @ AIMessage c1 tcs1 # results1) w1 = Some (ms', w')"
    by (rule rounds_SucE)
  from Suc.IH[OF r(4) Suc.prems(2-4)] show ?case
    unfolding rounds_Suc[OF r(1-3), of "Suc k"] .
qed

text \<open>
  C3, as the code has it: when the language model returns an assistant message with
  N \<open>\<ge>\<close> 1 requests, the executor runs the N requests and gives exactly N result
  messages, the i-th carrying the name and the identifier of the i-th request, and the
  next call of the language model is on the messages so far, the assistant message and
  these N results, in this order. When a turn that started from paired messages ends with
  a final answer or with a fault, its messages are paired: every assistant message is
  followed by the results of exactly its requests. When a turn is cut off because its steps
  are used up, its messages are paired or the requests of the last assistant message, and
  only they, have no results.
\<close>

theorem results_follow_requests:
  "(llm_invoke E ms = Inr (AIMessage c tcs) \<and> tcs \<noteq> [] \<longrightarrow>
      (\<exists>results w'.
         toolNode E (ms @ [AIMessage c tcs]) w = (Inr results, w') \<and>
         execute_all E tools tcs w = (Inr results, w') \<and>
         length results = length tcs \<and>
         list_all2 answers tcs results \<and>
         rounds E 1 ms w = Some (ms @ AIMessage c tcs # results, w') \<and>
         run E (Suc (Suc n)) Assistant ms w =
           run E n Assistant (ms @ [AIMessage c tcs] @ results) w' \<and>
         (\<forall>c'. llm_invoke E (ms @ AIMessage c tcs # results) = Inr (AIMessage c' []) \<longrightarrow>
            run E (Suc (Suc (Suc n))) Assistant ms w =
              (Done (ms @ AIMessage c tcs # results @ [AIMessage c' []]), w')) \<and>
         (\<forall>e. llm_invoke E (ms @ AIMessage c tcs # results) = Inl e \<longrightarrow>
            run E (Suc (Suc (Suc n))) Assistant ms w =
              (Rejected e (ms @ AIMessage c tcs # results), w')))) \<and>
   (paired saved \<and> fst (agent_invoke E limit saved (turn_input query) w) = Done ms' \<longrightarrow>
      paired ms') \<and>
   (paired saved \<and> fst (agent_invoke E limit saved (turn_input query) w) = Rejected e ms'' \<longrightarrow>
      paired ms'') \<and>
   (paired saved \<and> fst (agent_invoke E limit saved (turn_input query) w) = OutOfSteps stopped \<longrightarrow>
      paired stopped \<or> (\<exists>pre c tcs. stopped = pre @ [AIMessage c tcs] \<and> tcs \<noteq> [] \<and> paired pre))"
proof (intro conjI impI)
  assume a: "llm_invoke E ms = Inr (AIMessage c tcs) \<and> tcs \<noteq> []"
  then have l: "llm_invoke E ms = Inr (AIMessage c tcs)" and ne: "tcs \<noteq> []" by simp_all
  from execute_all_total[of E tools tcs w] obtain results w' where
    x: "execute_all E tools tcs w = (Inr results, w')" and la: "list_all2 answers tcs results"
    by blast
  have tn: "toolNode E (ms @ [AIMessage c tcs]) w = (Inr results, w')"
    unfolding toolNode_requests by (rule x)
  have r1: "rounds E 1 ms w = Some (ms @ AIMessage c tcs # results, w')"
    using rounds_Suc[OF l ne x, of 0] by simp
  have step: "run E (Suc (Suc m)) Assistant ms w =
      run E m Assistant (ms @ AIMessage c tcs # results) w'" for m
    using l ne x by (rule run_round)
  have d: "run E (Suc (Suc (Suc n))) Assistant ms w =
              (Done (ms @ AIMessage c tcs # results @ [AIMessage c' []]), w')"
    if "llm_invoke E (ms @ AIMessage c tcs # results) = Inr (AIMessage c' [])" for c'
    unfolding step run_assistant_answer[OF that] by simp
  have f: "run E (Suc (Suc (Suc n))) Assistant ms w =
              (Rejected e (ms @ AIMessage c tcs # results), w')"
    if "llm_invoke E (ms @ AIMessage c tcs # results) = Inl e" for e
    unfolding step run_assistant_fault[OF that] by simp
  from step[of n] have step': "run E (Suc (Suc n)) Assistant ms w =
           run E n Assistant (ms @ [AIMessage c tcs] @ results) w'"
    by simp
  from tn x la list_all2_lengthD[OF la] r1 step' d f
  show "\<exists>results w'.
         toolNode E (ms @ [AIMessage c tcs]) w = (Inr results, w') \<and>
         execute_all E tools tcs w = (Inr results, w') \<and>
         length results = length tcs \<and>
         list_all2 answers tcs results \<and>
         rounds E 1 ms w = Some (ms @ AIMessage c tcs # results, w') \<and>
         run E (Suc (Suc n)) Assistant ms w =
           run E n Assistant (ms @ [AIMessage c tcs] @ results) w' \<and>
         (\<forall>c'. llm_invoke E (ms @ AIMessage c tcs # results) = Inr (AIMessage c' []) \<longrightarrow>
            run E (Suc (Suc (Suc n))) Assistant ms w =
              (Done (ms @ AIMessage c tcs # results @ [AIMessage c' []]), w')) \<and>
         (\<forall>e. llm_invoke E (ms @ AIMessage c tcs # results) = Inl e \<longrightarrow>
            run E (Suc (Suc (Suc n))) Assistant ms w =
              (Rejected e (ms @ AIMessage c tcs # results), w'))"
    by (intro exI[of _ results] exI[of _ w']) simp
next
  assume a: "paired saved \<and> fst (agent_invoke E limit saved (turn_input query) w) = Done ms'"
  then obtain w' where "run E limit Assistant (saved @ turn_input query) w = (Done ms', w')"
    unfolding agent_invoke_def by (metis prod.collapse)
  moreover have "paired (saved @ turn_input query)"
    using a by (intro paired_append) (simp_all add: turn_input_def)
  ultimately show "paired ms'"
    by (intro run_Done_paired[of E limit Assistant "saved @ turn_input query" w ms' w']) simp_all
next
  assume a: "paired saved \<and> fst (agent_invoke E limit saved (turn_input query) w) = Rejected e ms''"
  then obtain w' where "run E limit Assistant (saved @ turn_input query) w = (Rejected e ms'', w')"
    unfolding agent_invoke_def by (metis prod.collapse)
  from run_Rejected[OF this] obtain rounds where
    r: "ms'' = (saved @ turn_input query) @ rounds" "paired rounds"
    by blast
  have "paired (saved @ turn_input query)"
    using a by (intro paired_append) (simp_all add: turn_input_def)
  then have "paired ((saved @ turn_input query) @ rounds)"
    using r(2) by (rule paired_append)
  then show "paired ms''"
    unfolding r(1) .
next
  assume a: "paired saved \<and> fst (agent_invoke E limit saved (turn_input query) w) = OutOfSteps stopped"
  then obtain w' where "run E limit Assistant (saved @ turn_input query) w = (OutOfSteps stopped, w')"
    unfolding agent_invoke_def by (metis prod.collapse)
  moreover have "paired (saved @ turn_input query)"
    using a by (intro paired_append) (simp_all add: turn_input_def)
  ultimately show "paired stopped \<or> (\<exists>pre c tcs. stopped = pre @ [AIMessage c tcs] \<and> tcs \<noteq> [] \<and> paired pre)"
    by (intro run_OutOfSteps[of E limit Assistant "saved @ turn_input query" w stopped w']) simp_all
qed

text \<open>
  The theorem at the sample environments: the turn \<open>is demo public?\<close> has one request
  and one result with the identifier of the request, and it ends with paired messages, both
  when the language model answers and when it cannot be reached after the round trip; with
  a language model that asks for an action at every call and one step, the turn is cut off
  after the assistant message.
\<close>

theorem results_follow_requests_witness:
  "llm_invoke demo_env (turn_input ''is demo public?'') = Inr (AIMessage [] [demo_request]) \<and>
   execute_all demo_env tools [demo_request] [] =
     (Inr [ToolMessage (JSON_stringify demo_details) ''get-repository-details'' ''call_1''],
      [Event ''octokit.rest.users.getAuthenticated'' []
         (Inr (JObj [(''data'', JObj [(''login'', JStr ''octo'')])])),
       Event ''octokit.rest.repos.get'' [JObj [(''owner'', JStr ''octo''), (''repo'', JStr ''demo'')]]
         (Inr (JObj [(''status'', JNum 200), (''data'', demo_repo)]))]) \<and>
   run demo_env (Suc (Suc (Suc 0))) Assistant (turn_input ''is demo public?'') [] =
     (Done (turn_input ''is demo public?'' @
            AIMessage [] [demo_request] #
            [ToolMessage (JSON_stringify demo_details) ''get-repository-details'' ''call_1''] @
            [AIMessage ''The repository demo is public.'' []]),
      [Event ''octokit.rest.users.getAuthenticated'' []
         (Inr (JObj [(''data'', JObj [(''login'', JStr ''octo'')])])),
       Event ''octokit.rest.repos.get'' [JObj [(''owner'', JStr ''octo''), (''repo'', JStr ''demo'')]]
         (Inr (JObj [(''status'', JNum 200), (''data'', demo_repo)]))]) \<and>
   paired [] \<and>
   fst (agent_invoke demo_env 25 [] (turn_input ''is demo public?'') []) =
     Done (turn_input ''is demo public?'' @
           [AIMessage [] [demo_request],
            ToolMessage (JSON_stringify demo_details) ''get-repository-details'' ''call_1'',
            AIMessage ''The repository demo is public.'' []]) \<and>
   paired (turn_input ''is demo public?'' @
           [AIMessage [] [demo_request],
            ToolMessage (JSON_stringify demo_details) ''get-repository-details'' ''call_1'',
            AIMessage ''The repository demo is public.'' []]) \<and>
   fst (agent_invoke failing_later_env 25 [] (turn_input ''is demo public?'') []) =
     Rejected (Error ''fetch failed'')
       (turn_input ''is demo public?'' @
        [AIMessage [] [demo_request],
         ToolMessage ''Not able to fetch more details of the repository''
           ''get-repository-details'' ''call_1'']) \<and>
   paired (turn_input ''is demo public?'' @
        [AIMessage [] [demo_request],
         ToolMessage ''Not able to fetch more details of the repository''
           ''get-repository-details'' ''call_1'']) \<and>
   fst (agent_invoke insisting_env 1 [] (turn_input ''is demo public?'') []) =
     OutOfSteps (turn_input ''is demo public?'' @ [AIMessage [] [demo_request]]) \<and>
   (\<exists>pre c tcs. turn_input ''is demo public?'' @ [AIMessage [] [demo_request]] =
       pre @ [AIMessage c tcs] \<and> paired pre) \<and>
   run failing_later_env (Suc (Suc (Suc 0))) Assistant (turn_input ''is demo public?'') [] =
     (Rejected (Error ''fetch failed'')
        (turn_input ''is demo public?'' @ AIMessage [] [demo_request] #
           [ToolMessage ''Not able to fetch more details of the repository''
              ''get-repository-details'' ''call_1'']),
      [Event ''octokit.rest.users.getAuthenticated'' [] (Inl (Error ''Bad credentials'')),
       Event ''console.error'' [JStr ''ERROR: '', Error ''Bad credentials''] (Inr JUndefined)])"
proof -
  let ?q = "''is demo public?''"
  let ?tm = "ToolMessage (JSON_stringify demo_details) ''get-repository-details'' ''call_1''"
  let ?w1 = "[Event ''octokit.rest.users.getAuthenticated'' []
         (Inr (JObj [(''data'', JObj [(''login'', JStr ''octo'')])])),
       Event ''octokit.rest.repos.get'' [JObj [(''owner'', JStr ''octo''), (''repo'', JStr ''demo'')]]
         (Inr (JObj [(''status'', JNum 200), (''data'', demo_repo)]))]"
  let ?ms' = "turn_input ?q @
           [AIMessage [] [demo_request], ?tm, AIMessage ''The repository demo is public.'' []]"
  let ?ms'' = "turn_input ?q @
        [AIMessage [] [demo_request],
         ToolMessage ''Not able to fetch more details of the repository''
           ''get-repository-details'' ''call_1'']"
  let ?stopped = "turn_input ?q @ [AIMessage [] [demo_request]]"
  have l: "llm_invoke demo_env (turn_input ?q) = Inr (AIMessage [] [demo_request])"
    by code_simp
  have n: "[demo_request] \<noteq> []" by simp
  have x: "execute_all demo_env tools [demo_request] [] = (Inr [?tm], ?w1)"
    by code_simp
  have l2: "llm_invoke demo_env (turn_input ?q @ AIMessage [] [demo_request] # [?tm]) =
      Inr (AIMessage ''The repository demo is public.'' [])"
    by code_simp
  have p: "paired []" by simp
  have d: "fst (agent_invoke demo_env 25 [] (turn_input ?q) []) = Done ?ms'"
    by code_simp
  have r: "fst (agent_invoke failing_later_env 25 [] (turn_input ?q) []) =
     Rejected (Error ''fetch failed'') ?ms''"
    by code_simp
  have o: "fst (agent_invoke insisting_env 1 [] (turn_input ?q) []) = OutOfSteps ?stopped"
    by code_simp
  have np: "\<not> paired ?stopped" by code_simp
  note T = results_follow_requests[where E = demo_env and saved = "[]" and limit = 25 and query = ?q
      and w = "[]" and ms' = ?ms' and ms = "turn_input ?q" and c = "[]" and tcs = "[demo_request]"
      and n = 0]
  from T[THEN conjunct1, THEN mp, OF conjI[OF l n]] obtain results w' where
    t1: "execute_all demo_env tools [demo_request] [] = (Inr results, w')"
    and t2: "\<forall>c'. llm_invoke demo_env (turn_input ?q @ AIMessage [] [demo_request] # results) =
               Inr (AIMessage c' []) \<longrightarrow>
            run demo_env (Suc (Suc (Suc 0))) Assistant (turn_input ?q) [] =
              (Done (turn_input ?q @ AIMessage [] [demo_request] # results @ [AIMessage c' []]), w')"
    by blast
  from t1 x have rw: "results = [?tm]" "w' = ?w1" by simp_all
  from t2[unfolded rw, THEN spec, THEN mp, OF l2]
  have 0: "run demo_env (Suc (Suc (Suc 0))) Assistant (turn_input ?q) [] =
     (Done (turn_input ?q @ AIMessage [] [demo_request] # [?tm] @
            [AIMessage ''The repository demo is public.'' []]), ?w1)" .
  from T[THEN conjunct2, THEN conjunct1, THEN mp, OF conjI[OF p d]]
  have 1: "paired ?ms'" .
  from results_follow_requests[where E = failing_later_env and saved = "[]" and limit = 25
      and query = ?q and w = "[]" and ms'' = ?ms'' and e = "Error ''fetch failed''",
      THEN conjunct2, THEN conjunct2, THEN conjunct1, THEN mp, OF conjI[OF p r]]
  have 2: "paired ?ms''" .
  from results_follow_requests[where E = insisting_env and saved = "[]" and limit = 1
      and query = ?q and w = "[]" and stopped = ?stopped,
      THEN conjunct2, THEN conjunct2, THEN conjunct2, THEN mp, OF conjI[OF p o]] np
  have 3: "\<exists>pre c tcs. ?stopped = pre @ [AIMessage c tcs] \<and> paired pre" by blast
  let ?tf = "ToolMessage ''Not able to fetch more details of the repository''
              ''get-repository-details'' ''call_1''"
  let ?wf = "[Event ''octokit.rest.users.getAuthenticated'' [] (Inl (Error ''Bad credentials'')),
       Event ''console.error'' [JStr ''ERROR: '', Error ''Bad credentials''] (Inr JUndefined)]"
  have lf: "llm_invoke failing_later_env (turn_input ?q) = Inr (AIMessage [] [demo_request])"
    by code_simp
  have xf: "execute_all failing_later_env tools [demo_request] [] = (Inr [?tf], ?wf)"
    by code_simp
  have lf2: "llm_invoke failing_later_env (turn_input ?q @ AIMessage [] [demo_request] # [?tf]) =
      Inl (Error ''fetch failed'')"
    by code_simp
  from results_follow_requests[where E = failing_later_env and ms = "turn_input ?q" and c = "[]"
      and tcs = "[demo_request]" and w = "[]" and n = 0,
      THEN conjunct1, THEN mp, OF conjI[OF lf n]]
  obtain resf wf' where
    f1: "execute_all failing_later_env tools [demo_request] [] = (Inr resf, wf')"
    and f2: "\<forall>e. llm_invoke failing_later_env (turn_input ?q @ AIMessage [] [demo_request] # resf) =
               Inl e \<longrightarrow>
            run failing_later_env (Suc (Suc (Suc 0))) Assistant (turn_input ?q) [] =
              (Rejected e (turn_input ?q @ AIMessage [] [demo_request] # resf), wf')"
    by blast
  from f1 xf have rwf: "resf = [?tf]" "wf' = ?wf" by simp_all
  from f2[unfolded rwf, THEN spec, THEN mp, OF lf2]
  have 4: "run failing_later_env (Suc (Suc (Suc 0))) Assistant (turn_input ?q) [] =
     (Rejected (Error ''fetch failed'') (turn_input ?q @ AIMessage [] [demo_request] # [?tf]), ?wf)" .
  from l x 0 p d r o 1 2 3 4 show ?thesis by (intro conjI)
qed

text \<open>
  C3 as stated fails: with a language model that asks for an action at every call, a turn of
  25 steps is cut off right after an assistant message, and the request of that message has
  no result among the messages of the turn; the same holds for a turn of one step.
\<close>

theorem results_follow_requests_counterexample:
  "is_OutOfSteps (fst (agent_invoke insisting_env 25 [] (turn_input ''is demo public?'') [])) \<and>
   \<not> paired (outcome_messages (fst (agent_invoke insisting_env 25 [] (turn_input ''is demo public?'') []))) \<and>
   last (outcome_messages (fst (agent_invoke insisting_env 25 [] (turn_input ''is demo public?'') []))) =
     AIMessage [] [demo_request] \<and>
   agent_invoke insisting_env 1 [] (turn_input ''is demo public?'') [] =
     (OutOfSteps
        [SystemMessage ''You are a smart github personal assistant to create and manage github repositories.'',
         HumanMessage ''is demo public?'',
         AIMessage [] [demo_request]],
      [])"
  by code_simp

subsection \<open>The end of a turn\<close>

lemma insisting_never_done:
  assumes "\<forall>h. \<exists>c tcs. llm_invoke E h = Inr (AIMessage c tcs) \<and> tcs \<noteq> []"
  shows "is_OutOfSteps (fst (run E n Assistant ms w)) \<and>
         is_OutOfSteps (fst (run E n ToolsNode (ms @ [AIMessage c tcs]) w))"
proof (induction n arbitrary: ms w c tcs)
  case 0
  show ?case by simp
next
  case (Suc n)
  from assms obtain c' tcs' where l: "llm_invoke E ms = Inr (AIMessage c' tcs')" "tcs' \<noteq> []"
    by blast
  have 1: "is_OutOfSteps (fst (run E (Suc n) Assistant ms w))"
    unfolding run_assistant_requests[OF l] using Suc.IH by blast
  from run_tools_step[of E ms c tcs w n] obtain results w' where
    "run E (Suc n) ToolsNode (ms @ [AIMessage c tcs]) w =
       run E n Assistant (ms @ [AIMessage c tcs] @ results) w'"
    by blast
  with Suc.IH[of "ms @ [AIMessage c tcs] @ results" w'] have
    2: "is_OutOfSteps (fst (run E (Suc n) ToolsNode (ms @ [AIMessage c tcs]) w))"
    by simp
  from 1 2 show ?case by blast
qed

text \<open>
  C1, as the code has it: the loop has no bound of its own and makes up no answer. However
  many round trips \<open>k\<close> a turn has made, the next response of the language model decides:
  when it has no request the turn ends, and this response is the final message; when it has
  a request the executor runs the requests of the response and the language model is called
  again, on the messages extended by the response and the results. A turn whose steps are
  used up is cut off where it stands, without an answer. So if the language model asks for
  an action at every call, every number of round trips is reached and the turn gives no
  answer within any number of steps.
\<close>

theorem loop_ends_only_on_answer:
  "(rounds E k ms w = Some (ms', w') \<and> llm_invoke E ms' = Inr (AIMessage c []) \<longrightarrow>
      run E (2 * k + Suc n) Assistant ms w = (Done (ms' @ [AIMessage c []]), w')) \<and>
   (rounds E k ms w = Some (ms', w') \<and> llm_invoke E ms' = Inr (AIMessage c tcs) \<and> tcs \<noteq> [] \<longrightarrow>
      (\<exists>results w''.
         execute_all E tools tcs w' = (Inr results, w'') \<and>
         list_all2 answers tcs results \<and>
         rounds E (Suc k) ms w = Some (ms' @ AIMessage c tcs # results, w'') \<and>
         run E (2 * k + Suc 0) Assistant ms w = (OutOfSteps (ms' @ [AIMessage c tcs]), w') \<and>
         run E (2 * Suc k) Assistant ms w = (OutOfSteps (ms' @ AIMessage c tcs # results), w''))) \<and>
   (rounds E k ms w = Some (ms', w') \<longrightarrow> run E (2 * k) Assistant ms w = (OutOfSteps ms', w')) \<and>
   ((\<forall>h. \<exists>c tcs. llm_invoke E h = Inr (AIMessage c tcs) \<and> tcs \<noteq> []) \<longrightarrow>
      (\<forall>j. \<exists>ms' w'. rounds E j (saved @ turn_input query) w = Some (ms', w')) \<and>
      is_OutOfSteps (fst (agent_invoke E limit saved (turn_input query) w)))"
proof (intro conjI impI)
  assume a: "rounds E k ms w = Some (ms', w') \<and> llm_invoke E ms' = Inr (AIMessage c [])"
  then have "run E (2 * k + Suc n) Assistant ms w = run E (Suc n) Assistant ms' w'"
    by (intro run_rounds) simp
  also have "\<dots> = (Done (ms' @ [AIMessage c []]), w')"
    using a by (intro run_assistant_answer) simp
  finally show "run E (2 * k + Suc n) Assistant ms w = (Done (ms' @ [AIMessage c []]), w')" .
next
  assume a: "rounds E k ms w = Some (ms', w') \<and> llm_invoke E ms' = Inr (AIMessage c tcs) \<and> tcs \<noteq> []"
  then have r: "rounds E k ms w = Some (ms', w')" and l: "llm_invoke E ms' = Inr (AIMessage c tcs)"
    and ne: "tcs \<noteq> []" by simp_all
  from execute_all_total[of E tools tcs w'] obtain results w'' where
    x: "execute_all E tools tcs w' = (Inr results, w'')" and la: "list_all2 answers tcs results"
    by blast
  have r': "rounds E (Suc k) ms w = Some (ms' @ AIMessage c tcs # results, w'')"
    using r l ne x by (rule rounds_snoc)
  have "run E (2 * k + Suc 0) Assistant ms w = run E (Suc 0) Assistant ms' w'"
    using r by (rule run_rounds)
  also have "\<dots> = run E 0 ToolsNode (ms' @ [AIMessage c tcs]) w'"
    using l ne by (rule run_assistant_requests)
  finally have o1: "run E (2 * k + Suc 0) Assistant ms w = (OutOfSteps (ms' @ [AIMessage c tcs]), w')"
    by simp
  have "run E (2 * Suc k + 0) Assistant ms w = run E 0 Assistant (ms' @ AIMessage c tcs # results) w''"
    using r' by (rule run_rounds)
  then have o2: "run E (2 * Suc k) Assistant ms w = (OutOfSteps (ms' @ AIMessage c tcs # results), w'')"
    by simp
  from x la r' o1 o2 show "\<exists>results w''.
         execute_all E tools tcs w' = (Inr results, w'') \<and>
         list_all2 answers tcs results \<and>
         rounds E (Suc k) ms w = Some (ms' @ AIMessage c tcs # results, w'') \<and>
         run E (2 * k + Suc 0) Assistant ms w = (OutOfSteps (ms' @ [AIMessage c tcs]), w') \<and>
         run E (2 * Suc k) Assistant ms w = (OutOfSteps (ms' @ AIMessage c tcs # results), w'')"
    by (intro exI[of _ results] exI[of _ w'']) simp
next
  assume r: "rounds E k ms w = Some (ms', w')"
  have "run E (2 * k + 0) Assistant ms w = run E 0 Assistant ms' w'"
    using r by (rule run_rounds)
  then show "run E (2 * k) Assistant ms w = (OutOfSteps ms', w')" by simp
next
  assume a: "\<forall>h. \<exists>c tcs. llm_invoke E h = Inr (AIMessage c tcs) \<and> tcs \<noteq> []"
  show "\<forall>j. \<exists>ms' w'. rounds E j (saved @ turn_input query) w = Some (ms', w')"
    using insisting_rounds[OF a] by blast
  show "is_OutOfSteps (fst (agent_invoke E limit saved (turn_input query) w))"
    unfolding agent_invoke_def using insisting_never_done[OF a] by blast
qed

text \<open>
  The theorem at the sample environments. The sample turn makes one round trip, in which
  the details tool runs against the collaborators, and ends with the answer of the language
  model after three steps; two steps cut it off after the result, one step after the
  request. With the language model that asks for an action at every call, a second round
  trip follows the first, and a turn of 25 steps gives no answer.
\<close>

theorem loop_ends_only_on_answer_witness:
  "rounds demo_env 0 (turn_input ''is demo public?'') [] = Some (turn_input ''is demo public?'', []) \<and>
   llm_invoke demo_env (turn_input ''is demo public?'') = Inr (AIMessage [] [demo_request]) \<and>
   rounds demo_env (Suc 0) (turn_input ''is demo public?'') [] =
     Some (turn_input ''is demo public?'' @ AIMessage [] [demo_request] #
             [ToolMessage (JSON_stringify demo_details) ''get-repository-details'' ''call_1''],
           [Event ''octokit.rest.users.getAuthenticated'' []
              (Inr (JObj [(''data'', JObj [(''login'', JStr ''octo'')])])),
            Event ''octokit.rest.repos.get'' [JObj [(''owner'', JStr ''octo''), (''repo'', JStr ''demo'')]]
              (Inr (JObj [(''status'', JNum 200), (''data'', demo_repo)]))]) \<and>
   run demo_env (2 * 0 + Suc 0) Assistant (turn_input ''is demo public?'') [] =
     (OutOfSteps (turn_input ''is demo public?'' @ [AIMessage [] [demo_request]]), []) \<and>
   run demo_env (2 * Suc 0) Assistant (turn_input ''is demo public?'') [] =
     (OutOfSteps (turn_input ''is demo public?'' @ AIMessage [] [demo_request] #
             [ToolMessage (JSON_stringify demo_details) ''get-repository-details'' ''call_1'']),
      [Event ''octokit.rest.users.getAuthenticated'' []
         (Inr (JObj [(''data'', JObj [(''login'', JStr ''octo'')])])),
       Event ''octokit.rest.repos.get'' [JObj [(''owner'', JStr ''octo''), (''repo'', JStr ''demo'')]]
         (Inr (JObj [(''status'', JNum 200), (''data'', demo_repo)]))]) \<and>
   run demo_env (2 * Suc 0 + Suc 0) Assistant (turn_input ''is demo public?'') [] =
     (Done ((turn_input ''is demo public?'' @ AIMessage [] [demo_request] #
             [ToolMessage (JSON_stringify demo_details) ''get-repository-details'' ''call_1'']) @
            [AIMessage ''The repository demo is public.'' []]),
      [Event ''octokit.rest.users.getAuthenticated'' []
         (Inr (JObj [(''data'', JObj [(''login'', JStr ''octo'')])])),
       Event ''octokit.rest.repos.get'' [JObj [(''owner'', JStr ''octo''), (''repo'', JStr ''demo'')]]
         (Inr (JObj [(''status'', JNum 200), (''data'', demo_repo)]))]) \<and>
   (\<exists>ms' w'. rounds insisting_env 2 ([] @ turn_input ''is demo public?'') [] = Some (ms', w')) \<and>
   is_OutOfSteps (fst (agent_invoke insisting_env 25 [] (turn_input ''is demo public?'') []))"
proof -
  let ?q = "turn_input ''is demo public?''"
  let ?tm = "ToolMessage (JSON_stringify demo_details) ''get-repository-details'' ''call_1''"
  let ?w1 = "[Event ''octokit.rest.users.getAuthenticated'' []
         (Inr (JObj [(''data'', JObj [(''login'', JStr ''octo'')])])),
       Event ''octokit.rest.repos.get'' [JObj [(''owner'', JStr ''octo''), (''repo'', JStr ''demo'')]]
         (Inr (JObj [(''status'', JNum 200), (''data'', demo_repo)]))]"
  let ?ms1 = "?q @ AIMessage [] [demo_request] # [?tm]"
  have r0: "rounds demo_env 0 ?q [] = Some (?q, [])" by simp
  have l: "llm_invoke demo_env ?q = Inr (AIMessage [] [demo_request])" by code_simp
  have ne: "[demo_request] \<noteq> []" by simp
  have x: "execute_all demo_env tools [demo_request] [] = (Inr [?tm], ?w1)" by code_simp
  have l2: "llm_invoke demo_env ?ms1 = Inr (AIMessage ''The repository demo is public.'' [])"
    by code_simp
  have ins: "\<forall>h. \<exists>c tcs. llm_invoke insisting_env h = Inr (AIMessage c tcs) \<and> tcs \<noteq> []"
    by (simp add: insisting_env_def)
  note T0 = loop_ends_only_on_answer[where E = demo_env and k = 0 and ms = ?q and w = "[]"
      and ms' = ?q and w' = "[]" and c = "[]" and tcs = "[demo_request]"]
  from T0[THEN conjunct2, THEN conjunct1, THEN mp, OF conjI[OF r0 conjI[OF l ne]]]
  obtain results w'' where
    t1: "execute_all demo_env tools [demo_request] [] = (Inr results, w'')"
    and t2: "rounds demo_env (Suc 0) ?q [] = Some (?q @ AIMessage [] [demo_request] # results, w'')"
    and t3: "run demo_env (2 * 0 + Suc 0) Assistant ?q [] = (OutOfSteps (?q @ [AIMessage [] [demo_request]]), [])"
    and t4: "run demo_env (2 * Suc 0) Assistant ?q [] =
       (OutOfSteps (?q @ AIMessage [] [demo_request] # results), w'')"
    by blast
  from t1 x have rw: "results = [?tm]" "w'' = ?w1" by simp_all
  note r1 = t2[unfolded rw]
  note T1 = loop_ends_only_on_answer[where E = demo_env and k = "Suc 0" and ms = ?q and w = "[]"
      and ms' = ?ms1 and w' = ?w1 and c = "''The repository demo is public.''" and n = 0]
  from T1[THEN conjunct1, THEN mp, OF conjI[OF r1 l2]]
  have d: "run demo_env (2 * Suc 0 + Suc 0) Assistant ?q [] =
     (Done (?ms1 @ [AIMessage ''The repository demo is public.'' []]), ?w1)" .
  note T2 = loop_ends_only_on_answer[where E = insisting_env and saved = "[]" and limit = 25
      and query = "''is demo public?''" and w = "[]"]
  from T2[THEN conjunct2, THEN conjunct2, THEN conjunct2, THEN mp, OF ins]
  have i1: "\<exists>ms' w'. rounds insisting_env 2 ([] @ ?q) [] = Some (ms', w')"
    and i2: "is_OutOfSteps (fst (agent_invoke insisting_env 25 [] ?q []))"
    by blast+
  from T1[THEN conjunct2, THEN conjunct2, THEN conjunct1, THEN mp, OF r1]
  have c2: "run demo_env (2 * Suc 0) Assistant ?q [] = (OutOfSteps ?ms1, ?w1)" .
  from r0 l r1 t3 c2 d i1 i2 show ?thesis by (intro conjI)
qed

text \<open>
  C1 as stated fails: with a language model that asks for an action at every call, a turn
  with a budget of 25 steps is still unfinished when the budget is used up; \<open>main\<close> ends
  there and no answer has been printed.
\<close>

theorem loop_bound_counterexample:
  "is_OutOfSteps (fst (agent_invoke insisting_env 25 [] (turn_input ''is demo public?'') [])) \<and>
   fst (main insisting_env 25 [''is demo public?'', ''bye''] [] []) = TurnOutOfSteps \<and>
   calls_named ''console.log'' (snd (snd (main insisting_env 25 [''is demo public?'', ''bye''] [] []))) = []"
  by code_simp

section \<open>A fault of the language model\<close>

text \<open>
  C4, as the code has it: a turn puts two messages in front of the language model's first
  call, the system prompt and the user's message. When a call of the language model fails,
  the first of the turn or one after any number of round trips, the fault leaves
  \<open>agent.invoke\<close> and \<open>main\<close>, which has no handler: the session loop ends and reads no
  further line. The failed call appends nothing: the messages at the failure are the
  messages before the turn, the two messages of the input, and the round trips completed
  before the failure, each an assistant message with the results of its requests. When the
  first call of the turn fails, that is the count before the turn plus two.
\<close>

theorem engine_fault_ends_session:
  "(query \<noteq> ''bye'' \<and> llm_invoke E (saved @ turn_input query) = Inl e \<longrightarrow>
      main E (Suc n) (query # rest) saved w = (Uncaught e, saved @ turn_input query, w) \<and>
      length (saved @ turn_input query) = length saved + 2) \<and>
   (query \<noteq> ''bye'' \<and> rounds E k (saved @ turn_input query) w = Some (ms', w') \<and>
      llm_invoke E ms' = Inl e \<longrightarrow>
      agent_invoke E (2 * k + Suc n) saved (turn_input query) w = (Rejected e ms', w') \<and>
      main E (2 * k + Suc n) (query # rest) saved w = (Uncaught e, ms', w') \<and>
      (\<exists>completed. ms' = saved @ turn_input query @ completed \<and> paired completed)) \<and>
   (query \<noteq> ''bye'' \<and> fst (agent_invoke E limit saved (turn_input query) w) = Rejected e ms' \<longrightarrow>
      fst (main E limit (query # rest) saved w) = Uncaught e \<and>
      fst (snd (main E limit (query # rest) saved w)) = ms' \<and>
      (\<exists>completed. ms' = saved @ turn_input query @ completed \<and> paired completed \<and>
         (llm_invoke E ms' = Inl e \<or>
          (\<exists>m. llm_invoke E ms' = Inr m \<and> (\<forall>c tcs. m \<noteq> AIMessage c tcs)))))"
proof (intro conjI impI)
  assume a: "query \<noteq> ''bye'' \<and> llm_invoke E (saved @ turn_input query) = Inl e"
  then have "agent_invoke E (Suc n) saved (turn_input query) w =
      (Rejected e (saved @ turn_input query), w)"
    unfolding agent_invoke_def by (intro run_assistant_fault) simp
  with a show "main E (Suc n) (query # rest) saved w = (Uncaught e, saved @ turn_input query, w)"
    by simp
  show "length (saved @ turn_input query) = length saved + 2"
    by (simp add: turn_input_def)
next
  assume a: "query \<noteq> ''bye'' \<and> rounds E k (saved @ turn_input query) w = Some (ms', w') \<and>
      llm_invoke E ms' = Inl e"
  then have r: "rounds E k (saved @ turn_input query) w = Some (ms', w')"
    and l: "llm_invoke E ms' = Inl e" by simp_all
  have "run E (2 * k + Suc n) Assistant (saved @ turn_input query) w = run E (Suc n) Assistant ms' w'"
    using r by (rule run_rounds)
  also have "\<dots> = (Rejected e ms', w')"
    using l by (rule run_assistant_fault)
  finally show inv: "agent_invoke E (2 * k + Suc n) saved (turn_input query) w = (Rejected e ms', w')"
    unfolding agent_invoke_def .
  with a show "main E (2 * k + Suc n) (query # rest) saved w = (Uncaught e, ms', w')"
    by simp
  from rounds_paired[OF r] show "\<exists>completed. ms' = saved @ turn_input query @ completed \<and> paired completed"
    by auto
next
  assume a: "query \<noteq> ''bye'' \<and> fst (agent_invoke E limit saved (turn_input query) w) = Rejected e ms'"
  then obtain w' where r: "agent_invoke E limit saved (turn_input query) w = (Rejected e ms', w')"
    by (metis prod.collapse)
  with a show "fst (main E limit (query # rest) saved w) = Uncaught e"
    and "fst (snd (main E limit (query # rest) saved w)) = ms'"
    by simp_all
  from r run_Rejected[of E limit Assistant "saved @ turn_input query" w e ms' w']
  show "\<exists>completed. ms' = saved @ turn_input query @ completed \<and> paired completed \<and>
         (llm_invoke E ms' = Inl e \<or>
          (\<exists>m. llm_invoke E ms' = Inr m \<and> (\<forall>c tcs. m \<noteq> AIMessage c tcs)))"
    unfolding agent_invoke_def by auto
qed

text \<open>
  The theorem at three sample environments: a language model that cannot be reached at
  the first call of the turn, one that cannot be reached after a round trip, and one that
  cannot be reached after two round trips. In each, \<open>main\<close> ends with the fault and does
  not read the next line.
\<close>

theorem engine_fault_ends_session_witness:
  "llm_invoke unreachable_env ([] @ turn_input ''is demo public?'') = Inl (Error ''fetch failed'') \<and>
   main unreachable_env (Suc 24) [''is demo public?'', ''bye''] [] [] =
     (Uncaught (Error ''fetch failed''), [] @ turn_input ''is demo public?'', []) \<and>
   rounds failing_later_env 1 ([] @ turn_input ''is demo public?'') [] =
     Some (turn_input ''is demo public?'' @
           [AIMessage [] [demo_request],
            ToolMessage ''Not able to fetch more details of the repository''
              ''get-repository-details'' ''call_1''],
           [Event ''octokit.rest.users.getAuthenticated'' [] (Inl (Error ''Bad credentials'')),
            Event ''console.error'' [JStr ''ERROR: '', Error ''Bad credentials''] (Inr JUndefined)]) \<and>
   main failing_later_env (2 * 1 + Suc 0) [''is demo public?'', ''bye''] [] [] =
     (Uncaught (Error ''fetch failed''),
      turn_input ''is demo public?'' @
        [AIMessage [] [demo_request],
         ToolMessage ''Not able to fetch more details of the repository''
           ''get-repository-details'' ''call_1''],
      [Event ''octokit.rest.users.getAuthenticated'' [] (Inl (Error ''Bad credentials'')),
       Event ''console.error'' [JStr ''ERROR: '', Error ''Bad credentials''] (Inr JUndefined)]) \<and>
   rounds failing_third_env 2 ([] @ turn_input ''is demo public?'') [] =
     Some (turn_input ''is demo public?'' @
           [AIMessage [] [demo_request],
            ToolMessage (JSON_stringify demo_details) ''get-repository-details'' ''call_1'',
            AIMessage [] [demo_request],
            ToolMessage (JSON_stringify demo_details) ''get-repository-details'' ''call_1''],
           [Event ''octokit.rest.users.getAuthenticated'' []
              (Inr (JObj [(''data'', JObj [(''login'', JStr ''octo'')])])),
            Event ''octokit.rest.repos.get'' [JObj [(''owner'', JStr ''octo''), (''repo'', JStr ''demo'')]]
              (Inr (JObj [(''status'', JNum 200), (''data'', demo_repo)])),
            Event ''octokit.rest.users.getAuthenticated'' []
              (Inr (JObj [(''data'', JObj [(''login'', JStr ''octo'')])])),
            Event ''octokit.rest.repos.get'' [JObj [(''owner'', JStr ''octo''), (''repo'', JStr ''demo'')]]
              (Inr (JObj [(''status'', JNum 200), (''data'', demo_repo)]))]) \<and>
   fst (main failing_third_env (2 * 2 + Suc 20) [''is demo public?'', ''bye''] [] []) =
     Uncaught (Error ''fetch failed'') \<and>
   fst (agent_invoke failing_later_env 25 [] (turn_input ''is demo public?'') []) =
     Rejected (Error ''fetch failed'')
       (turn_input ''is demo public?'' @
        [AIMessage [] [demo_request],
         ToolMessage ''Not able to fetch more details of the repository''
           ''get-repository-details'' ''call_1'']) \<and>
   fst (main failing_later_env 25 [''is demo public?'', ''bye''] [] []) =
     Uncaught (Error ''fetch failed'')"
proof -
  let ?q = "''is demo public?''"
  let ?e = "Error ''fetch failed''"
  let ?ms1 = "turn_input ?q @
        [AIMessage [] [demo_request],
         ToolMessage ''Not able to fetch more details of the repository''
           ''get-repository-details'' ''call_1'']"
  let ?w1 = "[Event ''octokit.rest.users.getAuthenticated'' [] (Inl (Error ''Bad credentials'')),
       Event ''console.error'' [JStr ''ERROR: '', Error ''Bad credentials''] (Inr JUndefined)]"
  let ?ms2 = "turn_input ?q @
           [AIMessage [] [demo_request],
            ToolMessage (JSON_stringify demo_details) ''get-repository-details'' ''call_1'',
            AIMessage [] [demo_request],
            ToolMessage (JSON_stringify demo_details) ''get-repository-details'' ''call_1'']"
  let ?w2 = "[Event ''octokit.rest.users.getAuthenticated'' []
              (Inr (JObj [(''data'', JObj [(''login'', JStr ''octo'')])])),
            Event ''octokit.rest.repos.get'' [JObj [(''owner'', JStr ''octo''), (''repo'', JStr ''demo'')]]
              (Inr (JObj [(''status'', JNum 200), (''data'', demo_repo)])),
            Event ''octokit.rest.users.getAuthenticated'' []
              (Inr (JObj [(''data'', JObj [(''login'', JStr ''octo'')])])),
            Event ''octokit.rest.repos.get'' [JObj [(''owner'', JStr ''octo''), (''repo'', JStr ''demo'')]]
              (Inr (JObj [(''status'', JNum 200), (''data'', demo_repo)]))]"
  have q: "?q \<noteq> ''bye''" by simp
  have 1: "llm_invoke unreachable_env ([] @ turn_input ?q) = Inl ?e"
    by code_simp
  have r1: "rounds failing_later_env 1 ([] @ turn_input ?q) [] = Some (?ms1, ?w1)"
    by code_simp
  have l1: "llm_invoke failing_later_env ?ms1 = Inl ?e"
    by code_simp
  have r2: "rounds failing_third_env 2 ([] @ turn_input ?q) [] = Some (?ms2, ?w2)"
    by code_simp
  have l2: "llm_invoke failing_third_env ?ms2 = Inl ?e"
    by code_simp
  have 2: "fst (agent_invoke failing_later_env 25 [] (turn_input ?q) []) = Rejected ?e ?ms1"
    by code_simp
  from engine_fault_ends_session[where E = unreachable_env and query = ?q and saved = "[]"
      and e = ?e and n = 24 and rest = "[''bye'']" and w = "[]",
      THEN conjunct1, THEN mp, OF conjI[OF q 1]]
  have a: "main unreachable_env (Suc 24) [?q, ''bye''] [] [] =
     (Uncaught ?e, [] @ turn_input ?q, [])"
    by blast
  from engine_fault_ends_session[where E = failing_later_env and query = ?q and saved = "[]"
      and e = ?e and k = 1 and n = 0 and rest = "[''bye'']" and w = "[]" and ms' = ?ms1 and w' = ?w1,
      THEN conjunct2, THEN conjunct1, THEN mp, OF conjI[OF q conjI[OF r1 l1]]]
  have b: "main failing_later_env (2 * 1 + Suc 0) [?q, ''bye''] [] [] = (Uncaught ?e, ?ms1, ?w1)"
    by blast
  from engine_fault_ends_session[where E = failing_third_env and query = ?q and saved = "[]"
      and e = ?e and k = 2 and n = 20 and rest = "[''bye'']" and w = "[]" and ms' = ?ms2 and w' = ?w2,
      THEN conjunct2, THEN conjunct1, THEN mp, OF conjI[OF q conjI[OF r2 l2]]]
  have "main failing_third_env (2 * 2 + Suc 20) [?q, ''bye''] [] [] = (Uncaught ?e, ?ms2, ?w2)"
    by blast
  then have c: "fst (main failing_third_env (2 * 2 + Suc 20) [?q, ''bye''] [] []) = Uncaught ?e"
    by simp
  from engine_fault_ends_session[where E = failing_later_env and query = ?q and saved = "[]"
      and e = ?e and limit = 25 and rest = "[''bye'']" and w = "[]" and ms' = ?ms1,
      THEN conjunct2, THEN conjunct2, THEN mp, OF conjI[OF q 2]]
  have d: "fst (main failing_later_env 25 [?q, ''bye''] [] []) = Uncaught ?e"
    by blast
  from 1 a r1 b r2 c 2 d show ?thesis by (intro conjI)
qed

text \<open>
  C4 as stated fails: when the language model cannot be reached at the first call of the
  first turn, the thread has two messages, not one, and \<open>main\<close> has ended; when it
  cannot be reached after a round trip, the assistant message and the result of that round
  trip are among the messages as well.
\<close>

theorem engine_fault_counterexample:
  "main unreachable_env 25 [''is demo public?'', ''bye''] [] [] =
     (Uncaught (Error ''fetch failed''),
      [SystemMessage ''You are a smart github personal assistant to create and manage github repositories.'',
       HumanMessage ''is demo public?''],
      []) \<and>
   fst (snd (main failing_later_env 25 [''is demo public?'', ''bye''] [] [])) =
     [SystemMessage ''You are a smart github personal assistant to create and manage github repositories.'',
      HumanMessage ''is demo public?'',
      AIMessage [] [demo_request],
      ToolMessage ''Not able to fetch more details of the repository''
        ''get-repository-details'' ''call_1'']"
  by code_simp

end
